theory Spec2Isabelle
  imports Complex_Main "HOL-Library.Word" "HOL-Library.Multiset"
begin

unbundle bit_operations_syntax

section \<open>Modelling conventions\<close>

text \<open>
  The development embeds the C sources of Urbis (geometry.c, kdtree.c, quadtree.c, page.c,
  disk_manager.c, spatial_index.c) as HOL functions.

  \<^item> A C \<open>double\<close> is a \<open>real\<close>: comparisons, \<open>min\<close>/\<open>max\<close> selection and copies are
    exact on doubles, arithmetic is idealised (no rounding, no NaN). The constant
    \<open>DBL_MAX\<close> is the largest finite double, and \<open>is_double\<close> says that a real lies in
    the range of finite doubles.
  \<^item> A C array with its count field is a list; the count is the length of the list.
    Growth of an array by \<open>realloc\<close> is not visible, and \<open>malloc\<close>, \<open>calloc\<close> and
    \<open>realloc\<close> succeed.
  \<^item> Counters and identifiers (\<open>uint32_t\<close>, \<open>uint64_t\<close>, \<open>size_t\<close>) are natural numbers
    in the index layer; the storage layer (page images) uses machine words.
  \<^item> A pointer into the page pool is the position of the page in \<open>pool.pages\<close>; a pointer to
    an object stored in a page is the pair of the page position and the slot; a pointer to a
    track is its position in \<open>pool.tracks\<close>. A nullable pointer is an \<open>option\<close>.
  \<^item> A function that mutates its argument returns the new value, together with its status
    code when it has one.
\<close>

section \<open>Geometry primitives (geometry.c)\<close>

record point =
  px :: real
  py :: real

record mbr =
  min_x :: real
  min_y :: real
  max_x :: real
  max_y :: real

definition DBL_MAX :: real where
  "DBL_MAX = (2 - 1 / 2 ^ 52) * 2 ^ 1023"

definition is_double :: "real \<Rightarrow> bool" where
  "is_double v \<longleftrightarrow> - DBL_MAX \<le> v \<and> v \<le> DBL_MAX"

definition EPSILON :: real where
  "EPSILON = 1 / 10 ^ 10"

definition point_create :: "real \<Rightarrow> real \<Rightarrow> point" where
  "point_create x y = \<lparr>px = x, py = y\<rparr>"

definition point_distance_sq :: "point \<Rightarrow> point \<Rightarrow> real" where
  "point_distance_sq a b =
     (let dx = px b - px a; dy = py b - py a in dx * dx + dy * dy)"

definition point_distance :: "point \<Rightarrow> point \<Rightarrow> real" where
  "point_distance a b = sqrt (point_distance_sq a b)"

definition mbr_create :: "real \<Rightarrow> real \<Rightarrow> real \<Rightarrow> real \<Rightarrow> mbr" where
  "mbr_create x0 y0 x1 y1 = \<lparr>min_x = x0, min_y = y0, max_x = x1, max_y = y1\<rparr>"

definition mbr_empty :: mbr where
  "mbr_empty = \<lparr>min_x = DBL_MAX, min_y = DBL_MAX, max_x = - DBL_MAX, max_y = - DBL_MAX\<rparr>"

definition mbr_is_empty :: "mbr \<Rightarrow> bool" where
  "mbr_is_empty m \<longleftrightarrow> min_x m > max_x m \<or> min_y m > max_y m"

definition mbr_expand_point :: "mbr \<Rightarrow> point \<Rightarrow> mbr" where
  "mbr_expand_point m p =
     (let m1 = (if px p < min_x m then m\<lparr>min_x := px p\<rparr> else m);
          m2 = (if py p < min_y m1 then m1\<lparr>min_y := py p\<rparr> else m1);
          m3 = (if px p > max_x m2 then m2\<lparr>max_x := px p\<rparr> else m2);
          m4 = (if py p > max_y m3 then m3\<lparr>max_y := py p\<rparr> else m3)
      in m4)"

definition mbr_expand_mbr :: "mbr \<Rightarrow> mbr \<Rightarrow> mbr" where
  "mbr_expand_mbr m other =
     (if mbr_is_empty other then m
      else
        (let m1 = (if min_x other < min_x m then m\<lparr>min_x := min_x other\<rparr> else m);
             m2 = (if min_y other < min_y m1 then m1\<lparr>min_y := min_y other\<rparr> else m1);
             m3 = (if max_x other > max_x m2 then m2\<lparr>max_x := max_x other\<rparr> else m2);
             m4 = (if max_y other > max_y m3 then m3\<lparr>max_y := max_y other\<rparr> else m3)
         in m4))"

definition mbr_intersects :: "mbr \<Rightarrow> mbr \<Rightarrow> bool" where
  "mbr_intersects a b \<longleftrightarrow>
     (if mbr_is_empty a \<or> mbr_is_empty b then False
      else \<not> (max_x a < min_x b \<or> min_x a > max_x b \<or>
               max_y a < min_y b \<or> min_y a > max_y b))"

definition mbr_contains_point :: "mbr \<Rightarrow> point \<Rightarrow> bool" where
  "mbr_contains_point m p \<longleftrightarrow>
     (if mbr_is_empty m then False
      else px p \<ge> min_x m \<and> px p \<le> max_x m \<and> py p \<ge> min_y m \<and> py p \<le> max_y m)"

definition mbr_contains_mbr :: "mbr \<Rightarrow> mbr \<Rightarrow> bool" where
  "mbr_contains_mbr a b \<longleftrightarrow>
     (if mbr_is_empty a \<or> mbr_is_empty b then False
      else min_x b \<ge> min_x a \<and> max_x b \<le> max_x a \<and>
           min_y b \<ge> min_y a \<and> max_y b \<le> max_y a)"

definition mbr_centroid :: "mbr \<Rightarrow> point" where
  "mbr_centroid m =
     (if mbr_is_empty m then \<lparr>px = 0, py = 0\<rparr>
      else \<lparr>px = (min_x m + max_x m) / 2, py = (min_y m + max_y m) / 2\<rparr>)"

definition mbr_area :: "mbr \<Rightarrow> real" where
  "mbr_area m = (if mbr_is_empty m then 0 else (max_x m - min_x m) * (max_y m - min_y m))"

subsection \<open>Linestrings, polygons and spatial objects\<close>

text \<open>
  The type tag of a \<open>SpatialObject\<close> and its union are one datatype. A linestring is its
  point array; a polygon is its exterior ring and its holes.
\<close>

datatype geometry =
    GEOM_POINT point
  | GEOM_LINESTRING "point list"
  | GEOM_POLYGON "point list" "point list list"

datatype geom_error =
    GEOM_ERR_NULL_PTR | GEOM_ERR_ALLOC | GEOM_ERR_INVALID_GEOM
  | GEOM_ERR_EMPTY_GEOM | GEOM_ERR_INDEX_OUT_OF_BOUNDS

record spatial_object =
  obj_id :: nat
  obj_geom :: geometry
  obj_centroid :: point
  obj_mbr :: mbr
  obj_properties :: "8 word list"

text \<open>The loop of \<open>linestring_centroid\<close> over the segments \<open>(points[i], points[i+1])\<close>;
  the accumulator is \<open>(cx, cy, total_length)\<close>.\<close>

fun linestring_centroid_loop :: "point list \<Rightarrow> real \<times> real \<times> real \<Rightarrow> real \<times> real \<times> real" where
  "linestring_centroid_loop (p1 # p2 # ps) (cx, cy, total_length) =
     (let seg_length = point_distance p1 p2;
          mid_x = (px p1 + px p2) / 2;
          mid_y = (py p1 + py p2) / 2
      in linestring_centroid_loop (p2 # ps)
           (cx + mid_x * seg_length, cy + mid_y * seg_length, total_length + seg_length))"
| "linestring_centroid_loop ps acc = acc"

definition linestring_centroid :: "point list \<Rightarrow> geom_error + point" where
  "linestring_centroid ls =
     (case ls of
        [] \<Rightarrow> Inl GEOM_ERR_EMPTY_GEOM
      | [p] \<Rightarrow> Inr p
      | p # _ \<Rightarrow>
          (case linestring_centroid_loop ls (0, 0, 0) of
             (cx, cy, total_length) \<Rightarrow>
               if total_length < EPSILON then Inr \<lparr>px = px p, py = py p\<rparr>
               else Inr \<lparr>px = cx / total_length, py = cy / total_length\<rparr>))"

definition linestring_mbr :: "point list \<Rightarrow> geom_error + mbr" where
  "linestring_mbr ls =
     (if ls = [] then Inl GEOM_ERR_EMPTY_GEOM
      else Inr (fold (\<lambda>p m. mbr_expand_point m p) ls mbr_empty))"

text \<open>\<open>ring_signed_area\<close> and \<open>ring_centroid\<close> pair \<open>ring[i]\<close> with \<open>ring[(i + 1) % count]\<close>.\<close>

definition ring_pairs :: "point list \<Rightarrow> (point \<times> point) list" where
  "ring_pairs ring =
     map (\<lambda>i. (ring ! i, ring ! ((i + 1) mod length ring))) [0..<length ring]"

definition ring_signed_area :: "point list \<Rightarrow> real" where
  "ring_signed_area ring =
     (if length ring < 3 then 0
      else fold (\<lambda>(a, b) area. area + px a * py b - px b * py a) (ring_pairs ring) 0 / 2)"

definition ring_centroid :: "point list \<Rightarrow> real \<times> real" where
  "ring_centroid ring =
     (if length ring < 3 then (0, 0)
      else
        (let area = ring_signed_area ring in
         if \<bar>area\<bar> < EPSILON then
           (fold (\<lambda>p cx. cx + px p) ring 0 / real (length ring),
            fold (\<lambda>p cy. cy + py p) ring 0 / real (length ring))
         else
           (fold (\<lambda>(a, b) cx. cx + (px a + px b) * (px a * py b - px b * py a))
                 (ring_pairs ring) 0 / (6 * area),
            fold (\<lambda>(a, b) cy. cy + (py a + py b) * (px a * py b - px b * py a))
                 (ring_pairs ring) 0 / (6 * area))))"

definition polygon_centroid :: "point list \<Rightarrow> geom_error + point" where
  "polygon_centroid ext =
     (if length ext < 3 then Inl GEOM_ERR_INVALID_GEOM
      else (case ring_centroid ext of (cx, cy) \<Rightarrow> Inr \<lparr>px = cx, py = cy\<rparr>))"

definition polygon_mbr :: "point list \<Rightarrow> geom_error + mbr" where
  "polygon_mbr ext =
     (if ext = [] then Inl GEOM_ERR_EMPTY_GEOM
      else Inr (fold (\<lambda>p m. mbr_expand_point m p) ext mbr_empty))"

text \<open>\<open>spatial_object_update_derived\<close> returns on the first error and leaves the fields
  it has not yet written as they were; callers in spatial_index.c ignore its status.\<close>

definition spatial_object_update_derived :: "spatial_object \<Rightarrow> spatial_object" where
  "spatial_object_update_derived obj =
     (case obj_geom obj of
        GEOM_POINT p \<Rightarrow>
          obj\<lparr>obj_centroid := p, obj_mbr := mbr_create (px p) (py p) (px p) (py p)\<rparr>
      | GEOM_LINESTRING ls \<Rightarrow>
          (case linestring_centroid ls of
             Inl e \<Rightarrow> obj
           | Inr c \<Rightarrow>
               (case linestring_mbr ls of
                  Inl e \<Rightarrow> obj\<lparr>obj_centroid := c\<rparr>
                | Inr m \<Rightarrow> obj\<lparr>obj_centroid := c, obj_mbr := m\<rparr>))
      | GEOM_POLYGON ext hs \<Rightarrow>
          (case polygon_centroid ext of
             Inl e \<Rightarrow> obj
           | Inr c \<Rightarrow>
               (case polygon_mbr ext of
                  Inl e \<Rightarrow> obj\<lparr>obj_centroid := c\<rparr>
                | Inr m \<Rightarrow> obj\<lparr>obj_centroid := c, obj_mbr := m\<rparr>)))"

text \<open>\<open>spatial_object_copy\<close> copies every field (deep copy of the geometry and of the
  properties blob), so the copy is the value itself.\<close>

definition spatial_object_copy :: "spatial_object \<Rightarrow> spatial_object" where
  "spatial_object_copy src = src"

section \<open>K-d tree (kdtree.c)\<close>

datatype kd_status = KD_OK | KD_ERR_NULL_PTR | KD_ERR_ALLOC | KD_ERR_EMPTY | KD_ERR_NOT_FOUND

text \<open>A node pointer is a node or \<open>KDNull\<close>; the user data pointer is an \<open>option\<close>.\<close>

datatype 'd kdnode =
    KDNull
  | KDNode (kd_point: point) (kd_object_id: nat) (kd_data: "'d option") (kd_split_dim: nat)
           (kd_left: "'d kdnode") (kd_right: "'d kdnode") (kd_bounds: mbr) (kd_subtree_size: nat)

record 'd kdtree =
  kd_root :: "'d kdnode"
  kd_size :: nat
  kd_tree_bounds :: mbr

text \<open>\<open>KDPointData\<close>; a \<open>KDQueryResult\<close> (three parallel arrays and a count) is a list
  of these entries.\<close>

record 'd kd_point_data =
  kp_point :: point
  kp_object_id :: nat
  kp_data :: "'d option"

definition compare_by_x :: "'d kd_point_data \<Rightarrow> 'd kd_point_data \<Rightarrow> int" where
  "compare_by_x pa pb =
     (if px (kp_point pa) < px (kp_point pb) then - 1
      else if px (kp_point pa) > px (kp_point pb) then 1 else 0)"

definition compare_by_y :: "'d kd_point_data \<Rightarrow> 'd kd_point_data \<Rightarrow> int" where
  "compare_by_y pa pb =
     (if py (kp_point pa) < py (kp_point pb) then - 1
      else if py (kp_point pa) > py (kp_point pb) then 1 else 0)"

definition kdnode_create :: "point \<Rightarrow> nat \<Rightarrow> 'd option \<Rightarrow> nat \<Rightarrow> 'd kdnode" where
  "kdnode_create p object_id data split_dim =
     KDNode p object_id data split_dim KDNull KDNull (mbr_create (px p) (py p) (px p) (py p)) 1"

definition kdnode_update_bounds :: "'d kdnode \<Rightarrow> 'd kdnode" where
  "kdnode_update_bounds node =
     (case node of
        KDNull \<Rightarrow> KDNull
      | KDNode p oid d sdim l r b n \<Rightarrow>
          (let b0 = mbr_create (px p) (py p) (px p) (py p);
               n0 = 1;
               (b1, n1) = (case l of KDNull \<Rightarrow> (b0, n0)
                           | KDNode _ _ _ _ _ _ lbnd lsz \<Rightarrow> (mbr_expand_mbr b0 lbnd, n0 + lsz));
               (b2, n2) = (case r of KDNull \<Rightarrow> (b1, n1)
                           | KDNode _ _ _ _ _ _ rbnd rsz \<Rightarrow> (mbr_expand_mbr b1 rbnd, n1 + rsz))
           in KDNode p oid d sdim l r b2 n2))"

text \<open>
  \<open>qsort\<close> is the C library's: the order it gives to elements that compare equal is not
  specified, so the sorting function is a parameter \<open>qs\<close> of \<open>build_tree_recursive\<close> and
  of its callers. The array has \<open>count\<close> elements before and after the call.
\<close>

function build_tree_recursive ::
  "(('d kd_point_data \<Rightarrow> 'd kd_point_data \<Rightarrow> int) \<Rightarrow> 'd kd_point_data list \<Rightarrow> 'd kd_point_data list)
    \<Rightarrow> 'd kd_point_data list \<Rightarrow> nat \<Rightarrow> 'd kdnode" where
  "build_tree_recursive qs points depth =
     (if points = [] then KDNull
      else
        (let count = length points;
             sdim = depth mod 2;
             sorted = qs (if sdim = 0 then compare_by_x else compare_by_y) points;
             median = count div 2;
             m = sorted ! median;
             l = build_tree_recursive qs (take median sorted) (depth + 1);
             r = build_tree_recursive qs
                   (take (count - median - 1) (drop (median + 1) sorted)) (depth + 1)
         in kdnode_update_bounds
              (KDNode (kp_point m) (kp_object_id m) (kp_data m) sdim l r
                 (mbr_create (px (kp_point m)) (py (kp_point m)) (px (kp_point m)) (py (kp_point m)))
                 1)))"
  by pat_completeness auto
termination
proof (relation "measure (\<lambda>(qs, points, depth). length points)", goal_cases)
  case 1
  show ?case by simp
next
  case (2 qs points depth count sdim sorted median m)
  then have "median < length points" by simp
  then show ?case by simp
next
  case (3 qs points depth count sdim sorted median m l)
  then have "length points - Suc (length points div 2) < length points" by simp
  with 3 show ?case by (simp add: min_less_iff_disj)
qed

fun insert_recursive :: "'d kdnode \<Rightarrow> point \<Rightarrow> nat \<Rightarrow> 'd option \<Rightarrow> nat \<Rightarrow> 'd kdnode" where
  "insert_recursive KDNull p object_id data depth = kdnode_create p object_id data (depth mod 2)"
| "insert_recursive (KDNode pt oid d sdim l r b n) p object_id data depth =
     (let coord = (if sdim = 0 then px p else py p);
          split = (if sdim = 0 then px pt else py pt)
      in if coord < split
         then KDNode pt oid d sdim (insert_recursive l p object_id data (depth + 1)) r
                (mbr_expand_point b p) (n + 1)
         else KDNode pt oid d sdim l (insert_recursive r p object_id data (depth + 1))
                (mbr_expand_point b p) (n + 1))"

record 'd nn_state =
  nn_query :: point
  nn_best :: point
  nn_best_id :: nat
  nn_best_data :: "'d option"
  nn_best_dist_sq :: real

fun nearest_recursive :: "'d kdnode \<Rightarrow> 'd nn_state \<Rightarrow> 'd nn_state" where
  "nearest_recursive KDNull st = st"
| "nearest_recursive (KDNode pt oid d sdim l r b n) st =
     (let dist_sq = point_distance_sq (nn_query st) pt;
          st1 = (if dist_sq < nn_best_dist_sq st
                 then st\<lparr>nn_best_dist_sq := dist_sq, nn_best := pt,
                         nn_best_id := oid, nn_best_data := d\<rparr>
                 else st);
          coord = (if sdim = 0 then px (nn_query st) else py (nn_query st));
          split = (if sdim = 0 then px pt else py pt);
          diff = coord - split
      in if diff < 0
         then (let st2 = nearest_recursive l st1
               in if diff * diff < nn_best_dist_sq st2 then nearest_recursive r st2 else st2)
         else (let st2 = nearest_recursive r st1
               in if diff * diff < nn_best_dist_sq st2 then nearest_recursive l st2 else st2))"

fun range_query_recursive ::
  "'d kdnode \<Rightarrow> mbr \<Rightarrow> 'd kd_point_data list \<Rightarrow> 'd kd_point_data list" where
  "range_query_recursive KDNull rng result = result"
| "range_query_recursive (KDNode pt oid d sdim l r b n) rng result =
     (if \<not> mbr_intersects b rng then result
      else
        (let result1 = (if mbr_contains_point rng pt
                        then result @ [\<lparr>kp_point = pt, kp_object_id = oid, kp_data = d\<rparr>]
                        else result);
             result2 = range_query_recursive l rng result1
         in range_query_recursive r rng result2))"

definition kdtree_init :: "'d kdtree" where
  "kdtree_init = \<lparr>kd_root = KDNull, kd_size = 0, kd_tree_bounds = mbr_empty\<rparr>"

definition kdtree_insert :: "'d kdtree \<Rightarrow> point \<Rightarrow> nat \<Rightarrow> 'd option \<Rightarrow> 'd kdtree" where
  "kdtree_insert tree p object_id data =
     tree\<lparr>kd_root := insert_recursive (kd_root tree) p object_id data 0,
          kd_tree_bounds := mbr_expand_point (kd_tree_bounds tree) p,
          kd_size := kd_size tree + 1\<rparr>"

definition kdtree_bulk_load ::
  "(('d kd_point_data \<Rightarrow> 'd kd_point_data \<Rightarrow> int) \<Rightarrow> 'd kd_point_data list \<Rightarrow> 'd kd_point_data list)
    \<Rightarrow> 'd kdtree \<Rightarrow> 'd kd_point_data list \<Rightarrow> 'd kdtree" where
  "kdtree_bulk_load qs tree points =
     (if points = [] then tree
      else \<lparr>kd_root = build_tree_recursive qs points 0,
            kd_size = length points,
            kd_tree_bounds = fold (\<lambda>p m. mbr_expand_point m (kp_point p)) points mbr_empty\<rparr>)"

definition kdtree_nearest :: "'d kdtree \<Rightarrow> point \<Rightarrow> kd_status + (point \<times> nat \<times> 'd option)" where
  "kdtree_nearest tree query =
     (case kd_root tree of
        KDNull \<Rightarrow> Inl KD_ERR_EMPTY
      | KDNode pt oid d sdim l r b n \<Rightarrow>
          (let st = nearest_recursive (kd_root tree)
                      \<lparr>nn_query = query, nn_best = pt, nn_best_id = oid,
                       nn_best_data = d, nn_best_dist_sq = DBL_MAX\<rparr>
           in Inr (nn_best st, nn_best_id st, nn_best_data st)))"

text \<open>The selection sort of \<open>kdtree_k_nearest\<close>. \<open>distances\<close> is the array of
  \<open>DistEntry {idx, dist_sq}\<close>; the inner loop looks for the first smallest entry from
  position \<open>i\<close> on.\<close>

definition select_min_idx :: "(nat \<times> real) list \<Rightarrow> nat \<Rightarrow> nat" where
  "select_min_idx distances i =
     fold (\<lambda>j min_idx. if snd (distances ! j) < snd (distances ! min_idx) then j else min_idx)
          [i + 1..<length distances] i"

function k_nearest_loop ::
  "nat \<Rightarrow> nat \<Rightarrow> 'd kd_point_data list \<Rightarrow> (nat \<times> real) list \<Rightarrow> 'd kd_point_data list
    \<Rightarrow> 'd kd_point_data list" where
  "k_nearest_loop i k all distances result =
     (if i < k \<and> i < length all then
        (let min_idx = select_min_idx distances i;
             distances1 = (if min_idx \<noteq> i
                           then distances[i := distances ! min_idx, min_idx := distances ! i]
                           else distances);
             idx = fst (distances1 ! i)
         in k_nearest_loop (i + 1) k all distances1 (result @ [all ! idx]))
      else result)"
  by pat_completeness auto
termination
  by (relation "measure (\<lambda>(i, k, all, distances, result). length all - i)") auto

definition kdtree_k_nearest ::
  "'d kdtree \<Rightarrow> point \<Rightarrow> nat \<Rightarrow> 'd kd_point_data list \<Rightarrow> kd_status \<times> 'd kd_point_data list" where
  "kdtree_k_nearest tree query k result =
     (if kd_root tree = KDNull then (KD_ERR_EMPTY, result)
      else if k = 0 then (KD_OK, result)
      else
        (let all = range_query_recursive (kd_root tree) (kd_tree_bounds tree) [];
             distances = map (\<lambda>i. (i, point_distance_sq query (kp_point (all ! i))))
                             [0..<length all]
         in (KD_OK, k_nearest_loop 0 k all distances [])))"

fun collect_leaf_bounds :: "'d kdnode \<Rightarrow> nat \<Rightarrow> mbr list \<Rightarrow> mbr list" where
  "collect_leaf_bounds KDNull max_size bounds = bounds"
| "collect_leaf_bounds (KDNode pt oid d sdim l r b n) max_size bounds =
     (if n \<le> max_size \<or> (l = KDNull \<and> r = KDNull) then bounds @ [b]
      else collect_leaf_bounds r max_size (collect_leaf_bounds l max_size bounds))"

definition kdtree_partition :: "'d kdtree \<Rightarrow> nat \<Rightarrow> mbr list" where
  "kdtree_partition tree max_points_per_block =
     (if kd_root tree = KDNull then []
      else collect_leaf_bounds (kd_root tree) max_points_per_block [])"

section \<open>Quadtree (quadtree.c)\<close>

datatype qt_status =
  QT_OK | QT_ERR_NULL_PTR | QT_ERR_ALLOC | QT_ERR_BOUNDS | QT_ERR_NOT_FOUND | QT_ERR_FULL

record 'd qt_item =
  qi_id :: nat
  qi_bounds :: mbr
  qi_centroid :: point
  qi_data :: "'d option"

text \<open>A node carries its four child pointers in the order of the enumeration \<open>Quadrant\<close>:
  \<open>QT_NW = 0\<close>, \<open>QT_NE = 1\<close>, \<open>QT_SW = 2\<close>, \<open>QT_SE = 3\<close>. The loops \<open>for q in 0..3\<close> of the
  source are written out in that order.\<close>

datatype 'd qtnode =
    QTNull
  | QTNode (qt_bounds: mbr) (qt_items: "'d qt_item list") (qt_item_capacity: nat)
           (qt_nw: "'d qtnode") (qt_ne: "'d qtnode") (qt_sw: "'d qtnode") (qt_se: "'d qtnode")
           (qt_depth: int) (qt_is_leaf: bool)

record 'd quadtree =
  qt_root :: "'d qtnode"
  qt_total_items :: nat
  qt_node_capacity :: nat
  qt_max_depth :: int

definition QT_MAX_DEPTH :: int where "QT_MAX_DEPTH = 20"
definition QT_DEFAULT_CAPACITY :: nat where "QT_DEFAULT_CAPACITY = 8"

definition qtnode_create :: "mbr \<Rightarrow> nat \<Rightarrow> int \<Rightarrow> 'd qtnode" where
  "qtnode_create bounds capacity depth =
     QTNode bounds [] (if capacity > 0 then capacity else QT_DEFAULT_CAPACITY)
       QTNull QTNull QTNull QTNull depth True"

text \<open>One step of the redistribution loop of \<open>qtnode_split\<close>: the item goes to the first
  child whose bounds contain it and whose item array has room; otherwise nothing is done
  with it.\<close>

definition child_takes :: "'d qtnode \<Rightarrow> 'd qt_item \<Rightarrow> bool" where
  "child_takes c item \<longleftrightarrow>
     mbr_contains_mbr (qt_bounds c) (qi_bounds item) \<and> length (qt_items c) < qt_item_capacity c"

definition child_append :: "'d qtnode \<Rightarrow> 'd qt_item \<Rightarrow> 'd qtnode" where
  "child_append c item =
     (case c of
        QTNull \<Rightarrow> QTNull
      | QTNode b its cap nw ne sw se depth leaf \<Rightarrow> QTNode b (its @ [item]) cap nw ne sw se depth leaf)"

definition redistribute_item ::
  "'d qt_item \<Rightarrow> 'd qtnode \<times> 'd qtnode \<times> 'd qtnode \<times> 'd qtnode
     \<Rightarrow> 'd qtnode \<times> 'd qtnode \<times> 'd qtnode \<times> 'd qtnode" where
  "redistribute_item item cs =
     (case cs of (nw, ne, sw, se) \<Rightarrow>
        if child_takes nw item then (child_append nw item, ne, sw, se)
        else if child_takes ne item then (nw, child_append ne item, sw, se)
        else if child_takes sw item then (nw, ne, child_append sw item, se)
        else if child_takes se item then (nw, ne, sw, child_append se item)
        else (nw, ne, sw, se))"

definition qtnode_split :: "'d qtnode \<Rightarrow> nat \<Rightarrow> qt_status \<times> 'd qtnode" where
  "qtnode_split node capacity =
     (case node of
        QTNull \<Rightarrow> (QT_ERR_NULL_PTR, node)
      | QTNode b its cap nw ne sw se depth leaf \<Rightarrow>
          if \<not> leaf then (QT_ERR_NULL_PTR, node)
          else
            (let mid_x = (min_x b + max_x b) / 2;
                 mid_y = (min_y b + max_y b) / 2;
                 c_nw = qtnode_create (mbr_create (min_x b) mid_y mid_x (max_y b)) capacity (depth + 1);
                 c_ne = qtnode_create (mbr_create mid_x mid_y (max_x b) (max_y b)) capacity (depth + 1);
                 c_sw = qtnode_create (mbr_create (min_x b) (min_y b) mid_x mid_y) capacity (depth + 1);
                 c_se = qtnode_create (mbr_create mid_x (min_y b) (max_x b) mid_y) capacity (depth + 1)
             in (case fold redistribute_item its (c_nw, c_ne, c_sw, c_se) of
                   (nw', ne', sw', se') \<Rightarrow>
                     (QT_OK, QTNode b [] cap nw' ne' sw' se' depth False))))"

text \<open>Appending to the item array of a node doubles \<open>item_capacity\<close> when the array is
  full.\<close>

definition node_append :: "'d qtnode \<Rightarrow> 'd qt_item \<Rightarrow> 'd qtnode" where
  "node_append node item =
     (case node of
        QTNull \<Rightarrow> QTNull
      | QTNode b its cap nw ne sw se depth leaf \<Rightarrow>
          QTNode b (its @ [item]) (if length its \<ge> cap then cap * 2 else cap)
            nw ne sw se depth leaf)"

fun qt_measure :: "int \<Rightarrow> 'd qtnode \<Rightarrow> nat" where
  "qt_measure M QTNull = 0"
| "qt_measure M (QTNode b its cap nw ne sw se depth leaf) =
     (if leaf then 2 * nat (M - depth) + 1
      else 1 + max (max (qt_measure M nw) (qt_measure M ne))
                   (max (qt_measure M sw) (qt_measure M se)))"

lemma qt_measure_child_append [simp]: "qt_measure M (child_append c item) = qt_measure M c"
  by (cases c) (simp_all add: child_append_def)

lemma qt_measure_redistribute_item:
  "redistribute_item item (a, b, c, d) = (a', b', c', d') \<Longrightarrow>
   qt_measure M a' = qt_measure M a \<and> qt_measure M b' = qt_measure M b \<and>
   qt_measure M c' = qt_measure M c \<and> qt_measure M d' = qt_measure M d"
  by (auto simp: redistribute_item_def split: if_splits)

lemma qt_measure_redistribute:
  "fold redistribute_item its (a, b, c, d) = (a', b', c', d') \<Longrightarrow>
   qt_measure M a' = qt_measure M a \<and> qt_measure M b' = qt_measure M b \<and>
   qt_measure M c' = qt_measure M c \<and> qt_measure M d' = qt_measure M d"
proof (induction its arbitrary: a b c d)
  case Nil
  then show ?case by simp
next
  case (Cons item its)
  obtain a1 b1 c1 d1 where step: "redistribute_item item (a, b, c, d) = (a1, b1, c1, d1)"
    by (cases "redistribute_item item (a, b, c, d)") auto
  with Cons.prems have "fold redistribute_item its (a1, b1, c1, d1) = (a', b', c', d')"
    by simp
  from Cons.IH [OF this] qt_measure_redistribute_item [OF step, of M] show ?case
    by simp
qed

lemma qt_measure_split:
  assumes "qtnode_split (QTNode b its cap nw ne sw se depth True) capacity = (st, node')"
    and "depth < M"
  shows "st = QT_OK" and "qt_measure M node' < qt_measure M (QTNode b its cap nw ne sw se depth True)"
proof -
  let ?mx = "(min_x b + max_x b) / 2" and ?my = "(min_y b + max_y b) / 2"
  let ?c1 = "qtnode_create (mbr_create (min_x b) ?my ?mx (max_y b)) capacity (depth + 1) :: 'a qtnode"
  let ?c2 = "qtnode_create (mbr_create ?mx ?my (max_x b) (max_y b)) capacity (depth + 1) :: 'a qtnode"
  let ?c3 = "qtnode_create (mbr_create (min_x b) (min_y b) ?mx ?my) capacity (depth + 1) :: 'a qtnode"
  let ?c4 = "qtnode_create (mbr_create ?mx (min_y b) (max_x b) ?my) capacity (depth + 1) :: 'a qtnode"
  obtain a' b' c' d' where f: "fold redistribute_item its (?c1, ?c2, ?c3, ?c4) = (a', b', c', d')"
    by (cases "fold redistribute_item its (?c1, ?c2, ?c3, ?c4)") auto
  from assms(1) f have st: "st = QT_OK" and n: "node' = QTNode b [] cap a' b' c' d' depth False"
    by (simp_all add: qtnode_split_def Let_def)
  have m: "qt_measure M ?c1 = 2 * nat (M - (depth + 1)) + 1"
    "qt_measure M ?c2 = 2 * nat (M - (depth + 1)) + 1"
    "qt_measure M ?c3 = 2 * nat (M - (depth + 1)) + 1"
    "qt_measure M ?c4 = 2 * nat (M - (depth + 1)) + 1"
    by (simp_all add: qtnode_create_def)
  from qt_measure_redistribute [OF f, of M] m n
  have "qt_measure M node' = 2 * nat (M - (depth + 1)) + 2" by simp
  moreover from assms(2) have "nat (M - depth) = nat (M - (depth + 1)) + 1" by simp
  ultimately show "qt_measure M node' < qt_measure M (QTNode b its cap nw ne sw se depth True)"
    by simp
  show "st = QT_OK" by (rule st)
qed

function qtnode_insert ::
  "'d qtnode \<Rightarrow> 'd qt_item \<Rightarrow> nat \<Rightarrow> int \<Rightarrow> qt_status \<times> 'd qtnode" where
  "qtnode_insert QTNull item node_capacity max_depth = (QT_ERR_NULL_PTR, QTNull)"
| "qtnode_insert (QTNode b its cap nw ne sw se depth leaf) item node_capacity max_depth =
     (if \<not> mbr_intersects b (qi_bounds item)
      then (QT_ERR_BOUNDS, QTNode b its cap nw ne sw se depth leaf)
      else if leaf then
        (if length its \<ge> node_capacity \<and> depth < max_depth then
           (let r = qtnode_split (QTNode b its cap nw ne sw se depth leaf) node_capacity
            in if fst r \<noteq> QT_OK then r
               else qtnode_insert (snd r) item node_capacity max_depth)
         else (QT_OK, node_append (QTNode b its cap nw ne sw se depth leaf) item))
      else if nw \<noteq> QTNull \<and> mbr_contains_mbr (qt_bounds nw) (qi_bounds item) then
        (let r = qtnode_insert nw item node_capacity max_depth
         in (fst r, QTNode b its cap (snd r) ne sw se depth leaf))
      else if ne \<noteq> QTNull \<and> mbr_contains_mbr (qt_bounds ne) (qi_bounds item) then
        (let r = qtnode_insert ne item node_capacity max_depth
         in (fst r, QTNode b its cap nw (snd r) sw se depth leaf))
      else if sw \<noteq> QTNull \<and> mbr_contains_mbr (qt_bounds sw) (qi_bounds item) then
        (let r = qtnode_insert sw item node_capacity max_depth
         in (fst r, QTNode b its cap nw ne (snd r) se depth leaf))
      else if se \<noteq> QTNull \<and> mbr_contains_mbr (qt_bounds se) (qi_bounds item) then
        (let r = qtnode_insert se item node_capacity max_depth
         in (fst r, QTNode b its cap nw ne sw (snd r) depth leaf))
      else (QT_OK, node_append (QTNode b its cap nw ne sw se depth leaf) item))"
  by pat_completeness auto
termination
proof (relation "measure (\<lambda>(node, item, node_capacity, max_depth). qt_measure max_depth node)",
       goal_cases)
  case 1
  show ?case by simp
next
  case (2 b its cap nw ne sw se depth leaf item node_capacity max_depth r)
  then have "leaf" and d: "depth < max_depth" by simp_all
  obtain st node' where r: "qtnode_split (QTNode b its cap nw ne sw se depth True) node_capacity = (st, node')"
    by (cases "qtnode_split (QTNode b its cap nw ne sw se depth True) node_capacity") auto
  from qt_measure_split(2) [OF r d] r 2 \<open>leaf\<close> show ?case by simp
qed simp_all

fun qtnode_collect_all :: "'d qtnode \<Rightarrow> 'd qt_item list \<Rightarrow> 'd qt_item list" where
  "qtnode_collect_all QTNull result = result"
| "qtnode_collect_all (QTNode b its cap nw ne sw se depth leaf) result =
     (let result1 = result @ its
      in if leaf then result1
         else qtnode_collect_all se
                (qtnode_collect_all sw
                  (qtnode_collect_all ne
                    (qtnode_collect_all nw result1))))"

fun qtnode_query_range :: "'d qtnode \<Rightarrow> mbr \<Rightarrow> 'd qt_item list \<Rightarrow> 'd qt_item list" where
  "qtnode_query_range QTNull rng result = result"
| "qtnode_query_range (QTNode b its cap nw ne sw se depth leaf) rng result =
     (if \<not> mbr_intersects b rng then result
      else
        (let result1 = result @ filter (\<lambda>it. mbr_intersects (qi_bounds it) rng) its
         in if leaf then result1
            else qtnode_query_range se rng
                   (qtnode_query_range sw rng
                     (qtnode_query_range ne rng
                       (qtnode_query_range nw rng result1)))))"

definition quadtree_init :: "mbr \<Rightarrow> nat \<Rightarrow> int \<Rightarrow> 'd quadtree" where
  "quadtree_init bounds node_capacity max_depth =
     (let nc = (if node_capacity > 0 then node_capacity else QT_DEFAULT_CAPACITY);
          md = (if max_depth > 0 then max_depth else QT_MAX_DEPTH)
      in \<lparr>qt_root = qtnode_create bounds nc 0, qt_total_items = 0,
          qt_node_capacity = nc, qt_max_depth = md\<rparr>)"

definition quadtree_create :: "mbr \<Rightarrow> nat \<Rightarrow> int \<Rightarrow> 'd quadtree" where
  "quadtree_create bounds node_capacity max_depth = quadtree_init bounds node_capacity max_depth"

definition quadtree_insert_with_centroid ::
  "'d quadtree \<Rightarrow> nat \<Rightarrow> mbr \<Rightarrow> point \<Rightarrow> 'd option \<Rightarrow> qt_status \<times> 'd quadtree" where
  "quadtree_insert_with_centroid qt ident bounds centroid data =
     (if qt_root qt = QTNull then (QT_ERR_NULL_PTR, qt)
      else
        (let item = \<lparr>qi_id = ident, qi_bounds = bounds, qi_centroid = centroid, qi_data = data\<rparr>;
             r = qtnode_insert (qt_root qt) item (qt_node_capacity qt) (qt_max_depth qt);
             qt1 = qt\<lparr>qt_root := snd r\<rparr>
         in if fst r = QT_OK then (QT_OK, qt1\<lparr>qt_total_items := qt_total_items qt1 + 1\<rparr>)
            else (fst r, qt1)))"

definition quadtree_insert ::
  "'d quadtree \<Rightarrow> nat \<Rightarrow> mbr \<Rightarrow> 'd option \<Rightarrow> qt_status \<times> 'd quadtree" where
  "quadtree_insert qt ident bounds data =
     quadtree_insert_with_centroid qt ident bounds (mbr_centroid bounds) data"

definition quadtree_get_all :: "'d quadtree \<Rightarrow> 'd qt_item list" where
  "quadtree_get_all qt = qtnode_collect_all (qt_root qt) []"

definition quadtree_query_range :: "'d quadtree \<Rightarrow> mbr \<Rightarrow> 'd qt_item list" where
  "quadtree_query_range qt rng = qtnode_query_range (qt_root qt) rng []"

section \<open>Pages, tracks and the page pool (page.c)\<close>

datatype page_error =
    PAGE_OK | PAGE_ERR_NULL_PTR | PAGE_ERR_ALLOC | PAGE_ERR_FULL | PAGE_ERR_NOT_FOUND
  | PAGE_ERR_IO | PAGE_ERR_CORRUPT | PAGE_ERR_INVALID_ID

definition PAGE_SIZE :: nat where "PAGE_SIZE = 4096"
definition PAGES_PER_TRACK :: nat where "PAGES_PER_TRACK = 16"
definition MAX_OBJECTS_PER_PAGE :: nat where "MAX_OBJECTS_PER_PAGE = 64"

definition PAGE_STATUS_ALLOCATED :: "32 word" where "PAGE_STATUS_ALLOCATED = 1"
definition PAGE_STATUS_FULL :: "32 word" where "PAGE_STATUS_FULL = 2"
definition PAGE_STATUS_DIRTY :: "32 word" where "PAGE_STATUS_DIRTY = 4"
definition PAGE_STATUS_PINNED :: "32 word" where "PAGE_STATUS_PINNED = 8"

text \<open>\<open>PageHeader\<close> without \<open>object_count\<close>, which is the length of the object array.\<close>

record page_header =
  page_id :: nat
  track_id :: nat
  flags :: "32 word"
  extent :: mbr
  centroid :: point
  checksum :: "64 word"

record page =
  header :: page_header
  objects :: "spatial_object list"
  object_capacity :: nat
  in_memory :: bool

definition object_count :: "page \<Rightarrow> nat" where
  "object_count p = length (objects p)"

text \<open>
  What the platform fixes and the sources do not: the object representation of a
  \<open>double\<close> (eight bytes, read by the checksum) and the order in which \<open>qsort\<close> leaves
  elements that compare equal.
\<close>

record platform =
  double_bytes :: "real \<Rightarrow> 8 word list"
  qsort :: "((nat \<times> nat) kd_point_data \<Rightarrow> (nat \<times> nat) kd_point_data \<Rightarrow> int)
              \<Rightarrow> (nat \<times> nat) kd_point_data list \<Rightarrow> (nat \<times> nat) kd_point_data list"

definition FNV_OFFSET :: "64 word" where "FNV_OFFSET = 14695981039346656037"
definition FNV_PRIME :: "64 word" where "FNV_PRIME = 1099511628211"

definition fnv1a_hash :: "8 word list \<Rightarrow> 64 word" where
  "fnv1a_hash bytes = fold (\<lambda>b hash. (hash XOR ucast b) * FNV_PRIME) bytes FNV_OFFSET"

text \<open>The \<open>k\<close> little-endian bytes of an unsigned integer field.\<close>

definition uint_bytes :: "nat \<Rightarrow> nat \<Rightarrow> 8 word list" where
  "uint_bytes k n = map (\<lambda>i. word_of_nat (n div 256 ^ i mod 256)) [0..<k]"

definition page_create :: "nat \<Rightarrow> nat \<Rightarrow> page" where
  "page_create pid tid =
     \<lparr>header = \<lparr>page_id = pid, track_id = tid, flags = PAGE_STATUS_ALLOCATED,
                extent = mbr_empty, centroid = point_create 0 0, checksum = 0\<rparr>,
      objects = [], object_capacity = MAX_OBJECTS_PER_PAGE, in_memory = True\<rparr>"

definition page_add_object :: "page \<Rightarrow> spatial_object \<Rightarrow> page_error \<times> page" where
  "page_add_object pg obj =
     (if object_count pg \<ge> object_capacity pg then (PAGE_ERR_FULL, pg)
      else
        (let pg1 = pg\<lparr>objects := objects pg @ [spatial_object_copy obj]\<rparr>;
             pg2 = pg1\<lparr>header := (header pg1)\<lparr>flags := flags (header pg1) OR PAGE_STATUS_DIRTY\<rparr>\<rparr>;
             pg3 = pg2\<lparr>header := (header pg2)\<lparr>extent := mbr_expand_mbr (extent (header pg2)) (obj_mbr obj)\<rparr>\<rparr>;
             pg4 = (if object_count pg3 \<ge> object_capacity pg3
                    then pg3\<lparr>header := (header pg3)\<lparr>flags := flags (header pg3) OR PAGE_STATUS_FULL\<rparr>\<rparr>
                    else pg3)
         in (PAGE_OK, pg4)))"

definition page_checksum :: "platform \<Rightarrow> page \<Rightarrow> 64 word" where
  "page_checksum env pg =
     (let hash0 = fnv1a_hash (uint_bytes 4 (page_id (header pg)));
          hash1 = hash0 XOR fnv1a_hash (uint_bytes 4 (track_id (header pg)));
          hash2 = hash1 XOR fnv1a_hash (uint_bytes 4 (object_count pg))
      in fold (\<lambda>obj hash.
                 (hash XOR fnv1a_hash (uint_bytes 8 (obj_id obj)))
                 XOR fnv1a_hash (double_bytes env (px (obj_centroid obj))
                                 @ double_bytes env (py (obj_centroid obj))))
              (objects pg) hash2)"

definition page_update_derived :: "platform \<Rightarrow> page \<Rightarrow> page" where
  "page_update_derived env pg =
     (let ext = fold (\<lambda>obj m. mbr_expand_mbr m (obj_mbr obj)) (objects pg) mbr_empty;
          cx = fold (\<lambda>obj c. c + px (obj_centroid obj)) (objects pg) 0;
          cy = fold (\<lambda>obj c. c + py (obj_centroid obj)) (objects pg) 0;
          pg1 = pg\<lparr>header := (header pg)\<lparr>extent := ext\<rparr>\<rparr>;
          pg2 = (if object_count pg1 > 0
                 then pg1\<lparr>header := (header pg1)
                        \<lparr>centroid := \<lparr>px = cx / real (object_count pg1),
                                      py = cy / real (object_count pg1)\<rparr>\<rparr>\<rparr>
                 else pg1)
      in pg2\<lparr>header := (header pg2)\<lparr>checksum := page_checksum env pg2\<rparr>\<rparr>)"

text \<open>The position of the first element satisfying a test: the linear searches of the
  sources that return on the first match.\<close>

fun first_index :: "('a \<Rightarrow> bool) \<Rightarrow> 'a list \<Rightarrow> nat option" where
  "first_index P [] = None"
| "first_index P (x # xs) = (if P x then Some 0 else map_option Suc (first_index P xs))"

definition page_find_object :: "page \<Rightarrow> nat \<Rightarrow> nat option" where
  "page_find_object pg object_id = first_index (\<lambda>obj. obj_id obj = object_id) (objects pg)"

definition page_remove_object :: "platform \<Rightarrow> page \<Rightarrow> nat \<Rightarrow> page_error \<times> page" where
  "page_remove_object env pg object_id =
     (case first_index (\<lambda>obj. obj_id obj = object_id) (objects pg) of
        None \<Rightarrow> (PAGE_ERR_NOT_FOUND, pg)
      | Some i \<Rightarrow>
          (let pg1 = pg\<lparr>objects := take i (objects pg) @ drop (i + 1) (objects pg)\<rparr>;
               pg2 = pg1\<lparr>header := (header pg1)\<lparr>flags := flags (header pg1) OR PAGE_STATUS_DIRTY\<rparr>\<rparr>;
               pg3 = pg2\<lparr>header := (header pg2)\<lparr>flags := flags (header pg2) AND NOT PAGE_STATUS_FULL\<rparr>\<rparr>
           in (PAGE_OK, page_update_derived env pg3)))"

definition page_is_full :: "page \<Rightarrow> bool" where
  "page_is_full pg \<longleftrightarrow> object_count pg \<ge> object_capacity pg"

record disk_track =
  trk_id :: nat
  trk_pages :: "nat list"
  trk_page_capacity :: nat
  trk_extent :: mbr
  trk_centroid :: point
  trk_is_full :: bool

record page_pool =
  pages :: "page list"
  tracks :: "disk_track list"
  next_page_id :: nat
  next_track_id :: nat

definition track_create :: "nat \<Rightarrow> disk_track" where
  "track_create tid =
     \<lparr>trk_id = tid, trk_pages = [], trk_page_capacity = PAGES_PER_TRACK,
      trk_extent = mbr_empty, trk_centroid = point_create 0 0, trk_is_full = False\<rparr>"

text \<open>A track holds pointers to its pages, so \<open>track_update_derived\<close> reads the pages of
  the pool.\<close>

definition track_update_derived :: "page list \<Rightarrow> disk_track \<Rightarrow> disk_track" where
  "track_update_derived pgs trk =
     (let ext = fold (\<lambda>pp m. mbr_expand_mbr m (extent (header (pgs ! pp)))) (trk_pages trk) mbr_empty;
          valid = filter (\<lambda>pp. \<not> mbr_is_empty (extent (header (pgs ! pp)))) (trk_pages trk);
          cx = fold (\<lambda>pp c. c + px (centroid (header (pgs ! pp)))) valid 0;
          cy = fold (\<lambda>pp c. c + py (centroid (header (pgs ! pp)))) valid 0;
          trk1 = trk\<lparr>trk_extent := ext\<rparr>
      in if length valid > 0
         then trk1\<lparr>trk_centroid := \<lparr>px = cx / real (length valid), py = cy / real (length valid)\<rparr>\<rparr>
         else trk1)"

definition track_has_space :: "disk_track \<Rightarrow> bool" where
  "track_has_space trk \<longleftrightarrow> length (trk_pages trk) < trk_page_capacity trk"

text \<open>\<open>track_add_page\<close> writes the track and the page (\<open>page->header.track_id\<close>), both
  owned by the pool; \<open>tp\<close> and \<open>pp\<close> are the track and page pointers.\<close>

definition track_add_page :: "page_pool \<Rightarrow> nat \<Rightarrow> nat \<Rightarrow> page_error \<times> page_pool" where
  "track_add_page pool tp pp =
     (let trk = tracks pool ! tp in
      if length (trk_pages trk) \<ge> trk_page_capacity trk then (PAGE_ERR_FULL, pool)
      else
        (let trk1 = trk\<lparr>trk_pages := trk_pages trk @ [pp]\<rparr>;
             pg = pages pool ! pp;
             pgs1 = (pages pool)[pp := pg\<lparr>header := (header pg)\<lparr>track_id := trk_id trk\<rparr>\<rparr>];
             trk2 = (if length (trk_pages trk1) \<ge> trk_page_capacity trk1
                     then trk1\<lparr>trk_is_full := True\<rparr> else trk1);
             trk3 = track_update_derived pgs1 trk2
         in (PAGE_OK, pool\<lparr>pages := pgs1, tracks := (tracks pool)[tp := trk3]\<rparr>)))"

definition page_pool_init :: page_pool where
  "page_pool_init = \<lparr>pages = [], tracks = [], next_page_id = 1, next_track_id = 1\<rparr>"

definition page_pool_get :: "page_pool \<Rightarrow> nat \<Rightarrow> nat option" where
  "page_pool_get pool pid = first_index (\<lambda>pg. page_id (header pg) = pid) (pages pool)"

definition page_pool_get_track :: "page_pool \<Rightarrow> nat \<Rightarrow> nat option" where
  "page_pool_get_track pool tid = first_index (\<lambda>trk. trk_id trk = tid) (tracks pool)"

definition page_pool_alloc :: "page_pool \<Rightarrow> nat \<Rightarrow> nat \<times> page_pool" where
  "page_pool_alloc pool tid =
     (let pg = page_create (next_page_id pool) tid;
          pp = length (pages pool);
          pool1 = pool\<lparr>next_page_id := next_page_id pool + 1, pages := pages pool @ [pg]\<rparr>;
          pool2 = (if tid > 0
                   then (case page_pool_get_track pool1 tid of
                           None \<Rightarrow> pool1
                         | Some tp \<Rightarrow> snd (track_add_page pool1 tp pp))
                   else pool1)
      in (pp, pool2))"

definition page_pool_create_track :: "page_pool \<Rightarrow> nat \<times> page_pool" where
  "page_pool_create_track pool =
     (length (tracks pool),
      pool\<lparr>next_track_id := next_track_id pool + 1,
           tracks := tracks pool @ [track_create (next_track_id pool)]\<rparr>)"

definition page_pool_query_region :: "page_pool \<Rightarrow> mbr \<Rightarrow> page_error \<times> nat list" where
  "page_pool_query_region pool region =
     (PAGE_OK, filter (\<lambda>i. mbr_intersects (extent (header (pages pool ! i))) region)
                      [0..<length (pages pool)])"

definition page_pool_total_objects :: "page_pool \<Rightarrow> nat" where
  "page_pool_total_objects pool = fold (\<lambda>pg n. n + object_count pg) (pages pool) 0"

section \<open>Disk manager (disk_manager.c)\<close>

datatype allocation_strategy =
  ALLOC_NEAREST_TRACK | ALLOC_NEW_TRACK | ALLOC_BEST_FIT | ALLOC_SEQUENTIAL

record dm_config =
  cache_size :: nat
  page_size :: nat
  pages_per_track :: nat
  strategy :: allocation_strategy
  use_mmap :: bool
  sync_on_write :: bool

text \<open>The fields of \<open>DiskFileHeader\<close> that the allocation functions write. The fields of
  \<open>DiskManager\<close> for the data file, the memory map, the I/O statistics and the page cache
  are not read or written by the functions below; the cache is modelled on its own.\<close>

record dm_header =
  hdr_page_count :: nat
  hdr_track_count :: nat
  hdr_bounds :: mbr

record disk_manager =
  dm_conf :: dm_config
  dm_hdr :: dm_header
  pool :: page_pool
  allocation_tree :: "nat kdtree"
  is_open :: bool
  is_dirty :: bool

definition DM_DEFAULT_CACHE_SIZE :: nat where "DM_DEFAULT_CACHE_SIZE = 128"

definition disk_manager_default_config :: dm_config where
  "disk_manager_default_config =
     \<lparr>cache_size = DM_DEFAULT_CACHE_SIZE, page_size = PAGE_SIZE, pages_per_track = PAGES_PER_TRACK,
      strategy = ALLOC_BEST_FIT, use_mmap = False, sync_on_write = False\<rparr>"

definition disk_manager_init :: "dm_config \<Rightarrow> disk_manager" where
  "disk_manager_init conf =
     \<lparr>dm_conf = conf,
      dm_hdr = \<lparr>hdr_page_count = 0, hdr_track_count = 0, hdr_bounds = mbr_create 0 0 0 0\<rparr>,
      pool = page_pool_init, allocation_tree = kdtree_init, is_open = False, is_dirty = False\<rparr>"

definition update_allocation_tree :: "disk_manager \<Rightarrow> nat \<Rightarrow> disk_manager" where
  "update_allocation_tree dm pp =
     (let pg = pages (pool dm) ! pp
      in dm\<lparr>allocation_tree :=
               kdtree_insert (allocation_tree dm) (centroid (header pg)) (page_id (header pg)) (Some pp)\<rparr>)"

definition disk_manager_create_track :: "disk_manager \<Rightarrow> nat \<times> disk_manager" where
  "disk_manager_create_track dm =
     (case page_pool_create_track (pool dm) of
        (tp, pool1) \<Rightarrow>
          (tp, dm\<lparr>pool := pool1, is_dirty := True,
                  dm_hdr := (dm_hdr dm)\<lparr>hdr_track_count := hdr_track_count (dm_hdr dm) + 1\<rparr>\<rparr>))"

text \<open>The two scanning strategies keep \<open>(best, best value)\<close>, starting from
  \<open>(NULL, DBL_MAX)\<close>, and skip tracks without a free slot.\<close>

definition find_nearest_track :: "disk_track list \<Rightarrow> point \<Rightarrow> nat option" where
  "find_nearest_track trks c =
     fst (fold (\<lambda>i (best, best_dist).
                  if \<not> track_has_space (trks ! i) then (best, best_dist)
                  else (let dist = point_distance c (trk_centroid (trks ! i))
                        in if dist < best_dist then (Some i, dist) else (best, best_dist)))
               [0..<length trks] (None, DBL_MAX))"

definition find_best_fit_track :: "disk_track list \<Rightarrow> point \<Rightarrow> nat option" where
  "find_best_fit_track trks c =
     fst (fold (\<lambda>i (best, best_expansion).
                  if \<not> track_has_space (trks ! i) then (best, best_expansion)
                  else (let expanded = mbr_expand_point (trk_extent (trks ! i)) c;
                            expansion = mbr_area expanded - mbr_area (trk_extent (trks ! i))
                        in if expansion < best_expansion then (Some i, expansion)
                           else (best, best_expansion)))
               [0..<length trks] (None, DBL_MAX))"

definition disk_manager_find_best_track :: "disk_manager \<Rightarrow> point \<Rightarrow> nat option" where
  "disk_manager_find_best_track dm c =
     (case strategy (dm_conf dm) of
        ALLOC_NEAREST_TRACK \<Rightarrow> find_nearest_track (tracks (pool dm)) c
      | ALLOC_BEST_FIT \<Rightarrow> find_best_fit_track (tracks (pool dm)) c
      | ALLOC_SEQUENTIAL \<Rightarrow>
          (if length (tracks (pool dm)) > 0
              \<and> track_has_space (tracks (pool dm) ! (length (tracks (pool dm)) - 1))
           then Some (length (tracks (pool dm)) - 1) else None)
      | ALLOC_NEW_TRACK \<Rightarrow> None)"

definition disk_manager_alloc_page :: "disk_manager \<Rightarrow> point \<Rightarrow> nat \<times> disk_manager" where
  "disk_manager_alloc_page dm c =
     (let best = disk_manager_find_best_track dm c;
          (tp, dm1) = (case best of
                         None \<Rightarrow> disk_manager_create_track dm
                       | Some t \<Rightarrow> if \<not> track_has_space (tracks (pool dm) ! t)
                                   then disk_manager_create_track dm else (t, dm));
          (pp, pool1) = page_pool_alloc (pool dm1) (trk_id (tracks (pool dm1) ! tp));
          pg = pages pool1 ! pp;
          pool2 = pool1\<lparr>pages := (pages pool1)[pp := pg\<lparr>header := (header pg)\<lparr>centroid := c\<rparr>\<rparr>]\<rparr>;
          pool3 = snd (track_add_page pool2 tp pp);
          dm2 = update_allocation_tree (dm1\<lparr>pool := pool3\<rparr>) pp
      in (pp, dm2\<lparr>dm_hdr := (dm_hdr dm2)\<lparr>hdr_bounds := mbr_expand_point (hdr_bounds (dm_hdr dm2)) c,
                                         hdr_page_count := hdr_page_count (dm_hdr dm2) + 1\<rparr>,
                  is_dirty := True\<rparr>))"

definition disk_manager_rebuild_allocation_tree :: "disk_manager \<Rightarrow> disk_manager" where
  "disk_manager_rebuild_allocation_tree dm =
     dm\<lparr>allocation_tree :=
          fold (\<lambda>i tree.
                  let pg = pages (pool dm) ! i
                  in if object_count pg > 0
                     then kdtree_insert tree (centroid (header pg)) (page_id (header pg)) (Some i)
                     else tree)
               [0..<length (pages (pool dm))] kdtree_init\<rparr>"

text \<open>\<open>disk_manager_estimate_seeks\<close>: the loop state is \<open>(seeks, last_track)\<close>; a page
  id that the pool does not know is skipped.\<close>

definition estimate_seeks_step :: "page_pool \<Rightarrow> nat \<Rightarrow> nat \<times> nat \<Rightarrow> nat \<times> nat" where
  "estimate_seeks_step pl pid st =
     (case st of (seeks, last_track) \<Rightarrow>
        (case page_pool_get pl pid of
           None \<Rightarrow> (seeks, last_track)
         | Some pp \<Rightarrow>
             (let t = track_id (header (pages pl ! pp))
              in (if t \<noteq> last_track \<and> last_track \<noteq> 0 then seeks + 1 else seeks, t))))"

definition disk_manager_estimate_seeks :: "disk_manager \<Rightarrow> nat list \<Rightarrow> nat" where
  "disk_manager_estimate_seeks dm page_ids =
     (if page_ids = [] then 0
      else fst (fold (estimate_seeks_step (pool dm)) page_ids (0, 0)))"

text \<open>The seek count in the words of the specification, over the list of track ids of the
  pages in the order given: start with \<open>last = 0\<close>; for each page, count one seek iff its
  track differs from \<open>last\<close> and \<open>last \<noteq> 0\<close>; then set \<open>last\<close> to its track.\<close>

fun track_transitions :: "nat \<Rightarrow> nat list \<Rightarrow> nat" where
  "track_transitions last_track [] = 0"
| "track_transitions last_track (t # ts) =
     (if t \<noteq> last_track \<and> last_track \<noteq> 0 then 1 else 0) + track_transitions t ts"

definition resolved_track :: "page_pool \<Rightarrow> nat \<Rightarrow> nat" where
  "resolved_track pl pid = track_id (header (pages pl ! the (page_pool_get pl pid)))"

section \<open>Spatial index (spatial_index.c)\<close>

datatype si_status =
    SI_OK | SI_ERR_NULL_PTR | SI_ERR_ALLOC | SI_ERR_NOT_BUILT | SI_ERR_NOT_FOUND
  | SI_ERR_FULL | SI_ERR_IO | SI_ERR_INVALID

definition SI_DEFAULT_BLOCK_SIZE :: nat where "SI_DEFAULT_BLOCK_SIZE = 1024"
definition SI_DEFAULT_PAGE_CAPACITY :: nat where "SI_DEFAULT_PAGE_CAPACITY = 64"

record si_config =
  block_size :: nat
  page_capacity :: nat
  cfg_cache_size :: nat
  build_quadtree :: bool
  persist :: bool

record spatial_block =
  block_id :: nat
  blk_bounds :: mbr
  blk_centroid :: point
  blk_track :: "nat option"
  blk_object_count :: nat

text \<open>The block tree carries pointers to the objects in the pages, the page tree pointers
  to the pages.\<close>

record spatial_index =
  config :: si_config
  block_tree :: "(nat \<times> nat) kdtree"
  page_tree :: "nat quadtree option"
  disk :: disk_manager
  blocks :: "spatial_block list"
  next_object_id :: nat
  next_block_id :: nat
  is_built :: bool
  si_bounds :: mbr

text \<open>\<open>SpatialQueryResult\<close>: the array of object pointers with its count, and
  \<open>pages_accessed\<close>.\<close>

record query_result =
  res_objects :: "(nat \<times> nat) list"
  pages_accessed :: nat

definition spatial_result_clear :: "query_result \<Rightarrow> query_result" where
  "spatial_result_clear res = res\<lparr>res_objects := [], pages_accessed := 0\<rparr>"

definition spatial_result_add :: "query_result \<Rightarrow> nat \<times> nat \<Rightarrow> query_result" where
  "spatial_result_add res obj = res\<lparr>res_objects := res_objects res @ [obj]\<rparr>"

definition spatial_index_default_config :: si_config where
  "spatial_index_default_config =
     \<lparr>block_size = SI_DEFAULT_BLOCK_SIZE, page_capacity = SI_DEFAULT_PAGE_CAPACITY,
      cfg_cache_size = DM_DEFAULT_CACHE_SIZE, build_quadtree = True, persist = False\<rparr>"

definition spatial_index_init :: "si_config \<Rightarrow> spatial_index" where
  "spatial_index_init conf =
     \<lparr>config = conf, block_tree = kdtree_init, page_tree = None,
      disk = disk_manager_init (disk_manager_default_config\<lparr>cache_size := cfg_cache_size conf\<rparr>),
      blocks = [], next_object_id = 1, next_block_id = 1, is_built = False,
      si_bounds = mbr_empty\<rparr>"

definition find_page_for_object :: "spatial_index \<Rightarrow> nat \<Rightarrow> nat option" where
  "find_page_for_object idx object_id =
     first_index (\<lambda>pg. page_find_object pg object_id \<noteq> None) (pages (pool (disk idx)))"

definition get_page_for_insert :: "spatial_index \<Rightarrow> spatial_object \<Rightarrow> nat \<times> spatial_index" where
  "get_page_for_insert idx obj =
     (let fresh = (case disk_manager_alloc_page (disk idx) (obj_centroid obj) of
                     (pp, dm1) \<Rightarrow> (pp, idx\<lparr>disk := dm1\<rparr>))
      in if kd_size (allocation_tree (disk idx)) > 0 then
           (case kdtree_nearest (allocation_tree (disk idx)) (obj_centroid obj) of
              Inr (nearest, pid, Some pp) \<Rightarrow>
                if \<not> page_is_full (pages (pool (disk idx)) ! pp) then (pp, idx) else fresh
            | _ \<Rightarrow> fresh)
         else fresh)"

text \<open>Writing a page through its pointer.\<close>

definition set_page :: "spatial_index \<Rightarrow> nat \<Rightarrow> page \<Rightarrow> spatial_index" where
  "set_page idx pp pg =
     idx\<lparr>disk := (disk idx)\<lparr>pool := (pool (disk idx))\<lparr>pages := (pages (pool (disk idx)))[pp := pg]\<rparr>\<rparr>\<rparr>"

text \<open>\<open>spatial_index_insert\<close> writes the caller's object (id and derived fields), so the
  object is returned with the status and the index.\<close>

definition spatial_index_insert ::
  "platform \<Rightarrow> spatial_index \<Rightarrow> spatial_object \<Rightarrow> si_status \<times> spatial_index \<times> spatial_object" where
  "spatial_index_insert env idx obj =
     (let (idx1, obj1) = (if obj_id obj = 0
                          then (idx\<lparr>next_object_id := next_object_id idx + 1\<rparr>,
                                obj\<lparr>obj_id := next_object_id idx\<rparr>)
                          else (idx, obj));
          obj2 = spatial_object_update_derived obj1;
          (pp, idx2) = get_page_for_insert idx1 obj2;
          (err, pg1) = page_add_object (pages (pool (disk idx2)) ! pp) obj2
      in if err \<noteq> PAGE_OK then
           (case disk_manager_alloc_page (disk idx2) (obj_centroid obj2) of
              (pp', dm3) \<Rightarrow>
                (let idx3 = idx2\<lparr>disk := dm3\<rparr>;
                     (err', pg1') = page_add_object (pages (pool (disk idx3)) ! pp') obj2
                 in if err' \<noteq> PAGE_OK then (SI_ERR_FULL, idx3, obj2)
                    else
                      (let idx4 = set_page idx3 pp' (page_update_derived env pg1');
                           idx5 = idx4\<lparr>disk := disk_manager_rebuild_allocation_tree (disk idx4)\<rparr>
                       in (SI_OK,
                           idx5\<lparr>si_bounds := mbr_expand_mbr (si_bounds idx5) (obj_mbr obj2),
                                is_built := False\<rparr>, obj2))))
         else
           (let idx4 = set_page idx2 pp (page_update_derived env pg1);
                idx5 = idx4\<lparr>disk := disk_manager_rebuild_allocation_tree (disk idx4)\<rparr>
            in (SI_OK,
                idx5\<lparr>si_bounds := mbr_expand_mbr (si_bounds idx5) (obj_mbr obj2),
                     is_built := False\<rparr>, obj2)))"

fun spatial_index_bulk_insert ::
  "platform \<Rightarrow> spatial_index \<Rightarrow> spatial_object list \<Rightarrow> si_status \<times> spatial_index" where
  "spatial_index_bulk_insert env idx [] = (SI_OK, idx)"
| "spatial_index_bulk_insert env idx (obj # objs) =
     (case spatial_index_insert env idx obj of
        (err, idx1, obj1) \<Rightarrow>
          if err \<noteq> SI_OK then (err, idx1) else spatial_index_bulk_insert env idx1 objs)"

definition spatial_index_remove :: "platform \<Rightarrow> spatial_index \<Rightarrow> nat \<Rightarrow> si_status \<times> spatial_index" where
  "spatial_index_remove env idx object_id =
     (case find_page_for_object idx object_id of
        None \<Rightarrow> (SI_ERR_NOT_FOUND, idx)
      | Some pp \<Rightarrow>
          (case page_remove_object env (pages (pool (disk idx)) ! pp) object_id of
             (err, pg1) \<Rightarrow>
               if err \<noteq> PAGE_OK then (SI_ERR_NOT_FOUND, idx)
               else
                 (let idx1 = set_page idx pp (page_update_derived env pg1);
                      idx2 = idx1\<lparr>disk := disk_manager_rebuild_allocation_tree (disk idx1)\<rparr>
                  in (SI_OK, idx2\<lparr>is_built := False\<rparr>))))"

definition create_block :: "spatial_index \<Rightarrow> mbr \<Rightarrow> spatial_index" where
  "create_block idx bounds =
     (case disk_manager_create_track (disk idx) of
        (tp, dm1) \<Rightarrow>
          idx\<lparr>next_block_id := next_block_id idx + 1,
               disk := dm1,
               blocks := blocks idx @
                 [\<lparr>block_id = next_block_id idx, blk_bounds = bounds,
                   blk_centroid = mbr_centroid bounds, blk_track = Some tp,
                   blk_object_count = 0\<rparr>]\<rparr>)"

definition build_page_quadtree :: "spatial_index \<Rightarrow> si_status \<times> spatial_index" where
  "build_page_quadtree idx =
     (if \<not> build_quadtree (config idx) then (SI_OK, idx)
      else
        (let idx1 = idx\<lparr>page_tree := None\<rparr> in
         if length (pages (pool (disk idx1))) = 0 then (SI_OK, idx1)
         else
           (let qt0 = quadtree_create (si_bounds idx1) 8 QT_MAX_DEPTH;
                qt = fold (\<lambda>i qt.
                             let pg = pages (pool (disk idx1)) ! i
                             in if object_count pg > 0
                                then snd (quadtree_insert_with_centroid qt (page_id (header pg))
                                            (extent (header pg)) (centroid (header pg)) (Some i))
                                else qt)
                          [0..<length (pages (pool (disk idx1)))] qt0
            in (SI_OK, idx1\<lparr>page_tree := Some qt\<rparr>))))"

text \<open>The points handed to \<open>kdtree_bulk_load\<close>: for every page in pool order and every
  slot in order, the centroid, the id and the address of the object.\<close>

definition build_points :: "page list \<Rightarrow> (nat \<times> nat) kd_point_data list" where
  "build_points pgs =
     concat (map (\<lambda>i. map (\<lambda>j. \<lparr>kp_point = obj_centroid (objects (pgs ! i) ! j),
                                  kp_object_id = obj_id (objects (pgs ! i) ! j),
                                  kp_data = Some (i, j)\<rparr>)
                           [0..<object_count (pgs ! i)])
                 [0..<length pgs])"

definition spatial_index_build :: "platform \<Rightarrow> spatial_index \<Rightarrow> si_status \<times> spatial_index" where
  "spatial_index_build env idx =
     (let total_objects = page_pool_total_objects (pool (disk idx)) in
      if total_objects = 0 then (SI_OK, idx\<lparr>is_built := True\<rparr>)
      else
        (let points = build_points (pages (pool (disk idx)));
             idx1 = idx\<lparr>block_tree := kdtree_bulk_load (qsort env) kdtree_init points\<rparr>;
             block_bounds = kdtree_partition (block_tree idx1) (block_size (config idx1));
             idx2 = fold (\<lambda>b i. create_block i b) block_bounds (idx1\<lparr>blocks := []\<rparr>);
             (err, idx3) = build_page_quadtree idx2
         in if err \<noteq> SI_OK then (err, idx3) else (SI_OK, idx3\<lparr>is_built := True\<rparr>)))"

definition spatial_index_query_range ::
  "spatial_index \<Rightarrow> mbr \<Rightarrow> query_result \<Rightarrow> si_status \<times> query_result" where
  "spatial_index_query_range idx rng result =
     (let res0 = spatial_result_clear result;
          (err, pgs) = page_pool_query_region (pool (disk idx)) rng
      in if err \<noteq> PAGE_OK then (SI_ERR_IO, res0)
         else
           (SI_OK,
            fold (\<lambda>pp res.
                    fold (\<lambda>j res. if mbr_intersects (obj_mbr (objects (pages (pool (disk idx)) ! pp) ! j)) rng
                                   then spatial_result_add res (pp, j) else res)
                         [0..<object_count (pages (pool (disk idx)) ! pp)] res)
                 pgs res0))"

definition spatial_index_query_point ::
  "spatial_index \<Rightarrow> point \<Rightarrow> query_result \<Rightarrow> si_status \<times> query_result" where
  "spatial_index_query_point idx p result =
     spatial_index_query_range idx (mbr_create (px p) (py p) (px p) (py p)) result"

definition spatial_index_query_knn ::
  "spatial_index \<Rightarrow> point \<Rightarrow> nat \<Rightarrow> query_result \<Rightarrow> si_status \<times> query_result" where
  "spatial_index_query_knn idx p k result =
     (if k = 0 then (SI_OK, result)
      else
        (let res0 = spatial_result_clear result;
             (err, kd_result) = kdtree_k_nearest (block_tree idx) p k []
         in if err \<noteq> KD_OK then (SI_ERR_NOT_FOUND, res0)
            else
              (SI_OK,
               fold (\<lambda>e res. case kp_data e of None \<Rightarrow> res
                                | Some obj \<Rightarrow> spatial_result_add res obj)
                    kd_result res0)))"

definition spatial_index_update ::
  "platform \<Rightarrow> spatial_index \<Rightarrow> nat \<Rightarrow> spatial_object \<Rightarrow> si_status \<times> spatial_index" where
  "spatial_index_update env idx object_id new_obj =
     (case spatial_index_remove env idx object_id of
        (err, idx1) \<Rightarrow>
          if err \<noteq> SI_OK then (err, idx1)
          else
            (case spatial_index_insert env idx1 ((spatial_object_copy new_obj)\<lparr>obj_id := object_id\<rparr>) of
               (err2, idx2, obj2) \<Rightarrow> (err2, idx2)))"


subsection \<open>Adjacent pages\<close>

definition mbr_adjacent_or_intersects :: "mbr \<Rightarrow> mbr \<Rightarrow> bool" where
  "mbr_adjacent_or_intersects a b \<longleftrightarrow>
     \<not> (max_x a + 1 / 10 ^ 9 < min_x b \<or> min_x a - 1 / 10 ^ 9 > max_x b \<or>
        max_y a + 1 / 10 ^ 9 < min_y b \<or> min_y a - 1 / 10 ^ 9 > max_y b)"

definition quadtree_find_adjacent_to_region :: "'d quadtree \<Rightarrow> mbr \<Rightarrow> qt_status \<times> 'd qt_item list" where
  "quadtree_find_adjacent_to_region qt region =
     (let dx0 = (max_x region - min_x region) * (1 / 100);
          dy0 = (max_y region - min_y region) * (1 / 100);
          dx = (if dx0 < 1 / 10 ^ 6 then 1 / 10 ^ 6 else dx0);
          dy = (if dy0 < 1 / 10 ^ 6 then 1 / 10 ^ 6 else dy0);
          expanded = mbr_create (min_x region - dx) (min_y region - dy)
                                (max_x region + dx) (max_y region + dy);
          all_intersecting = qtnode_query_range (qt_root qt) expanded []
      in (QT_OK, filter (\<lambda>it. mbr_adjacent_or_intersects (qi_bounds it) region) all_intersecting))"

record adjacent_pages_result =
  adj_pages :: "nat option list"
  adj_track_ids :: "nat list"

definition spatial_index_find_adjacent_pages ::
  "spatial_index \<Rightarrow> mbr \<Rightarrow> si_status \<times> spatial_index \<times> adjacent_pages_result" where
  "spatial_index_find_adjacent_pages idx region =
     (let empty_result = \<lparr>adj_pages = [], adj_track_ids = []\<rparr>;
          (err, idx1) = (if page_tree idx = None then build_page_quadtree idx else (SI_OK, idx))
      in if err \<noteq> SI_OK then (err, idx1, empty_result)
         else
           (case page_tree idx1 of
              None \<Rightarrow> (SI_ERR_NOT_BUILT, idx1, empty_result)
            | Some qt \<Rightarrow>
                (case quadtree_find_adjacent_to_region qt region of
                   (qerr, items) \<Rightarrow>
                     if qerr \<noteq> QT_OK then (SI_ERR_NOT_FOUND, idx1, empty_result)
                     else
                       (SI_OK, idx1,
                        \<lparr>adj_pages = map qi_data items,
                         adj_track_ids =
                           map (\<lambda>it. case qi_data it of
                                        None \<Rightarrow> 0
                                      | Some pp \<Rightarrow> track_id (header (pages (pool (disk idx1)) ! pp)))
                               items\<rparr>))))"

text \<open>A sequence of calls of the public operations; every call runs on the index the
  previous one left, whatever its status.\<close>

datatype si_op =
    OpInsert spatial_object
  | OpBulkInsert "spatial_object list"
  | OpRemove nat
  | OpUpdate nat spatial_object
  | OpBuild
  | OpQueryRange mbr
  | OpQueryPoint point
  | OpQueryKnn point nat
  | OpFindAdjacent mbr

fun si_step :: "platform \<Rightarrow> si_op \<Rightarrow> spatial_index \<Rightarrow> spatial_index" where
  "si_step env (OpInsert obj) idx = fst (snd (spatial_index_insert env idx obj))"
| "si_step env (OpBulkInsert objs) idx = snd (spatial_index_bulk_insert env idx objs)"
| "si_step env (OpRemove object_id) idx = snd (spatial_index_remove env idx object_id)"
| "si_step env (OpUpdate object_id obj) idx = snd (spatial_index_update env idx object_id obj)"
| "si_step env OpBuild idx = snd (spatial_index_build env idx)"
| "si_step env (OpQueryRange rng) idx = idx"
| "si_step env (OpQueryPoint p) idx = idx"
| "si_step env (OpQueryKnn p k) idx = idx"
| "si_step env (OpFindAdjacent region) idx = fst (snd (spatial_index_find_adjacent_pages idx region))"

definition si_run :: "platform \<Rightarrow> si_op list \<Rightarrow> spatial_index \<Rightarrow> spatial_index" where
  "si_run env ops idx = fold (si_step env) ops idx"

section \<open>Specification notions\<close>

text \<open>The MBR-union of a list of MBRs: the smallest rectangle around those that are not
  empty, and the empty MBR when there is none.\<close>

definition mbr_union_all :: "mbr list \<Rightarrow> mbr" where
  "mbr_union_all ms =
     (let ne = filter (\<lambda>m. \<not> mbr_is_empty m) ms in
      if ne = [] then mbr_empty
      else \<lparr>min_x = Min (set (map min_x ne)), min_y = Min (set (map min_y ne)),
            max_x = Max (set (map max_x ne)), max_y = Max (set (map max_y ne))\<rparr>)"

text \<open>The arithmetic mean of a list of points.\<close>

definition centroid_mean :: "point list \<Rightarrow> point" where
  "centroid_mean ps =
     \<lparr>px = sum_list (map px ps) / real (length ps),
      py = sum_list (map py ps) / real (length ps)\<rparr>"

text \<open>The coordinates of an MBR are finite doubles.\<close>

definition mbr_in_double_range :: "mbr \<Rightarrow> bool" where
  "mbr_in_double_range m \<longleftrightarrow>
     is_double (min_x m) \<and> is_double (min_y m) \<and> is_double (max_x m) \<and> is_double (max_y m)"

text \<open>The derived fields of a page agree with its objects (invariant 1 of the
  specification).\<close>

definition page_derived_ok :: "page \<Rightarrow> bool" where
  "page_derived_ok pg \<longleftrightarrow>
     (object_count pg > 0 \<longrightarrow>
        extent (header pg) = mbr_union_all (map obj_mbr (objects pg)) \<and>
        centroid (header pg) = centroid_mean (map obj_centroid (objects pg)))"

text \<open>The object as \<open>spatial_index_insert\<close> stores it, and the MBR that
  \<open>spatial_object_update_derived\<close> computes for an object.\<close>

definition insert_object :: "spatial_index \<Rightarrow> spatial_object \<Rightarrow> spatial_object" where
  "insert_object idx obj =
     spatial_object_update_derived
       (if obj_id obj = 0 then obj\<lparr>obj_id := next_object_id idx\<rparr> else obj)"

definition derived_mbr :: "spatial_object \<Rightarrow> mbr" where
  "derived_mbr obj = obj_mbr (spatial_object_update_derived obj)"

text \<open>The objects an operation hands to the index have MBRs of finite doubles.\<close>

fun op_in_double_range :: "si_op \<Rightarrow> bool" where
  "op_in_double_range (OpInsert obj) = mbr_in_double_range (derived_mbr obj)"
| "op_in_double_range (OpBulkInsert objs) = list_all (\<lambda>obj. mbr_in_double_range (derived_mbr obj)) objs"
| "op_in_double_range (OpUpdate oid obj) = mbr_in_double_range (derived_mbr obj)"
| "op_in_double_range _ = True"

text \<open>All objects currently stored, and the MBRs of the objects inserted with success by
  an operation and by a sequence of operations.\<close>

definition stored_objects :: "spatial_index \<Rightarrow> spatial_object list" where
  "stored_objects idx = concat (map objects (pages (pool (disk idx))))"

fun bulk_inserted :: "platform \<Rightarrow> spatial_index \<Rightarrow> spatial_object list \<Rightarrow> mbr list" where
  "bulk_inserted env idx [] = []"
| "bulk_inserted env idx (obj # objs) =
     (case spatial_index_insert env idx obj of
        (st, idx1, obj1) \<Rightarrow>
          if st \<noteq> SI_OK then [] else obj_mbr obj1 # bulk_inserted env idx1 objs)"

fun inserted_by :: "platform \<Rightarrow> si_op \<Rightarrow> spatial_index \<Rightarrow> mbr list" where
  "inserted_by env (OpInsert obj) idx =
     (case spatial_index_insert env idx obj of
        (st, idx1, obj1) \<Rightarrow> if st = SI_OK then [obj_mbr obj1] else [])"
| "inserted_by env (OpBulkInsert objs) idx = bulk_inserted env idx objs"
| "inserted_by env (OpUpdate oid obj) idx =
     (case spatial_index_remove env idx oid of
        (err, idx1) \<Rightarrow>
          if err \<noteq> SI_OK then []
          else (case spatial_index_insert env idx1 ((spatial_object_copy obj)\<lparr>obj_id := oid\<rparr>) of
                  (st, idx2, obj2) \<Rightarrow> if st = SI_OK then [obj_mbr obj2] else []))"
| "inserted_by env other idx = []"

fun ever_inserted :: "platform \<Rightarrow> si_op list \<Rightarrow> spatial_index \<Rightarrow> mbr list" where
  "ever_inserted env [] idx = []"
| "ever_inserted env (op # ops) idx =
     inserted_by env op idx @ ever_inserted env ops (si_step env op idx)"

text \<open>The closed rectangle of an MBR as a set of points, and rectangle intersection.\<close>

definition mbr_points :: "mbr \<Rightarrow> (real \<times> real) set" where
  "mbr_points m = {(x, y). min_x m \<le> x \<and> x \<le> max_x m \<and> min_y m \<le> y \<and> y \<le> max_y m}"

definition rect_intersects :: "mbr \<Rightarrow> mbr \<Rightarrow> bool" where
  "rect_intersects a b \<longleftrightarrow> mbr_points a \<inter> mbr_points b \<noteq> {}"



section \<open>A platform instance and example objects\<close>

text \<open>For evaluating the model on concrete inputs: a stable insertion sort by the comparator
  stands for \<open>qsort\<close>, and the checksum bytes of a double are taken to be zero.\<close>

fun cmp_insert :: "('a \<Rightarrow> 'a \<Rightarrow> int) \<Rightarrow> 'a \<Rightarrow> 'a list \<Rightarrow> 'a list" where
  "cmp_insert cmp x [] = [x]"
| "cmp_insert cmp x (y # ys) = (if cmp x y \<le> 0 then x # y # ys else y # cmp_insert cmp x ys)"

definition cmp_sort :: "('a \<Rightarrow> 'a \<Rightarrow> int) \<Rightarrow> 'a list \<Rightarrow> 'a list" where
  "cmp_sort cmp xs = foldr (cmp_insert cmp) xs []"

definition example_platform :: platform where
  "example_platform = \<lparr>double_bytes = (\<lambda>v. replicate 8 0), qsort = cmp_sort\<rparr>"

definition point_object :: "real \<Rightarrow> real \<Rightarrow> spatial_object" where
  "point_object x y =
     \<lparr>obj_id = 0, obj_geom = GEOM_POINT \<lparr>px = x, py = y\<rparr>, obj_centroid = \<lparr>px = x, py = y\<rparr>,
      obj_mbr = mbr_create x y x y, obj_properties = []\<rparr>"

text \<open>An index holding the points \<open>(0, 0)\<close> (id 1) and \<open>(10, 10)\<close> (id 2) in one page, with
  bounds \<open>(0, 0, 10, 10)\<close>; and the same index with the block tree of a build that ran when
  only the first point was stored, \<open>is_built\<close> reset by the second insert.\<close>

definition two_page :: page where
  "two_page =
     \<lparr>header = \<lparr>page_id = 1, track_id = 1, flags = 5, extent = mbr_create 0 0 10 10,
                centroid = \<lparr>px = 5, py = 5\<rparr>, checksum = 0\<rparr>,
      objects = [(point_object 0 0)\<lparr>obj_id := 1\<rparr>, (point_object 10 10)\<lparr>obj_id := 2\<rparr>],
      object_capacity = 64, in_memory = True\<rparr>"

definition two_index :: spatial_index where
  "two_index =
     (spatial_index_init spatial_index_default_config)
       \<lparr>disk := (disk_manager_init disk_manager_default_config)
                  \<lparr>pool := \<lparr>pages = [two_page],
                             tracks = [(track_create 1)\<lparr>trk_pages := [0, 0]\<rparr>],
                             next_page_id = 2, next_track_id = 2\<rparr>\<rparr>,
         next_object_id := 3,
         si_bounds := mbr_create 0 0 10 10\<rparr>"

definition stale_tree :: "(nat \<times> nat) kdtree" where
  "stale_tree =
     \<lparr>kd_root = KDNode \<lparr>px = 0, py = 0\<rparr> 1 (Some (0, 0)) 0 KDNull KDNull (mbr_create 0 0 0 0) 1,
      kd_size = 1, kd_tree_bounds = mbr_create 0 0 0 0\<rparr>"

definition stale_index :: spatial_index where
  "stale_index = two_index\<lparr>block_tree := stale_tree, is_built := False\<rparr>"

section \<open>LRU page cache (page.c)\<close>

text \<open>
  The cache is a doubly linked list of \<open>PageRef\<close> nodes and a hash table whose buckets
  point into the same nodes: \<open>page_cache_get\<close> stores the bucket chain in \<open>ref->next\<close> and
  then overwrites that field with the list link, so the two structures alias. The nodes
  therefore live in an explicit store \<open>c_refs\<close> from addresses to nodes; \<open>calloc\<close> returns
  the fresh address \<open>c_next_ref\<close>, and \<open>free\<close> removes the address from the store.

  A function that walks pointers returns an \<open>option\<close>: \<open>None\<close> when the call does not
  return (or follows a pointer that is not in the store). The timestamp of
  \<open>get_timestamp\<close> is an argument.
\<close>

record page_ref =
  ref_page_id :: nat
  ref_access_count :: nat
  ref_last_access :: nat
  ref_next :: "nat option"
  ref_prev :: "nat option"

record page_cache =
  c_head :: "nat option"
  c_tail :: "nat option"
  c_hash_table :: "nat option list"
  c_hash_size :: nat
  c_count :: nat
  c_capacity :: nat
  c_refs :: "nat \<Rightarrow> page_ref option"
  c_next_ref :: nat

definition page_hash :: "nat \<Rightarrow> nat \<Rightarrow> nat" where
  "page_hash pid hash_size = pid mod hash_size"

definition page_cache_init :: "nat \<Rightarrow> page_cache" where
  "page_cache_init capacity =
     (let cap = (if capacity > 0 then capacity else 64)
      in \<lparr>c_head = None, c_tail = None, c_hash_table = replicate (cap * 2) None,
          c_hash_size = cap * 2, c_count = 0, c_capacity = cap,
          c_refs = (\<lambda>a. None), c_next_ref = 0\<rparr>)"

text \<open>Writing a field of the node at an address.\<close>

definition set_ref_next :: "page_cache \<Rightarrow> nat \<Rightarrow> nat option \<Rightarrow> page_cache" where
  "set_ref_next c a v =
     (case c_refs c a of
        None \<Rightarrow> c
      | Some rf \<Rightarrow> c\<lparr>c_refs := (c_refs c)(a := Some (rf\<lparr>ref_next := v\<rparr>))\<rparr>)"

definition set_ref_prev :: "page_cache \<Rightarrow> nat \<Rightarrow> nat option \<Rightarrow> page_cache" where
  "set_ref_prev c a v =
     (case c_refs c a of
        None \<Rightarrow> c
      | Some rf \<Rightarrow> c\<lparr>c_refs := (c_refs c)(a := Some (rf\<lparr>ref_prev := v\<rparr>))\<rparr>)"

definition get_ref_next :: "page_cache \<Rightarrow> nat \<Rightarrow> nat option" where
  "get_ref_next c a = (case c_refs c a of None \<Rightarrow> None | Some rf \<Rightarrow> ref_next rf)"

definition get_ref_prev :: "page_cache \<Rightarrow> nat \<Rightarrow> nat option" where
  "get_ref_prev c a = (case c_refs c a of None \<Rightarrow> None | Some rf \<Rightarrow> ref_prev rf)"

text \<open>The lookup loop of \<open>page_cache_get\<close>: from the bucket, follow \<open>next\<close> until the page
  id is found or the pointer is \<open>NULL\<close>.\<close>

partial_function (option) cache_lookup ::
  "(nat \<Rightarrow> page_ref option) \<Rightarrow> nat option \<Rightarrow> nat \<Rightarrow> nat option option" where
  "cache_lookup refs r pid =
     (case r of
        None \<Rightarrow> Some None
      | Some a \<Rightarrow>
          (case refs a of
             None \<Rightarrow> None
           | Some rf \<Rightarrow>
               if ref_page_id rf = pid then Some (Some a)
               else cache_lookup refs (ref_next rf) pid))"

text \<open>Removing a node from the list (the four statements under \<open>Remove from LRU list\<close> in
  \<open>page_cache_evict\<close>).\<close>

definition lru_unlink :: "page_cache \<Rightarrow> nat \<Rightarrow> page_cache" where
  "lru_unlink c victim =
     (let c1 = (case get_ref_prev c victim of
                  None \<Rightarrow> c | Some p \<Rightarrow> set_ref_next c p (get_ref_next c victim));
          c2 = (case get_ref_next c1 victim of
                  None \<Rightarrow> c1 | Some n \<Rightarrow> set_ref_prev c1 n (get_ref_prev c1 victim));
          c3 = (if c_head c2 = Some victim then c2\<lparr>c_head := get_ref_next c2 victim\<rparr> else c2);
          c4 = (if c_tail c3 = Some victim then c3\<lparr>c_tail := get_ref_prev c3 victim\<rparr> else c3)
      in c4)"

text \<open>The pointer \<open>pp\<close> of the hash-chain removal points at a bucket or at the \<open>next\<close>
  field of a node.\<close>

datatype ref_slot = Bucket nat | NextOf nat

definition read_slot :: "page_cache \<Rightarrow> ref_slot \<Rightarrow> nat option option" where
  "read_slot c s =
     (case s of
        Bucket i \<Rightarrow> Some (c_hash_table c ! i)
      | NextOf a \<Rightarrow> (case c_refs c a of None \<Rightarrow> None | Some rf \<Rightarrow> Some (ref_next rf)))"

definition write_slot :: "page_cache \<Rightarrow> ref_slot \<Rightarrow> nat option \<Rightarrow> page_cache" where
  "write_slot c s v =
     (case s of
        Bucket i \<Rightarrow> c\<lparr>c_hash_table := (c_hash_table c)[i := v]\<rparr>
      | NextOf a \<Rightarrow> set_ref_next c a v)"

partial_function (option) hash_unlink ::
  "page_cache \<Rightarrow> ref_slot \<Rightarrow> nat \<Rightarrow> page_cache option" where
  "hash_unlink c s victim =
     (case read_slot c s of
        None \<Rightarrow> None
      | Some None \<Rightarrow> Some c
      | Some (Some a) \<Rightarrow>
          if a = victim then Some (write_slot c s (get_ref_next c victim))
          else hash_unlink c (NextOf a) victim)"

definition page_is_pinned :: "page_pool \<Rightarrow> nat \<Rightarrow> bool" where
  "page_is_pinned pl pid =
     (case page_pool_get pl pid of
        None \<Rightarrow> False
      | Some pp \<Rightarrow> flags (header (pages pl ! pp)) AND PAGE_STATUS_PINNED \<noteq> 0)"

text \<open>The loop of \<open>page_cache_evict\<close>. A pinned victim is skipped by
  \<open>victim = victim->prev; continue;\<close>, and the next iteration starts again with
  \<open>victim = cache->tail\<close>: the loop state \<open>(evicted, cache)\<close> is unchanged.\<close>

partial_function (option) page_cache_evict_loop ::
  "page_pool \<Rightarrow> nat \<Rightarrow> nat \<Rightarrow> page_cache \<Rightarrow> page_cache option" where
  "page_cache_evict_loop pl n evicted c =
     (if evicted < n \<and> c_tail c \<noteq> None then
        (case c_tail c of
           None \<Rightarrow> Some c
         | Some victim \<Rightarrow>
             (case c_refs c victim of
                None \<Rightarrow> None
              | Some vrf \<Rightarrow>
                  if page_is_pinned pl (ref_page_id vrf)
                  then page_cache_evict_loop pl n evicted c
                  else
                    (case hash_unlink (lru_unlink c victim)
                            (Bucket (page_hash (ref_page_id vrf) (c_hash_size c))) victim of
                       None \<Rightarrow> None
                     | Some c1 \<Rightarrow>
                         page_cache_evict_loop pl n (evicted + 1)
                           (c1\<lparr>c_refs := (c_refs c1)(victim := None),
                               c_count := c_count c1 - 1\<rparr>))))
      else Some c)"

definition page_cache_evict :: "page_cache \<Rightarrow> page_pool \<Rightarrow> nat \<Rightarrow> (page_error \<times> page_cache) option" where
  "page_cache_evict c pl n =
     (case page_cache_evict_loop pl n 0 c of
        None \<Rightarrow> None
      | Some c1 \<Rightarrow> Some (PAGE_OK, c1))"

text \<open>Moving a hit to the head of the list.\<close>

definition lru_move_to_front :: "page_cache \<Rightarrow> nat \<Rightarrow> page_cache" where
  "lru_move_to_front c r =
     (if c_head c = Some r then c
      else
        (let c1 = (case get_ref_prev c r of
                     None \<Rightarrow> c | Some p \<Rightarrow> set_ref_next c p (get_ref_next c r));
             c2 = (case get_ref_next c1 r of
                     None \<Rightarrow> c1 | Some n \<Rightarrow> set_ref_prev c1 n (get_ref_prev c1 r));
             c3 = (if c_tail c2 = Some r then c2\<lparr>c_tail := get_ref_prev c2 r\<rparr> else c2);
             c4 = set_ref_prev c3 r None;
             c5 = set_ref_next c4 r (c_head c4);
             c6 = (case c_head c5 of None \<Rightarrow> c5 | Some h \<Rightarrow> set_ref_prev c5 h (Some r))
         in c6\<lparr>c_head := Some r\<rparr>))"

definition page_cache_get ::
  "page_cache \<Rightarrow> page_pool \<Rightarrow> nat \<Rightarrow> nat \<Rightarrow> (nat option \<times> page_cache) option" where
  "page_cache_get c pl pid now =
     (let idx = page_hash pid (c_hash_size c) in
      case cache_lookup (c_refs c) (c_hash_table c ! idx) pid of
        None \<Rightarrow> None
      | Some (Some r) \<Rightarrow>
          (let c1 = lru_move_to_front c r;
               c2 = (case c_refs c1 r of
                       None \<Rightarrow> c1
                     | Some rf \<Rightarrow>
                         c1\<lparr>c_refs := (c_refs c1)
                              (r := Some (rf\<lparr>ref_access_count := ref_access_count rf + 1,
                                            ref_last_access := now\<rparr>))\<rparr>)
           in Some (page_pool_get pl pid, c2))
      | Some None \<Rightarrow>
          (case page_pool_get pl pid of
             None \<Rightarrow> Some (None, c)
           | Some pp \<Rightarrow>
               (case (if c_count c \<ge> c_capacity c
                      then map_option snd (page_cache_evict c pl 1) else Some c) of
                  None \<Rightarrow> None
                | Some c1 \<Rightarrow>
                    (let r = c_next_ref c1;
                         rf = \<lparr>ref_page_id = pid, ref_access_count = 1, ref_last_access = now,
                               ref_next = c_head c1, ref_prev = None\<rparr>;
                         c2 = c1\<lparr>c_next_ref := r + 1,
                                 c_refs := (c_refs c1)(r := Some rf),
                                 c_hash_table := (c_hash_table c1)[idx := Some r]\<rparr>;
                         c3 = (case c_head c2 of None \<Rightarrow> c2 | Some h \<Rightarrow> set_ref_prev c2 h (Some r));
                         c4 = c3\<lparr>c_head := Some r\<rparr>;
                         c5 = (if c_tail c4 = None then c4\<lparr>c_tail := Some r\<rparr> else c4)
                     in Some (Some pp, c5\<lparr>c_count := c_count c5 + 1\<rparr>)))))"

definition page_cache_pin :: "page_pool \<Rightarrow> nat \<Rightarrow> page_error \<times> page_pool" where
  "page_cache_pin pl pid =
     (case page_pool_get pl pid of
        None \<Rightarrow> (PAGE_ERR_NOT_FOUND, pl)
      | Some pp \<Rightarrow>
          (let pg = pages pl ! pp
           in (PAGE_OK,
               pl\<lparr>pages := (pages pl)
                     [pp := pg\<lparr>header := (header pg)\<lparr>flags := flags (header pg) OR PAGE_STATUS_PINNED\<rparr>\<rparr>]\<rparr>)))"

definition page_cache_unpin :: "page_pool \<Rightarrow> nat \<Rightarrow> page_error \<times> page_pool" where
  "page_cache_unpin pl pid =
     (case page_pool_get pl pid of
        None \<Rightarrow> (PAGE_ERR_NOT_FOUND, pl)
      | Some pp \<Rightarrow>
          (let pg = pages pl ! pp
           in (PAGE_OK,
               pl\<lparr>pages := (pages pl)
                     [pp := pg\<lparr>header := (header pg)\<lparr>flags := flags (header pg) AND NOT PAGE_STATUS_PINNED\<rparr>\<rparr>]\<rparr>)))"

section \<open>Page images (page.c)\<close>

text \<open>
  \<open>page_serialize\<close> and \<open>page_deserialize\<close> copy the object representation of structure
  fields with \<open>memcpy\<close>. In this section a field is therefore the machine word of its bytes:
  a \<open>uint32_t\<close> or a \<open>GeomType\<close> is a \<open>32 word\<close>, a \<open>uint64_t\<close> is a \<open>64 word\<close>, and a
  \<open>double\<close> is the \<open>64 word\<close> of its eight bytes. Bytes are taken in little-endian order.
\<close>

definition word_bytes :: "nat \<Rightarrow> 'a::len word \<Rightarrow> 8 word list" where
  "word_bytes n w = map (\<lambda>i. ucast (drop_bit (8 * i) w)) [0..<n]"

fun bytes_word :: "8 word list \<Rightarrow> 'a::len word" where
  "bytes_word [] = 0"
| "bytes_word (b # bs) = ucast b OR push_bit 8 (bytes_word bs)"

text \<open>\<open>Point\<close>, \<open>MBR\<close>, \<open>PageHeader\<close>, \<open>SpatialObject\<close> and \<open>Page\<close> with the
  object representation of their fields. \<open>ro_geom\<close> stands for the geometry union and the
  properties of an object, which the page image does not carry; \<open>rpg_objects\<close> is the
  allocated object array, of which the first \<open>object_count\<close> slots are in use.\<close>

record raw_point =
  rp_x :: "64 word"
  rp_y :: "64 word"

record raw_mbr =
  rm_min_x :: "64 word"
  rm_min_y :: "64 word"
  rm_max_x :: "64 word"
  rm_max_y :: "64 word"

record raw_header =
  rh_page_id :: "32 word"
  rh_track_id :: "32 word"
  rh_object_count :: "32 word"
  rh_flags :: "32 word"
  rh_extent :: raw_mbr
  rh_centroid :: raw_point
  rh_checksum :: "64 word"

record 'g raw_object =
  ro_id :: "64 word"
  ro_type :: "32 word"
  ro_geom :: 'g
  ro_centroid :: raw_point
  ro_mbr :: raw_mbr

record 'g raw_page =
  rpg_header :: raw_header
  rpg_objects :: "'g raw_object list"
  rpg_object_capacity :: nat
  rpg_in_memory :: bool

text \<open>The bytes of a \<open>Point\<close>, of an \<open>MBR\<close> and of a \<open>PageHeader\<close> (72 bytes, no padding),
  and the structures read back from such bytes.\<close>

definition point_bytes :: "raw_point \<Rightarrow> 8 word list" where
  "point_bytes p = word_bytes 8 (rp_x p) @ word_bytes 8 (rp_y p)"

definition bytes_point :: "8 word list \<Rightarrow> raw_point" where
  "bytes_point bs = \<lparr>rp_x = bytes_word (take 8 bs), rp_y = bytes_word (take 8 (drop 8 bs))\<rparr>"

definition mbr_bytes :: "raw_mbr \<Rightarrow> 8 word list" where
  "mbr_bytes m = word_bytes 8 (rm_min_x m) @ word_bytes 8 (rm_min_y m)
               @ word_bytes 8 (rm_max_x m) @ word_bytes 8 (rm_max_y m)"

definition bytes_mbr :: "8 word list \<Rightarrow> raw_mbr" where
  "bytes_mbr bs =
     \<lparr>rm_min_x = bytes_word (take 8 bs), rm_min_y = bytes_word (take 8 (drop 8 bs)),
      rm_max_x = bytes_word (take 8 (drop 16 bs)), rm_max_y = bytes_word (take 8 (drop 24 bs))\<rparr>"

definition header_bytes :: "raw_header \<Rightarrow> 8 word list" where
  "header_bytes h =
     word_bytes 4 (rh_page_id h) @ word_bytes 4 (rh_track_id h)
     @ word_bytes 4 (rh_object_count h) @ word_bytes 4 (rh_flags h)
     @ mbr_bytes (rh_extent h) @ point_bytes (rh_centroid h) @ word_bytes 8 (rh_checksum h)"

definition bytes_header :: "8 word list \<Rightarrow> raw_header" where
  "bytes_header bs =
     \<lparr>rh_page_id = bytes_word (take 4 bs), rh_track_id = bytes_word (take 4 (drop 4 bs)),
      rh_object_count = bytes_word (take 4 (drop 8 bs)),
      rh_flags = bytes_word (take 4 (drop 12 bs)),
      rh_extent = bytes_mbr (take 32 (drop 16 bs)),
      rh_centroid = bytes_point (take 16 (drop 48 bs)),
      rh_checksum = bytes_word (take 8 (drop 64 bs))\<rparr>"

text \<open>\<open>sizeof(PageHeader)\<close>; the other sizes, \<open>sizeof(uint64_t) = 8\<close>,
  \<open>sizeof(GeomType) = 4\<close>, \<open>sizeof(Point) = 16\<close> and \<open>sizeof(MBR) = 32\<close>, are written as
  numbers where the sources add them to \<open>offset\<close>.\<close>

definition SIZEOF_PAGE_HEADER :: nat where "SIZEOF_PAGE_HEADER = 72"

text \<open>\<open>memcpy(buffer + offset, src, n)\<close> and \<open>memcpy(dst, buffer + offset, n)\<close> on a buffer
  of \<open>length buf\<close> bytes. An access outside the buffer has no defined result: \<open>None\<close>.\<close>

definition write_bytes :: "8 word list \<Rightarrow> nat \<Rightarrow> 8 word list \<Rightarrow> 8 word list option" where
  "write_bytes buf offset src =
     (if offset + length src \<le> length buf
      then Some (take offset buf @ src @ drop (offset + length src) buf)
      else None)"

definition read_bytes :: "8 word list \<Rightarrow> nat \<Rightarrow> nat \<Rightarrow> 8 word list option" where
  "read_bytes buf offset n =
     (if offset + n \<le> length buf then Some (take n (drop offset buf)) else None)"

text \<open>The loop of \<open>page_serialize\<close> with its variables \<open>i\<close> and \<open>offset\<close>. Reading
  \<open>page->objects[i]\<close> outside the allocated array has no defined result.\<close>

function serialize_objects ::
  "'g raw_object list \<Rightarrow> nat \<Rightarrow> nat \<Rightarrow> nat \<Rightarrow> 8 word list \<Rightarrow> 8 word list option" where
  "serialize_objects objs i cnt offset buf =
     (if i < cnt then
        (if i < length objs then
           (case write_bytes buf offset (word_bytes 8 (ro_id (objs ! i))) of
              None \<Rightarrow> None
            | Some b1 \<Rightarrow>
           (case write_bytes b1 (offset + 8) (word_bytes 4 (ro_type (objs ! i))) of
              None \<Rightarrow> None
            | Some b2 \<Rightarrow>
           (case write_bytes b2 (offset + 8 + 4) (point_bytes (ro_centroid (objs ! i))) of
              None \<Rightarrow> None
            | Some b3 \<Rightarrow>
           (case write_bytes b3 (offset + 8 + 4 + 16) (mbr_bytes (ro_mbr (objs ! i))) of
              None \<Rightarrow> None
            | Some b4 \<Rightarrow> serialize_objects objs (i + 1) cnt (offset + 8 + 4 + 16 + 32) b4))))
         else None)
      else Some buf)"
  by pat_completeness auto
termination
  by (relation "measure (\<lambda>(objs, i, cnt, offset, buf). cnt - i)") auto

text \<open>\<open>page_serialize\<close>: \<open>buffer\<close> is the caller's buffer, of \<open>buffer_size = length buffer\<close>
  bytes; it is zeroed by \<open>memset\<close> before the header is written.\<close>

definition page_serialize ::
  "'g raw_page \<Rightarrow> 8 word list \<Rightarrow> (page_error \<times> 8 word list) option" where
  "page_serialize pg buffer =
     (if length buffer < PAGE_SIZE then Some (PAGE_ERR_ALLOC, buffer)
      else
        (case write_bytes (replicate (length buffer) 0) 0 (header_bytes (rpg_header pg)) of
           None \<Rightarrow> None
         | Some b1 \<Rightarrow>
             (case serialize_objects (rpg_objects pg) 0
                     (unat (rh_object_count (rpg_header pg))) SIZEOF_PAGE_HEADER b1 of
                None \<Rightarrow> None
              | Some b2 \<Rightarrow> Some (PAGE_OK, b2))))"

text \<open>The loop of \<open>page_deserialize\<close>: the four fields of slot \<open>i\<close> of the target page are
  overwritten, the rest of the slot is kept.\<close>

function deserialize_objects ::
  "'g raw_object list \<Rightarrow> nat \<Rightarrow> nat \<Rightarrow> nat \<Rightarrow> 8 word list \<Rightarrow> 'g raw_object list option" where
  "deserialize_objects objs i cnt offset buf =
     (if i < cnt then
        (if i < length objs then
           (case read_bytes buf offset 8 of
              None \<Rightarrow> None
            | Some idb \<Rightarrow>
           (case read_bytes buf (offset + 8) 4 of
              None \<Rightarrow> None
            | Some tyb \<Rightarrow>
           (case read_bytes buf (offset + 8 + 4) 16 of
              None \<Rightarrow> None
            | Some centroidb \<Rightarrow>
           (case read_bytes buf (offset + 8 + 4 + 16) 32 of
              None \<Rightarrow> None
            | Some mb \<Rightarrow>
                deserialize_objects
                  (objs[i := (objs ! i)\<lparr>ro_id := bytes_word idb,
                                         ro_type := bytes_word tyb,
                                         ro_centroid := bytes_point centroidb,
                                         ro_mbr := bytes_mbr mb\<rparr>])
                  (i + 1) cnt (offset + 8 + 4 + 16 + 32) buf))))
         else None)
      else Some objs)"
  by pat_completeness auto
termination
  by (relation "measure (\<lambda>(objs, i, cnt, offset, buf). cnt - i)") auto

text \<open>\<open>page_deserialize\<close>: the header is copied into the page before the sanity check, so
  a corrupt image leaves its header in the page.\<close>

definition page_deserialize ::
  "'g raw_page \<Rightarrow> 8 word list \<Rightarrow> (page_error \<times> 'g raw_page) option" where
  "page_deserialize pg buffer =
     (if length buffer < PAGE_SIZE then Some (PAGE_ERR_CORRUPT, pg)
      else
        (case read_bytes buffer 0 SIZEOF_PAGE_HEADER of
           None \<Rightarrow> None
         | Some hb \<Rightarrow>
             (let pg1 = pg\<lparr>rpg_header := bytes_header hb\<rparr> in
              if unat (rh_object_count (rpg_header pg1)) > MAX_OBJECTS_PER_PAGE
              then Some (PAGE_ERR_CORRUPT, pg1)
              else
                (case deserialize_objects (rpg_objects pg1) 0
                        (unat (rh_object_count (rpg_header pg1))) SIZEOF_PAGE_HEADER buffer of
                   None \<Rightarrow> None
                 | Some objs \<Rightarrow>
                     Some (PAGE_OK, pg1\<lparr>rpg_objects := objs, rpg_in_memory := True\<rparr>)))))"

section \<open>Example states of the cache, the quadtree and a page image\<close>

subsection \<open>A cache of capacity one over a pool of two pages\<close>

text \<open>A pool holding pages 1 and 2, and the cache of capacity one after page 1 was fetched.\<close>

definition two_page_pool :: page_pool where
  "two_page_pool =
     \<lparr>pages = [page_create 1 0, page_create 2 0], tracks = [],
      next_page_id = 3, next_track_id = 1\<rparr>"

definition cache_one :: page_cache where
  "cache_one =
     \<lparr>c_head = Some 0, c_tail = Some 0, c_hash_table = [None, Some 0], c_hash_size = 2,
      c_count = 1, c_capacity = 1,
      c_refs = (\<lambda>a. None)(0 := Some \<lparr>ref_page_id = 1, ref_access_count = 1, ref_last_access = 100,
                                       ref_next = None, ref_prev = None\<rparr>),
      c_next_ref = 1\<rparr>"

subsection \<open>A quadtree holding an item that straddles the centre\<close>

text \<open>Root bounds \<open>[0,10] \<times> [0,10]\<close>, node capacity 1, maximum depth 20. The first item
  \<open>[4,6] \<times> [4,6]\<close> lies across the centre \<open>(5,5)\<close>; the second, \<open>[1,2] \<times> [1,2]\<close>, lies in
  the south-west quadrant and makes the root split.\<close>

definition straddle_tree0 :: "unit quadtree" where
  "straddle_tree0 = quadtree_create (mbr_create 0 0 10 10) 1 20"

definition straddle_tree1 :: "unit quadtree" where
  "straddle_tree1 = snd (quadtree_insert straddle_tree0 1 (mbr_create 4 4 6 6) None)"

definition straddle_tree2 :: "unit quadtree" where
  "straddle_tree2 = snd (quadtree_insert straddle_tree1 2 (mbr_create 1 1 2 2) None)"

subsection \<open>A stored page and an empty target page\<close>

text \<open>A page with one point object at \<open>(3.0, 4.0)\<close> (the doubles \<open>0x4008000000000000\<close> and
  \<open>0x4010000000000000\<close>), and a zeroed page with 64 object slots.\<close>

definition stored_raw_page :: "unit raw_page" where
  "stored_raw_page =
     \<lparr>rpg_header =
        \<lparr>rh_page_id = 1, rh_track_id = 1, rh_object_count = 1, rh_flags = 5,
         rh_extent = \<lparr>rm_min_x = 0x4008000000000000, rm_min_y = 0x4010000000000000,
                      rm_max_x = 0x4008000000000000, rm_max_y = 0x4010000000000000\<rparr>,
         rh_centroid = \<lparr>rp_x = 0x4008000000000000, rp_y = 0x4010000000000000\<rparr>,
         rh_checksum = 0x0123456789ABCDEF\<rparr>,
      rpg_objects =
        [\<lparr>ro_id = 7, ro_type = 0, ro_geom = (),
          ro_centroid = \<lparr>rp_x = 0x4008000000000000, rp_y = 0x4010000000000000\<rparr>,
          ro_mbr = \<lparr>rm_min_x = 0x4008000000000000, rm_min_y = 0x4010000000000000,
                    rm_max_x = 0x4008000000000000, rm_max_y = 0x4010000000000000\<rparr>\<rparr>],
      rpg_object_capacity = 64, rpg_in_memory = True\<rparr>"

definition blank_raw_page :: "unit raw_page" where
  "blank_raw_page =
     \<lparr>rpg_header =
        \<lparr>rh_page_id = 0, rh_track_id = 0, rh_object_count = 0, rh_flags = 0,
         rh_extent = \<lparr>rm_min_x = 0, rm_min_y = 0, rm_max_x = 0, rm_max_y = 0\<rparr>,
         rh_centroid = \<lparr>rp_x = 0, rp_y = 0\<rparr>, rh_checksum = 0\<rparr>,
      rpg_objects =
        replicate 64 \<lparr>ro_id = 0, ro_type = 0, ro_geom = (),
                       ro_centroid = \<lparr>rp_x = 0, rp_y = 0\<rparr>,
                       ro_mbr = \<lparr>rm_min_x = 0, rm_min_y = 0, rm_max_x = 0, rm_max_y = 0\<rparr>\<rparr>,
      rpg_object_capacity = 64, rpg_in_memory = False\<rparr>"

section \<open>Verification: the seek estimator\<close>

lemma estimate_seeks_fold:
  "\<forall>pid \<in> set ids. page_pool_get pl pid \<noteq> None \<Longrightarrow>
   fst (fold (estimate_seeks_step pl) ids (s, l)) = s + track_transitions l (map (resolved_track pl) ids)"
proof (induction ids arbitrary: s l)
  case Nil
  then show ?case by simp
next
  case (Cons pid ids)
  then obtain pp where pp: "page_pool_get pl pid = Some pp" by auto
  from Cons.prems have rest: "\<forall>pid \<in> set ids. page_pool_get pl pid \<noteq> None" by simp
  show ?case
    using Cons.IH [OF rest] pp
    by (simp add: estimate_seeks_step_def resolved_track_def Let_def)
qed

lemma track_transitions_le: "track_transitions l ts \<le> length ts"
  by (induction ts arbitrary: l) (auto simp: le_SucI)

lemma track_transitions_zero_le: "ts \<noteq> [] \<Longrightarrow> track_transitions 0 ts \<le> length ts - 1"
proof (cases ts)
  case Nil
  assume "ts \<noteq> []"
  with Nil show ?thesis by simp
next
  case (Cons t ts')
  then show ?thesis using track_transitions_le [of t ts'] by simp
qed

text \<open>
  Claim C6. When every page id of the list resolves to a page of the pool,
  \<open>disk_manager_estimate_seeks\<close> returns the number of track transitions of the list in
  its given order, and for a non-empty list the result is at most \<open>count - 1\<close>. (The
  result is a \<open>uint64_t\<close> bounded by \<open>count\<close>, a \<open>size_t\<close>, so it cannot wrap.)
\<close>

theorem estimate_seeks_track_transitions:
  assumes "\<forall>pid \<in> set page_ids. page_pool_get (pool dm) pid \<noteq> None"
  shows "disk_manager_estimate_seeks dm page_ids
           = track_transitions 0 (map (resolved_track (pool dm)) page_ids)
         \<and> (page_ids \<noteq> [] \<longrightarrow> disk_manager_estimate_seeks dm page_ids \<le> length page_ids - 1)"
proof -
  have eq: "disk_manager_estimate_seeks dm page_ids
           = track_transitions 0 (map (resolved_track (pool dm)) page_ids)"
    using estimate_seeks_fold [OF assms, of 0 0]
    by (simp add: disk_manager_estimate_seeks_def)
  moreover have "page_ids \<noteq> [] \<longrightarrow>
      track_transitions 0 (map (resolved_track (pool dm)) page_ids) \<le> length page_ids - 1"
    using track_transitions_zero_le [of "map (resolved_track (pool dm)) page_ids"] by simp
  ultimately show ?thesis by simp
qed

definition seek_pool :: page_pool where
  "seek_pool = \<lparr>pages = [page_create 1 1, page_create 2 1, page_create 3 2],
                tracks = [], next_page_id = 4, next_track_id = 3\<rparr>"

definition seek_dm :: disk_manager where
  "seek_dm = (disk_manager_init disk_manager_default_config)\<lparr>pool := seek_pool\<rparr>"

theorem estimate_seeks_track_transitions_witness:
  "page_pool_get (pool seek_dm) 1 \<noteq> None
   \<and> page_pool_get (pool seek_dm) 3 \<noteq> None
   \<and> page_pool_get (pool seek_dm) 2 \<noteq> None
   \<and> disk_manager_estimate_seeks seek_dm [1, 3, 2] = 2
   \<and> track_transitions 0 (map (resolved_track (pool seek_dm)) [1, 3, 2]) = 2
   \<and> disk_manager_estimate_seeks seek_dm [1, 3, 2] \<le> length [1, 3, 2 :: nat] - 1"
proof -
  have h: "\<forall>pid \<in> set [1, 3, 2]. page_pool_get (pool seek_dm) pid \<noteq> None"
    by (simp add: seek_dm_def seek_pool_def page_pool_get_def page_create_def)
  have v: "track_transitions 0 (map (resolved_track (pool seek_dm)) [1, 3, 2]) = 2"
    by (simp add: seek_dm_def seek_pool_def page_pool_get_def page_create_def resolved_track_def)
  from estimate_seeks_track_transitions [OF h] h v show ?thesis by simp
qed

section \<open>Verification: derived page fields and index bounds\<close>

definition page_good :: "page \<Rightarrow> bool" where
  "page_good pg \<longleftrightarrow>
     page_derived_ok pg \<and> (\<forall>obj \<in> set (objects pg). mbr_in_double_range (obj_mbr obj))"

definition pages_good :: "page list \<Rightarrow> bool" where
  "pages_good pgs \<longleftrightarrow> (\<forall>pg \<in> set pgs. page_good pg)"

definition set_tid :: "nat \<Rightarrow> page \<Rightarrow> page" where
  "set_tid t pg = pg\<lparr>header := (header pg)\<lparr>track_id := t\<rparr>\<rparr>"

lemma mbr_union_all_snoc_empty:
  "mbr_is_empty m \<Longrightarrow> mbr_union_all (prev @ [m]) = mbr_union_all prev"
  by (simp add: mbr_union_all_def)

lemma mbr_expand_mbr_fields:
  "\<not> mbr_is_empty m \<Longrightarrow>
   mbr_expand_mbr a m = \<lparr>min_x = min (min_x a) (min_x m), min_y = min (min_y a) (min_y m),
                          max_x = max (max_x a) (max_x m), max_y = max (max_y a) (max_y m)\<rparr>"
  by (simp add: mbr_expand_mbr_def Let_def min_def max_def)

lemma mbr_expand_mbr_union_all:
  assumes "mbr_in_double_range m"
  shows "mbr_expand_mbr (mbr_union_all prev) m = mbr_union_all (prev @ [m])"
proof (cases "mbr_is_empty m")
  case True
  then show ?thesis by (simp add: mbr_union_all_snoc_empty mbr_expand_mbr_def)
next
  case False
  let ?ne = "filter (\<lambda>m. \<not> mbr_is_empty m) prev"
  show ?thesis
  proof (cases "?ne = []")
    case True
    with False assms show ?thesis
      by (simp add: mbr_expand_mbr_fields mbr_union_all_def mbr_empty_def
            mbr_in_double_range_def is_double_def min_def max_def)
  next
    case ne: False
    then have "{x \<in> set prev. \<not> mbr_is_empty x} \<noteq> {}"
      by (auto simp: filter_empty_conv)
    with False ne show ?thesis
      by (simp add: mbr_expand_mbr_fields mbr_union_all_def min.commute max.commute)
  qed
qed

lemma fold_expand_union_all_gen:
  "\<forall>m \<in> set ms. mbr_in_double_range m \<Longrightarrow>
   fold (\<lambda>m acc. mbr_expand_mbr acc m) ms (mbr_union_all prev) = mbr_union_all (prev @ ms)"
proof (induction ms arbitrary: prev)
  case Nil
  then show ?case by simp
next
  case (Cons m ms)
  then have "fold (\<lambda>m acc. mbr_expand_mbr acc m) ms (mbr_union_all (prev @ [m]))
               = mbr_union_all ((prev @ [m]) @ ms)"
    by simp
  with Cons.prems show ?case by (simp add: mbr_expand_mbr_union_all)
qed

lemma fold_expand_union_all:
  "\<forall>m \<in> set ms. mbr_in_double_range m \<Longrightarrow>
   fold (\<lambda>m acc. mbr_expand_mbr acc m) ms mbr_empty = mbr_union_all ms"
  using fold_expand_union_all_gen [of ms "[]"] by (simp add: mbr_union_all_def)

lemma fold_add_sum_list:
  "fold (\<lambda>x (c::real). c + f x) xs a = a + sum_list (map f xs)"
  by (induction xs arbitrary: a) simp_all

lemma page_update_derived_objects [simp]:
  "objects (page_update_derived env pg) = objects pg"
  by (simp add: page_update_derived_def Let_def)

lemma page_update_derived_ok:
  assumes "\<forall>obj \<in> set (objects pg). mbr_in_double_range (obj_mbr obj)"
  shows "page_derived_ok (page_update_derived env pg)"
proof -
  have e: "fold (\<lambda>obj m. mbr_expand_mbr m (obj_mbr obj)) (objects pg) mbr_empty
             = mbr_union_all (map obj_mbr (objects pg))"
    using fold_expand_union_all [of "map obj_mbr (objects pg)"] assms
    by (simp add: fold_map comp_def)
  show ?thesis
    by (simp add: page_derived_ok_def page_update_derived_def Let_def object_count_def e
          fold_add_sum_list centroid_mean_def comp_def)
qed

lemma page_update_derived_good:
  "\<forall>obj \<in> set (objects pg). mbr_in_double_range (obj_mbr obj) \<Longrightarrow>
   page_good (page_update_derived env pg)"
  by (simp add: page_good_def page_update_derived_ok)

lemma page_good_no_objects: "objects pg = [] \<Longrightarrow> page_good pg"
  by (simp add: page_good_def page_derived_ok_def object_count_def)

lemma pages_good_update:
  "pages_good pgs \<Longrightarrow> (pp < length pgs \<Longrightarrow> page_good q) \<Longrightarrow> pages_good (pgs[pp := q])"
proof (cases "pp < length pgs")
  case True
  assume "pages_good pgs" and "pp < length pgs \<Longrightarrow> page_good q"
  with True show ?thesis
    using set_update_subset_insert [of pgs pp q] by (auto simp: pages_good_def)
next
  case False
  assume "pages_good pgs"
  with False show ?thesis by (simp add: list_update_beyond)
qed

lemma pages_good_snoc: "pages_good pgs \<Longrightarrow> page_good q \<Longrightarrow> pages_good (pgs @ [q])"
  by (simp add: pages_good_def)

lemma set_tid_fields [simp]:
  "objects (set_tid t pg) = objects pg"
  "object_capacity (set_tid t pg) = object_capacity pg"
  by (simp_all add: set_tid_def)

lemma track_add_page_pages:
  "\<exists>t. pages (snd (track_add_page pl tp pp)) = (pages pl)[pp := set_tid t (pages pl ! pp)]"
proof (cases "length (trk_pages (tracks pl ! tp)) \<ge> trk_page_capacity (tracks pl ! tp)")
  case True
  then have "pages (snd (track_add_page pl tp pp))
               = (pages pl)[pp := set_tid (track_id (header (pages pl ! pp))) (pages pl ! pp)]"
    by (simp add: track_add_page_def set_tid_def)
  then show ?thesis ..
next
  case False
  then have "pages (snd (track_add_page pl tp pp))
               = (pages pl)[pp := set_tid (trk_id (tracks pl ! tp)) (pages pl ! pp)]"
    by (simp add: track_add_page_def set_tid_def Let_def)
  then show ?thesis ..
qed

lemma page_pool_alloc_pages:
  "\<exists>t. pages (snd (page_pool_alloc pl tid))
         = pages pl @ [set_tid t (page_create (next_page_id pl) tid)]"
proof -
  let ?pg = "page_create (next_page_id pl) tid"
  let ?pl1 = "pl\<lparr>next_page_id := next_page_id pl + 1, pages := pages pl @ [?pg]\<rparr>"
  have same: "pages pl @ [?pg] = pages pl @ [set_tid (track_id (header ?pg)) ?pg]"
    by (simp add: set_tid_def)
  show ?thesis
  proof (cases "tid > 0")
    case False
    then have "pages (snd (page_pool_alloc pl tid)) = pages pl @ [?pg]"
      by (simp add: page_pool_alloc_def Let_def)
    with same show ?thesis by metis
  next
    case True
    show ?thesis
    proof (cases "page_pool_get_track ?pl1 tid")
      case None
      with True have "pages (snd (page_pool_alloc pl tid)) = pages pl @ [?pg]"
        by (simp add: page_pool_alloc_def Let_def)
      with same show ?thesis by metis
    next
      case (Some tp)
      from track_add_page_pages [of ?pl1 tp "length (pages pl)"]
      obtain t where "pages (snd (track_add_page ?pl1 tp (length (pages pl))))
                        = pages pl @ [set_tid t ?pg]"
        by auto
      with True Some have "pages (snd (page_pool_alloc pl tid)) = pages pl @ [set_tid t ?pg]"
        by (simp add: page_pool_alloc_def Let_def)
      then show ?thesis ..
    qed
  qed
qed

lemma page_pool_alloc_fst [simp]: "fst (page_pool_alloc pl tid) = length (pages pl)"
  by (simp add: page_pool_alloc_def Let_def)

lemma disk_manager_create_track_pages [simp]:
  "pages (pool (snd (disk_manager_create_track dm))) = pages (pool dm)"
  by (simp add: disk_manager_create_track_def page_pool_create_track_def)

lemma update_allocation_tree_pool [simp]: "pool (update_allocation_tree dm pp) = pool dm"
  by (simp add: update_allocation_tree_def Let_def)

lemma disk_manager_alloc_page_pages:
  "\<exists>q. pages (pool (snd (disk_manager_alloc_page dm c))) = pages (pool dm) @ [q]
       \<and> objects q = [] \<and> object_capacity q = MAX_OBJECTS_PER_PAGE
       \<and> fst (disk_manager_alloc_page dm c) = length (pages (pool dm))"
proof -
  obtain tp dm1 where t: "(case disk_manager_find_best_track dm c of
                         None \<Rightarrow> disk_manager_create_track dm
                       | Some t \<Rightarrow> if \<not> track_has_space (tracks (pool dm) ! t)
                                   then disk_manager_create_track dm else (t, dm)) = (tp, dm1)"
    by (cases "(case disk_manager_find_best_track dm c of
                         None \<Rightarrow> disk_manager_create_track dm
                       | Some t \<Rightarrow> if \<not> track_has_space (tracks (pool dm) ! t)
                                   then disk_manager_create_track dm else (t, dm))") auto
  have p1: "pages (pool dm1) = pages (pool dm)"
  proof -
    have "dm1 = dm \<or> dm1 = snd (disk_manager_create_track dm)"
      using t by (auto split: option.splits if_splits)
    then show ?thesis by auto
  qed
  let ?tid = "trk_id (tracks (pool dm1) ! tp)"
  obtain pp pool1 where a: "page_pool_alloc (pool dm1) ?tid = (pp, pool1)"
    by (cases "page_pool_alloc (pool dm1) ?tid") auto
  from page_pool_alloc_pages [of "pool dm1" ?tid] a
  obtain t1 where pg1: "pages pool1 = pages (pool dm) @ [set_tid t1 (page_create (next_page_id (pool dm1)) ?tid)]"
    by (auto simp: p1)
  from a have pp: "pp = length (pages (pool dm))"
    using page_pool_alloc_fst [of "pool dm1" ?tid] by (simp add: p1)
  let ?q1 = "set_tid t1 (page_create (next_page_id (pool dm1)) ?tid)"
  let ?q2 = "?q1\<lparr>header := (header ?q1)\<lparr>centroid := c\<rparr>\<rparr>"
  let ?pool2 = "pool1\<lparr>pages := (pages pool1)[pp := ?q2]\<rparr>"
  have pg2: "pages ?pool2 = pages (pool dm) @ [?q2]" by (simp add: pg1 pp)
  from track_add_page_pages [of ?pool2 tp pp]
  obtain t2 where pg3: "pages (snd (track_add_page ?pool2 tp pp)) = pages (pool dm) @ [set_tid t2 ?q2]"
    by (auto simp: pg1 pp)
  have res: "pages (pool (snd (disk_manager_alloc_page dm c))) = pages (pool dm) @ [set_tid t2 ?q2]"
    using t a pg3 by (simp add: disk_manager_alloc_page_def Let_def pg1 pp)
  have f: "fst (disk_manager_alloc_page dm c) = length (pages (pool dm))"
    using t a by (simp add: disk_manager_alloc_page_def Let_def pp)
  have "objects (set_tid t2 ?q2) = []" "object_capacity (set_tid t2 ?q2) = MAX_OBJECTS_PER_PAGE"
    by (simp_all add: page_create_def)
  with res f show ?thesis by blast
qed

lemma get_page_for_insert_cases:
  "(\<exists>pp. get_page_for_insert idx obj = (pp, idx)) \<or>
   get_page_for_insert idx obj
     = (fst (disk_manager_alloc_page (disk idx) (obj_centroid obj)),
        idx\<lparr>disk := snd (disk_manager_alloc_page (disk idx) (obj_centroid obj))\<rparr>)"
  by (simp add: get_page_for_insert_def Let_def split: prod.splits sum.splits option.splits)

lemma get_page_for_insert_frame:
  "\<exists>dm'. snd (get_page_for_insert idx obj) = idx\<lparr>disk := dm'\<rparr> \<and>
     (pages (pool dm') = pages (pool (disk idx)) \<or>
      (\<exists>q. pages (pool dm') = pages (pool (disk idx)) @ [q] \<and> objects q = []
           \<and> object_capacity q = MAX_OBJECTS_PER_PAGE
           \<and> fst (get_page_for_insert idx obj) = length (pages (pool (disk idx)))))"
proof -
  from get_page_for_insert_cases [of idx obj] show ?thesis
  proof
    assume "\<exists>pp. get_page_for_insert idx obj = (pp, idx)"
    then have "snd (get_page_for_insert idx obj) = idx\<lparr>disk := disk idx\<rparr>" by auto
    then show ?thesis by blast
  next
    let ?a = "disk_manager_alloc_page (disk idx) (obj_centroid obj)"
    assume e: "get_page_for_insert idx obj = (fst ?a, idx\<lparr>disk := snd ?a\<rparr>)"
    from disk_manager_alloc_page_pages [of "disk idx" "obj_centroid obj"]
    obtain q where "pages (pool (snd ?a)) = pages (pool (disk idx)) @ [q]" "objects q = []"
      "object_capacity q = MAX_OBJECTS_PER_PAGE" "fst ?a = length (pages (pool (disk idx)))"
      by blast
    with e show ?thesis by (intro exI [of _ "snd ?a"]) auto
  qed
qed

lemma pages_good_frame:
  assumes "pages_good pgs"
    and "pgs' = pgs \<or> (\<exists>q. pgs' = pgs @ [q] \<and> objects q = [] \<and> P q)"
  shows "pages_good pgs'"
  using assms by (auto simp: pages_good_def page_good_no_objects)

lemma page_add_object_objects:
  "page_add_object pg obj = (err, pg1) \<Longrightarrow>
   (err = PAGE_OK \<and> objects pg1 = objects pg @ [obj]) \<or> (err = PAGE_ERR_FULL \<and> pg1 = pg)"
  by (auto simp: page_add_object_def Let_def spatial_object_copy_def object_count_def
           split: if_splits)

lemma rebuild_pool [simp]: "pool (disk_manager_rebuild_allocation_tree dm) = pool dm"
  by (simp add: disk_manager_rebuild_allocation_tree_def)

lemma set_page_pages [simp]:
  "pages (pool (disk (set_page idx pp pg))) = (pages (pool (disk idx)))[pp := pg]"
  by (simp add: set_page_def)

lemma added_page_good:
  assumes good: "pages_good pgs" and dbl: "mbr_in_double_range (obj_mbr obj)"
    and add: "page_add_object (pgs ! pp) obj = (PAGE_OK, pg1)"
  shows "pages_good (pgs[pp := page_update_derived env pg1])"
proof (rule pages_good_update [OF good])
  assume lt: "pp < length pgs"
  from page_add_object_objects [OF add] have o: "objects pg1 = objects (pgs ! pp) @ [obj]"
    by simp
  from good lt have "\<forall>ob \<in> set (objects (pgs ! pp)). mbr_in_double_range (obj_mbr ob)"
    using nth_mem [OF lt] by (auto simp: pages_good_def page_good_def)
  with o dbl show "page_good (page_update_derived env pg1)"
    by (intro page_update_derived_good) simp
qed

lemma spatial_index_insert_unfold:
  "spatial_index_insert env idx obj =
     (let idx1 = idx\<lparr>next_object_id := (if obj_id obj = 0 then next_object_id idx + 1
                                           else next_object_id idx)\<rparr>;
          obj2 = insert_object idx obj;
          r = get_page_for_insert idx1 obj2;
          a = page_add_object (pages (pool (disk (snd r))) ! fst r) obj2
      in if fst a \<noteq> PAGE_OK then
           (let al = disk_manager_alloc_page (disk (snd r)) (obj_centroid obj2);
                idx3 = (snd r)\<lparr>disk := snd al\<rparr>;
                a' = page_add_object (pages (pool (snd al)) ! fst al) obj2
            in if fst a' \<noteq> PAGE_OK then (SI_ERR_FULL, idx3, obj2)
               else
                 (let idx4 = set_page idx3 (fst al) (page_update_derived env (snd a'));
                      idx5 = idx4\<lparr>disk := disk_manager_rebuild_allocation_tree (disk idx4)\<rparr>
                  in (SI_OK,
                      idx5\<lparr>si_bounds := mbr_expand_mbr (si_bounds idx5) (obj_mbr obj2),
                           is_built := False\<rparr>, obj2)))
         else
           (let idx4 = set_page (snd r) (fst r) (page_update_derived env (snd a));
                idx5 = idx4\<lparr>disk := disk_manager_rebuild_allocation_tree (disk idx4)\<rparr>
            in (SI_OK,
                idx5\<lparr>si_bounds := mbr_expand_mbr (si_bounds idx5) (obj_mbr obj2),
                     is_built := False\<rparr>, obj2)))"
  by (cases "obj_id obj = 0")
     (simp_all add: spatial_index_insert_def insert_object_def Let_def case_prod_beta)

lemma spatial_index_insert_frame:
  assumes ins: "spatial_index_insert env idx obj = (st, idx', obj')"
  shows "obj' = insert_object idx obj \<and>
         (\<exists>dm'. idx' = idx\<lparr>next_object_id := (if obj_id obj = 0 then next_object_id idx + 1
                                                 else next_object_id idx),
                              disk := dm',
                              si_bounds := (if st = SI_OK
                                            then mbr_expand_mbr (si_bounds idx) (obj_mbr obj')
                                            else si_bounds idx),
                              is_built := (if st = SI_OK then False else is_built idx)\<rparr>
                \<and> (pages_good (pages (pool (disk idx))) \<longrightarrow> mbr_in_double_range (obj_mbr obj')
                     \<longrightarrow> pages_good (pages (pool dm'))))"
proof -
  define n' where "n' = (if obj_id obj = 0 then next_object_id idx + 1 else next_object_id idx)"
  define idx1 where "idx1 = idx\<lparr>next_object_id := n'\<rparr>"
  define obj2 where "obj2 = insert_object idx obj"
  define r where "r = get_page_for_insert idx1 obj2"
  define pp where "pp = fst r"
  from get_page_for_insert_frame [of idx1 obj2]
  obtain dm2 where idx2: "snd r = idx1\<lparr>disk := dm2\<rparr>"
    and p2: "pages (pool dm2) = pages (pool (disk idx1)) \<or>
      (\<exists>q. pages (pool dm2) = pages (pool (disk idx1)) @ [q] \<and> objects q = []
           \<and> object_capacity q = MAX_OBJECTS_PER_PAGE)"
    unfolding r_def by auto
  define a where "a = page_add_object (pages (pool dm2) ! pp) obj2"
  define al where "al = disk_manager_alloc_page dm2 (obj_centroid obj2)"
  define a' where "a' = page_add_object (pages (pool (snd al)) ! fst al) obj2"
  have b1: "si_bounds idx1 = si_bounds idx" by (simp add: idx1_def)
  have unfold1: "(st, idx', obj') =
     (if fst a \<noteq> PAGE_OK then
        (if fst a' \<noteq> PAGE_OK then (SI_ERR_FULL, idx1\<lparr>disk := snd al\<rparr>, obj2)
         else (SI_OK,
               idx1\<lparr>disk := disk_manager_rebuild_allocation_tree
                         ((snd al)\<lparr>pool := (pool (snd al))
                             \<lparr>pages := (pages (pool (snd al)))[fst al := page_update_derived env (snd a')]\<rparr>\<rparr>),
                     si_bounds := mbr_expand_mbr (si_bounds idx) (obj_mbr obj2),
                     is_built := False\<rparr>, obj2))
      else (SI_OK,
            idx1\<lparr>disk := disk_manager_rebuild_allocation_tree
                      (dm2\<lparr>pool := (pool dm2)
                          \<lparr>pages := (pages (pool dm2))[pp := page_update_derived env (snd a)]\<rparr>\<rparr>),
                  si_bounds := mbr_expand_mbr (si_bounds idx) (obj_mbr obj2),
                  is_built := False\<rparr>, obj2))"
    unfolding ins [symmetric] spatial_index_insert_unfold
    by (simp add: Let_def set_page_def a_def a'_def al_def pp_def idx2 b1
          r_def [symmetric] obj2_def [symmetric] n'_def [symmetric] idx1_def [symmetric])
  have good2: "pages_good (pages (pool (disk idx))) \<Longrightarrow> pages_good (pages (pool dm2))"
    using p2 pages_good_frame [of "pages (pool (disk idx))" "pages (pool dm2)"]
    by (auto simp: idx1_def)
  from disk_manager_alloc_page_pages [of dm2 "obj_centroid obj2"]
  obtain q where p3: "pages (pool (snd al)) = pages (pool dm2) @ [q]" "objects q = []"
    unfolding al_def by auto
  have good3: "pages_good (pages (pool (disk idx))) \<Longrightarrow> pages_good (pages (pool (snd al)))"
    using good2 p3 by (simp add: pages_good_def page_good_no_objects)
  have idx1_eq: "idx1\<lparr>disk := d, si_bounds := b, is_built := bl\<rparr>
                  = idx\<lparr>next_object_id := n', disk := d, si_bounds := b, is_built := bl\<rparr>" for d b bl
    by (simp add: idx1_def)
  show ?thesis
  proof (cases "fst a = PAGE_OK")
    case True
    let ?dm' = "disk_manager_rebuild_allocation_tree
                  (dm2\<lparr>pool := (pool dm2)\<lparr>pages := (pages (pool dm2))[pp := page_update_derived env (snd a)]\<rparr>\<rparr>)"
    from True unfold1 have st: "st = SI_OK" and o: "obj' = obj2"
      and i: "idx' = idx1\<lparr>disk := ?dm', si_bounds := mbr_expand_mbr (si_bounds idx) (obj_mbr obj2),
                                is_built := False\<rparr>"
      by simp_all
    from True have aa: "page_add_object (pages (pool dm2) ! pp) obj2 = (PAGE_OK, snd a)"
      by (simp add: a_def [symmetric] prod_eq_iff)
    have "pages_good (pages (pool (disk idx))) \<Longrightarrow> mbr_in_double_range (obj_mbr obj')
            \<Longrightarrow> pages_good (pages (pool ?dm'))"
      using added_page_good [OF good2 _ aa] o by simp
    with st o i show ?thesis
      by (intro conjI exI [of _ ?dm']) (simp_all add: idx1_eq n'_def obj2_def)
  next
    case False
    show ?thesis
    proof (cases "fst a' = PAGE_OK")
      case e: True
      let ?dm' = "disk_manager_rebuild_allocation_tree
                  ((snd al)\<lparr>pool := (pool (snd al))\<lparr>pages := (pages (pool (snd al)))[fst al := page_update_derived env (snd a')]\<rparr>\<rparr>)"
      from False e unfold1 have st: "st = SI_OK" and o: "obj' = obj2"
        and i: "idx' = idx1\<lparr>disk := ?dm', si_bounds := mbr_expand_mbr (si_bounds idx) (obj_mbr obj2),
                                is_built := False\<rparr>"
        by simp_all
      from e have aa: "page_add_object (pages (pool (snd al)) ! fst al) obj2 = (PAGE_OK, snd a')"
        by (simp add: a'_def [symmetric] prod_eq_iff)
      have "pages_good (pages (pool (disk idx))) \<Longrightarrow> mbr_in_double_range (obj_mbr obj')
            \<Longrightarrow> pages_good (pages (pool ?dm'))"
        using added_page_good [OF good3 _ aa] o by simp
      with st o i show ?thesis
        by (intro conjI exI [of _ ?dm']) (simp_all add: idx1_eq n'_def obj2_def)
    next
      case e: False
      from False e unfold1 have st: "st = SI_ERR_FULL" and o: "obj' = obj2"
        and i: "idx' = idx1\<lparr>disk := snd al\<rparr>"
        by simp_all
      with good3 show ?thesis
        by (intro conjI exI [of _ "snd al"]) (simp_all add: idx1_def n'_def obj2_def)
    qed
  qed
qed

lemma page_remove_object_objects:
  "set (objects (snd (page_remove_object env pg oid))) \<subseteq> set (objects pg)"
  by (auto simp: page_remove_object_def Let_def split: option.splits
           dest: in_set_takeD in_set_dropD)

lemma spatial_index_remove_frame:
  "\<exists>dm'. snd (spatial_index_remove env idx oid)
           = idx\<lparr>disk := dm',
                  is_built := (if fst (spatial_index_remove env idx oid) = SI_OK then False
                               else is_built idx)\<rparr>
         \<and> (pages_good (pages (pool (disk idx))) \<longrightarrow> pages_good (pages (pool dm')))"
proof (cases "find_page_for_object idx oid")
  case None
  then have "snd (spatial_index_remove env idx oid) = idx\<lparr>disk := disk idx, is_built := is_built idx\<rparr>"
    and "fst (spatial_index_remove env idx oid) \<noteq> SI_OK"
    by (simp_all add: spatial_index_remove_def)
  then show ?thesis by (intro exI [of _ "disk idx"]) simp
next
  case (Some pp)
  let ?pgs = "pages (pool (disk idx))"
  let ?r = "page_remove_object env (?pgs ! pp) oid"
  show ?thesis
  proof (cases "fst ?r = PAGE_OK")
    case False
    with Some have "snd (spatial_index_remove env idx oid) = idx\<lparr>disk := disk idx, is_built := is_built idx\<rparr>"
      and "fst (spatial_index_remove env idx oid) \<noteq> SI_OK"
      by (simp_all add: spatial_index_remove_def case_prod_beta)
    then show ?thesis by (intro exI [of _ "disk idx"]) simp
  next
    case True
    let ?dm' = "disk_manager_rebuild_allocation_tree
                  ((disk idx)\<lparr>pool := (pool (disk idx))\<lparr>pages := ?pgs[pp := page_update_derived env (snd ?r)]\<rparr>\<rparr>)"
    from Some True have e: "snd (spatial_index_remove env idx oid) = idx\<lparr>disk := ?dm', is_built := False\<rparr>"
      and st: "fst (spatial_index_remove env idx oid) = SI_OK"
      by (simp_all add: spatial_index_remove_def case_prod_beta Let_def set_page_def)
    have "pages_good ?pgs \<Longrightarrow> pages_good (pages (pool ?dm'))"
    proof -
      assume good: "pages_good ?pgs"
      have "pages_good (?pgs[pp := page_update_derived env (snd ?r)])"
      proof (rule pages_good_update [OF good])
        assume lt: "pp < length ?pgs"
        with good have "\<forall>ob \<in> set (objects (?pgs ! pp)). mbr_in_double_range (obj_mbr ob)"
          using nth_mem [OF lt] by (auto simp: pages_good_def page_good_def)
        with page_remove_object_objects [of env "?pgs ! pp" oid]
        have "\<forall>ob \<in> set (objects (snd ?r)). mbr_in_double_range (obj_mbr ob)" by blast
        then show "page_good (page_update_derived env (snd ?r))"
          by (rule page_update_derived_good)
      qed
      then show ?thesis by simp
    qed
    with e st show ?thesis by (intro exI [of _ ?dm']) simp
  qed
qed

lemma create_block_frame [simp]:
  "pages (pool (disk (create_block idx b))) = pages (pool (disk idx))"
  "si_bounds (create_block idx b) = si_bounds idx"
  "config (create_block idx b) = config idx"
  by (simp_all add: create_block_def case_prod_beta)

lemma fold_create_block_frame [simp]:
  "pages (pool (disk (fold (\<lambda>b i. create_block i b) bs idx))) = pages (pool (disk idx))"
  "si_bounds (fold (\<lambda>b i. create_block i b) bs idx) = si_bounds idx"
  by (induction bs arbitrary: idx) simp_all

lemma build_page_quadtree_frame [simp]:
  "disk (snd (build_page_quadtree idx)) = disk idx"
  "si_bounds (snd (build_page_quadtree idx)) = si_bounds idx"
  "block_tree (snd (build_page_quadtree idx)) = block_tree idx"
  by (simp_all add: build_page_quadtree_def Let_def)

lemma spatial_index_build_frame [simp]:
  "pages (pool (disk (snd (spatial_index_build env idx)))) = pages (pool (disk idx))"
  "si_bounds (snd (spatial_index_build env idx)) = si_bounds idx"
  by (simp_all add: spatial_index_build_def Let_def case_prod_beta)

lemma find_adjacent_frame [simp]:
  "disk (fst (snd (spatial_index_find_adjacent_pages idx region))) = disk idx"
  "si_bounds (fst (snd (spatial_index_find_adjacent_pages idx region))) = si_bounds idx"
  "block_tree (fst (snd (spatial_index_find_adjacent_pages idx region))) = block_tree idx"
  by (simp_all add: spatial_index_find_adjacent_pages_def Let_def case_prod_beta
        split: option.splits)

lemma update_derived_id:
  "spatial_object_update_derived (obj\<lparr>obj_id := n\<rparr>) = (spatial_object_update_derived obj)\<lparr>obj_id := n\<rparr>"
  by (simp add: spatial_object_update_derived_def split: geometry.splits sum.splits)

lemma insert_object_mbr [simp]: "obj_mbr (insert_object idx obj) = derived_mbr obj"
  by (simp add: insert_object_def derived_mbr_def update_derived_id)








lemma insert_bounds:
  assumes "spatial_index_insert env idx obj = (st, idx', obj')"
  shows "obj_mbr obj' = derived_mbr obj"
    and "si_bounds idx' = (if st = SI_OK then mbr_expand_mbr (si_bounds idx) (derived_mbr obj)
                           else si_bounds idx)"
  using spatial_index_insert_frame [OF assms] by auto

lemma remove_bounds [simp]: "si_bounds (snd (spatial_index_remove env idx oid)) = si_bounds idx"
  using spatial_index_remove_frame [of env idx oid] by auto

lemma insert_bounds_union:
  assumes "si_bounds idx = mbr_union_all prev" and "mbr_in_double_range (derived_mbr obj)"
    and "spatial_index_insert env idx obj = (st, idx', obj')"
  shows "si_bounds idx' = mbr_union_all (prev @ (if st = SI_OK then [obj_mbr obj'] else []))"
  using insert_bounds [OF assms(3)] assms(1,2) by (simp add: mbr_expand_mbr_union_all)

lemma bulk_insert_bounds_union:
  "si_bounds idx = mbr_union_all prev \<Longrightarrow>
   list_all (\<lambda>obj. mbr_in_double_range (derived_mbr obj)) objs \<Longrightarrow>
   si_bounds (snd (spatial_index_bulk_insert env idx objs))
     = mbr_union_all (prev @ bulk_inserted env idx objs)"
proof (induction objs arbitrary: idx prev)
  case Nil
  then show ?case by simp
next
  case (Cons obj objs)
  obtain st idx' obj' where i: "spatial_index_insert env idx obj = (st, idx', obj')"
    by (cases "spatial_index_insert env idx obj") auto
  from Cons.prems have d: "mbr_in_double_range (derived_mbr obj)" by simp
  note b = insert_bounds_union [OF Cons.prems(1) d i]
  show ?case
  proof (cases "st = SI_OK")
    case True
    with b have "si_bounds idx' = mbr_union_all (prev @ [obj_mbr obj'])" by simp
    from Cons.IH [OF this] Cons.prems(2) i True show ?thesis by simp
  next
    case False
    with b i show ?thesis by simp
  qed
qed

lemma si_step_bounds_union:
  assumes "si_bounds idx = mbr_union_all prev" and "op_in_double_range op"
  shows "si_bounds (si_step env op idx) = mbr_union_all (prev @ inserted_by env op idx)"
proof (cases op)
  case (OpInsert obj)
  obtain st idx' obj' where i: "spatial_index_insert env idx obj = (st, idx', obj')"
    by (cases "spatial_index_insert env idx obj") auto
  from insert_bounds_union [OF assms(1) _ i] assms(2) OpInsert i show ?thesis by simp
next
  case (OpBulkInsert objs)
  with bulk_insert_bounds_union [OF assms(1), of objs env] assms(2) show ?thesis by simp
next
  case (OpUpdate oid obj)
  let ?r = "spatial_index_remove env idx oid"
  let ?o = "(spatial_object_copy obj)\<lparr>obj_id := oid\<rparr>"
  obtain st idx' obj' where i: "spatial_index_insert env (snd ?r) ?o = (st, idx', obj')"
    by (cases "spatial_index_insert env (snd ?r) ?o") auto
  have b: "si_bounds (snd ?r) = mbr_union_all prev" using assms(1) by simp
  have d: "mbr_in_double_range (derived_mbr ?o)"
    using assms(2) OpUpdate by (simp add: derived_mbr_def update_derived_id spatial_object_copy_def)
  from insert_bounds_union [OF b d i] OpUpdate i assms(1) show ?thesis
    by (simp add: spatial_index_update_def case_prod_beta)
qed (use assms(1) in simp_all)

lemma si_run_bounds_union:
  "si_bounds idx = mbr_union_all prev \<Longrightarrow> \<forall>op \<in> set ops. op_in_double_range op \<Longrightarrow>
   si_bounds (si_run env ops idx) = mbr_union_all (prev @ ever_inserted env ops idx)"
  unfolding si_run_def
proof (induction ops arbitrary: idx prev)
  case Nil
  then show ?case by simp
next
  case (Cons op ops)
  from Cons.prems have "si_bounds (si_step env op idx) = mbr_union_all (prev @ inserted_by env op idx)"
    by (intro si_step_bounds_union) simp_all
  from Cons.IH [OF this] Cons.prems(2) show ?case by simp
qed

text \<open>
  Claim C4, as amended. After every sequence of public operations on a fresh index, \<open>bounds\<close>
  is the MBR-union of the MBRs of all objects inserted so far, whether or not they were
  removed since; \<open>spatial_index_remove\<close> never changes \<open>bounds\<close>.
\<close>

theorem bounds_union_of_ever_inserted:
  assumes "\<forall>op \<in> set ops. op_in_double_range op"
  shows "si_bounds (si_run env ops (spatial_index_init conf))
           = mbr_union_all (ever_inserted env ops (spatial_index_init conf))
         \<and> si_bounds (snd (spatial_index_remove env idx oid)) = si_bounds idx"
proof -
  have "si_bounds (spatial_index_init conf) = mbr_union_all []"
    by (simp add: spatial_index_init_def mbr_union_all_def)
  from si_run_bounds_union [OF this assms] show ?thesis by simp
qed

lemma DBL_MAX_pos: "0 < DBL_MAX" by (simp add: DBL_MAX_def)
lemma mbr_empty_is_empty [simp]: "mbr_is_empty mbr_empty"
  using DBL_MAX_pos by (simp add: mbr_is_empty_def mbr_empty_def)

lemma insert_succeeds: "fst (spatial_index_insert env idx obj) = SI_OK"
proof -
  define obj2 where "obj2 = insert_object idx obj"
  define idx1 where "idx1 = idx\<lparr>next_object_id := (if obj_id obj = 0 then next_object_id idx + 1
                                           else next_object_id idx)\<rparr>"
  define r where "r = get_page_for_insert idx1 obj2"
  define al where "al = disk_manager_alloc_page (disk (snd r)) (obj_centroid obj2)"
  from disk_manager_alloc_page_pages [of "disk (snd r)" "obj_centroid obj2"]
  obtain q where "pages (pool (snd al)) = pages (pool (disk (snd r))) @ [q]" "objects q = []"
    "object_capacity q = MAX_OBJECTS_PER_PAGE" "fst al = length (pages (pool (disk (snd r))))"
    unfolding al_def by blast
  then have "pages (pool (snd al)) ! fst al = q" and "objects q = []"
    and "object_capacity q = MAX_OBJECTS_PER_PAGE" by simp_all
  then have "fst (page_add_object (pages (pool (snd al)) ! fst al) obj2) = PAGE_OK"
    by (simp add: page_add_object_def object_count_def MAX_OBJECTS_PER_PAGE_def Let_def)
  then show ?thesis
    unfolding spatial_index_insert_unfold
    by (simp add: Let_def al_def r_def obj2_def idx1_def)
qed

lemma inserted_by_insert [simp]: "inserted_by env (OpInsert obj) idx = [derived_mbr obj]"
proof -
  obtain st idx' obj' where i: "spatial_index_insert env idx obj = (st, idx', obj')"
    by (cases "spatial_index_insert env idx obj") auto
  with insert_succeeds [of env idx obj] insert_bounds(1) [OF i] show ?thesis by simp
qed

section \<open>Verification: range queries\<close>

lemma mbr_intersects_rect: "mbr_intersects a b \<longleftrightarrow> rect_intersects a b"
proof
  assume i: "mbr_intersects a b"
  have "(max (min_x a) (min_x b), max (min_y a) (min_y b)) \<in> mbr_points a \<inter> mbr_points b"
    using i by (auto simp: mbr_intersects_def mbr_is_empty_def mbr_points_def split: if_splits)
  then show "rect_intersects a b" unfolding rect_intersects_def by blast
next
  assume "rect_intersects a b"
  then obtain x y where "(x, y) \<in> mbr_points a" "(x, y) \<in> mbr_points b"
    unfolding rect_intersects_def by auto
  then show "mbr_intersects a b"
    by (auto simp: mbr_intersects_def mbr_is_empty_def mbr_points_def)
qed

lemma mbr_union_all_intersects:
  assumes m: "m \<in> set ms" and i: "mbr_intersects m r"
  shows "mbr_intersects (mbr_union_all ms) r"
proof -
  let ?ne = "filter (\<lambda>m. \<not> mbr_is_empty m) ms"
  from i have ne_m: "\<not> mbr_is_empty m" and ne_r: "\<not> mbr_is_empty r"
    by (auto simp: mbr_intersects_def split: if_splits)
  with m have mem: "m \<in> set ?ne" by simp
  then have nonnil: "?ne \<noteq> []" by (metis empty_iff empty_set)
  have lo_x: "Min (set (map min_x ?ne)) \<le> min_x m" using mem by (intro Min_le) auto
  have lo_y: "Min (set (map min_y ?ne)) \<le> min_y m" using mem by (intro Min_le) auto
  have hi_x: "max_x m \<le> Max (set (map max_x ?ne))" using mem by (intro Max_ge) auto
  have hi_y: "max_y m \<le> Max (set (map max_y ?ne))" using mem by (intro Max_ge) auto
  have u: "mbr_union_all ms = \<lparr>min_x = Min (set (map min_x ?ne)), min_y = Min (set (map min_y ?ne)),
            max_x = Max (set (map max_x ?ne)), max_y = Max (set (map max_y ?ne))\<rparr>"
    using nonnil by (simp add: mbr_union_all_def Let_def)
  from i ne_m ne_r lo_x lo_y hi_x hi_y show ?thesis
    unfolding u by (auto simp: mbr_intersects_def mbr_is_empty_def)
qed

lemma inner_fold_result:
  "fold (\<lambda>j res. if P j then spatial_result_add res (pp, j) else res) js res
     = res\<lparr>res_objects := res_objects res @ map (Pair pp) (filter P js)\<rparr>"
  by (induction js arbitrary: res) (simp_all add: spatial_result_add_def)

lemma outer_fold_result:
  "fold (\<lambda>pp res. fold (\<lambda>j res. if P pp j then spatial_result_add res (pp, j) else res) (js pp) res)
        pps res
     = res\<lparr>res_objects := res_objects res
              @ concat (map (\<lambda>pp. map (Pair pp) (filter (P pp) (js pp))) pps)\<rparr>"
  by (induction pps arbitrary: res) (simp_all add: inner_fold_result)

lemma distinct_paired_concat:
  "distinct pps \<Longrightarrow> (\<And>pp. distinct (f pp)) \<Longrightarrow>
   distinct (concat (map (\<lambda>pp. map (Pair pp) (f pp)) pps))"
  by (induction pps) (auto simp: distinct_map inj_on_def)

lemma spatial_index_query_range_objects:
  "res_objects (snd (spatial_index_query_range idx rng result))
     = concat (map (\<lambda>pp. map (Pair pp)
                 (filter (\<lambda>j. mbr_intersects (obj_mbr (objects (pages (pool (disk idx)) ! pp) ! j)) rng)
                         [0..<object_count (pages (pool (disk idx)) ! pp)]))
               (filter (\<lambda>i. mbr_intersects (extent (header (pages (pool (disk idx)) ! i))) rng)
                       [0..<length (pages (pool (disk idx)))]))"
  by (simp add: spatial_index_query_range_def page_pool_query_region_def Let_def
        outer_fold_result spatial_result_clear_def)

text \<open>
  Claim C2. When the extent of every page is the MBR-union of its objects' MBRs,
  \<open>spatial_index_query_range\<close> succeeds and returns exactly the stored objects whose MBR
  intersects the query rectangle (as closed rectangles), each once.
\<close>

theorem query_range_exact:
  assumes ext: "\<forall>pg \<in> set (pages (pool (disk idx))).
                  extent (header pg) = mbr_union_all (map obj_mbr (objects pg))"
  shows "fst (spatial_index_query_range idx rng result) = SI_OK
         \<and> distinct (res_objects (snd (spatial_index_query_range idx rng result)))
         \<and> set (res_objects (snd (spatial_index_query_range idx rng result)))
             = {(i, j). i < length (pages (pool (disk idx)))
                      \<and> j < object_count (pages (pool (disk idx)) ! i)
                      \<and> rect_intersects (obj_mbr (objects (pages (pool (disk idx)) ! i) ! j)) rng}"
proof -
  let ?pgs = "pages (pool (disk idx))"
  have st: "fst (spatial_index_query_range idx rng result) = SI_OK"
    by (simp add: spatial_index_query_range_def page_pool_query_region_def Let_def)
  have d: "distinct (res_objects (snd (spatial_index_query_range idx rng result)))"
    unfolding spatial_index_query_range_objects
    by (rule distinct_paired_concat) simp_all
  have prefilter: "mbr_intersects (extent (header (?pgs ! i))) rng"
    if "i < length ?pgs" "j < object_count (?pgs ! i)"
       "mbr_intersects (obj_mbr (objects (?pgs ! i) ! j)) rng" for i j
  proof -
    from that(1) ext have "extent (header (?pgs ! i)) = mbr_union_all (map obj_mbr (objects (?pgs ! i)))"
      by simp
    moreover from that(2) have "obj_mbr (objects (?pgs ! i) ! j) \<in> set (map obj_mbr (objects (?pgs ! i)))"
      by (simp add: object_count_def)
    ultimately show ?thesis using that(3) by (simp add: mbr_union_all_intersects)
  qed
  have s: "set (res_objects (snd (spatial_index_query_range idx rng result)))
             = {(i, j). i < length ?pgs \<and> j < object_count (?pgs ! i)
                      \<and> rect_intersects (obj_mbr (objects (?pgs ! i) ! j)) rng}"
    unfolding spatial_index_query_range_objects
    using prefilter by (auto simp: mbr_intersects_rect [symmetric])
  from st d s show ?thesis by simp
qed

section \<open>Verification: evaluation on the example index\<close>

lemma point_object_derived_mbr [simp]: "derived_mbr (point_object x y) = mbr_create x y x y"
  by (simp add: derived_mbr_def point_object_def spatial_object_update_derived_def)

lemma DBL_MAX_ge_1000: "1000 \<le> DBL_MAX"
  by (simp add: DBL_MAX_def)

lemma small_is_double: "\<bar>v\<bar> \<le> 1000 \<Longrightarrow> is_double v"
  using DBL_MAX_ge_1000 by (simp add: is_double_def abs_le_iff)

lemma small_mbr_in_double_range:
  "\<bar>a\<bar> \<le> 1000 \<Longrightarrow> \<bar>b\<bar> \<le> 1000 \<Longrightarrow> \<bar>c\<bar> \<le> 1000 \<Longrightarrow> \<bar>d\<bar> \<le> 1000 \<Longrightarrow>
   mbr_in_double_range (mbr_create a b c d)"
  by (simp add: mbr_in_double_range_def mbr_create_def small_is_double)


theorem bounds_union_of_ever_inserted_witness:
  "op_in_double_range (OpInsert (point_object 0 0))
   \<and> op_in_double_range (OpInsert (point_object 10 10))
   \<and> op_in_double_range (OpRemove 2)
   \<and> si_bounds (si_run example_platform
           [OpInsert (point_object 0 0), OpInsert (point_object 10 10), OpRemove 2]
           (spatial_index_init spatial_index_default_config)) = mbr_create 0 0 10 10"
proof -
  have h: "\<forall>op \<in> set [OpInsert (point_object 0 0), OpInsert (point_object 10 10), OpRemove 2].
             op_in_double_range op"
    by (simp add: small_mbr_in_double_range)
  have u: "mbr_union_all [mbr_create 0 0 0 0, mbr_create 10 10 10 10] = mbr_create 0 0 10 10"
    by (simp add: mbr_union_all_def mbr_create_def mbr_is_empty_def)
  from bounds_union_of_ever_inserted [OF h, of example_platform spatial_index_default_config] h u
  show ?thesis by (simp del: inserted_by.simps(1))
qed

lemma two_index_remove_objects:
  "fst (spatial_index_remove example_platform two_index 2) = SI_OK"
  "stored_objects (snd (spatial_index_remove example_platform two_index 2))
     = [(point_object 0 0)\<lparr>obj_id := 1\<rparr>]"
  by (simp_all add: spatial_index_remove_def find_page_for_object_def page_find_object_def
        two_index_def two_page_def point_object_def stored_objects_def
        page_remove_object_def case_prod_beta Let_def set_page_def)

text \<open>
  Claim C4 as stated fails: removing the object that determined an edge of \<open>bounds\<close> leaves
  \<open>bounds\<close> as it was, so it is no longer the MBR-union of the stored objects.
\<close>

theorem bounds_stale_after_remove:
  "fst (spatial_index_remove example_platform two_index 2) = SI_OK
   \<and> si_bounds two_index = mbr_union_all (map obj_mbr (stored_objects two_index))
   \<and> si_bounds (snd (spatial_index_remove example_platform two_index 2))
       \<noteq> mbr_union_all (map obj_mbr (stored_objects
                                      (snd (spatial_index_remove example_platform two_index 2))))"
proof -
  have a: "si_bounds two_index = mbr_union_all (map obj_mbr (stored_objects two_index))"
    by (simp add: two_index_def two_page_def stored_objects_def point_object_def
          mbr_union_all_def mbr_create_def mbr_is_empty_def)
  have b: "si_bounds (snd (spatial_index_remove example_platform two_index 2)) = mbr_create 0 0 10 10"
    by (simp add: two_index_def)
  have c: "mbr_union_all (map obj_mbr (stored_objects
              (snd (spatial_index_remove example_platform two_index 2)))) = mbr_create 0 0 0 0"
    by (simp add: two_index_remove_objects point_object_def mbr_union_all_def mbr_create_def
          mbr_is_empty_def)
  from a b c two_index_remove_objects(1) show ?thesis by (simp add: mbr_create_def)
qed

theorem query_range_exact_witness:
  "extent (header two_page) = mbr_union_all (map obj_mbr (objects two_page))
   \<and> fst (spatial_index_query_range two_index (mbr_create (- 1) (- 1) 5 5)
            \<lparr>res_objects = [(7, 7)], pages_accessed = 0\<rparr>) = SI_OK
   \<and> distinct (res_objects (snd (spatial_index_query_range two_index (mbr_create (- 1) (- 1) 5 5)
            \<lparr>res_objects = [(7, 7)], pages_accessed = 0\<rparr>)))
   \<and> res_objects (snd (spatial_index_query_range two_index (mbr_create (- 1) (- 1) 5 5)
            \<lparr>res_objects = [(7, 7)], pages_accessed = 0\<rparr>)) = [(0, 0)]"
proof -
  have e: "extent (header two_page) = mbr_union_all (map obj_mbr (objects two_page))"
    by (simp add: two_page_def point_object_def mbr_union_all_def mbr_create_def mbr_is_empty_def)
  then have h: "\<forall>pg \<in> set (pages (pool (disk two_index))).
                  extent (header pg) = mbr_union_all (map obj_mbr (objects pg))"
    by (simp add: two_index_def)
  have v: "res_objects (snd (spatial_index_query_range two_index (mbr_create (- 1) (- 1) 5 5)
            \<lparr>res_objects = [(7, 7)], pages_accessed = 0\<rparr>)) = [(0, 0)]"
    unfolding spatial_index_query_range_objects
    by (simp add: two_index_def two_page_def point_object_def object_count_def
          mbr_intersects_def mbr_is_empty_def mbr_create_def)
  from query_range_exact [OF h, of "mbr_create (- 1) (- 1) 5 5"
         "\<lparr>res_objects = [(7, 7)], pages_accessed = 0\<rparr>"] e v
  show ?thesis by simp
qed

section \<open>Verification: k-nearest-neighbour queries and the built flag\<close>

lemma k_nearest_stale:
  "kdtree_k_nearest stale_tree \<lparr>px = 5, py = 5\<rparr> 1 [] =
     (KD_OK, [\<lparr>kp_point = \<lparr>px = 0, py = 0\<rparr>, kp_object_id = 1, kp_data = Some (0, 0)\<rparr>])"
  by (simp add: kdtree_k_nearest_def stale_tree_def mbr_intersects_def mbr_contains_point_def
        mbr_is_empty_def mbr_create_def select_min_idx_def Let_def)

lemma knn_stale:
  "spatial_index_query_knn stale_index \<lparr>px = 5, py = 5\<rparr> 1 result
     = (SI_OK, \<lparr>res_objects = [(0, 0)], pages_accessed = 0\<rparr>)"
  by (simp add: spatial_index_query_knn_def stale_index_def k_nearest_stale
        spatial_result_clear_def spatial_result_add_def Let_def del: One_nat_def)


lemma insert_block_tree [simp]:
  "block_tree (fst (snd (spatial_index_insert env idx obj))) = block_tree idx"
proof -
  obtain st idx' obj' where i: "spatial_index_insert env idx obj = (st, idx', obj')"
    by (cases "spatial_index_insert env idx obj") auto
  from spatial_index_insert_frame [OF i] i show ?thesis by auto
qed

lemma remove_block_tree [simp]:
  "block_tree (snd (spatial_index_remove env idx oid)) = block_tree idx"
  using spatial_index_remove_frame [of env idx oid] by auto

lemma bulk_insert_block_tree [simp]:
  "block_tree (snd (spatial_index_bulk_insert env idx objs)) = block_tree idx"
proof (induction objs arbitrary: idx)
  case Nil
  then show ?case by simp
next
  case (Cons obj objs)
  show ?case
    using Cons.IH [of "fst (snd (spatial_index_insert env idx obj))"]
    by (simp add: case_prod_beta)
qed

lemma update_block_tree [simp]:
  "block_tree (snd (spatial_index_update env idx oid obj)) = block_tree idx"
  by (simp add: spatial_index_update_def case_prod_beta)






text \<open>
  Claim C10. With \<open>k = 0\<close>, \<open>spatial_index_query_knn\<close> returns success and leaves the
  caller's result as it is; with \<open>k > 0\<close> the result is cleared first, so the outcome is
  that of a call on a cleared result.
\<close>

theorem query_knn_zero_leaves_result:
  "spatial_index_query_knn idx p 0 result = (SI_OK, result)
   \<and> (\<forall>k. k > 0 \<longrightarrow>
         spatial_index_query_knn idx p k result
           = spatial_index_query_knn idx p k (spatial_result_clear result))"
  by (simp add: spatial_index_query_knn_def spatial_result_clear_def)

theorem query_knn_zero_leaves_result_witness:
  "spatial_index_query_knn stale_index \<lparr>px = 5, py = 5\<rparr> 0
       \<lparr>res_objects = [(0, 1), (0, 0)], pages_accessed = 7\<rparr>
     = (SI_OK, \<lparr>res_objects = [(0, 1), (0, 0)], pages_accessed = 7\<rparr>)
   \<and> (0::nat) < 1
   \<and> spatial_index_query_knn stale_index \<lparr>px = 5, py = 5\<rparr> 1
       \<lparr>res_objects = [(0, 1), (0, 0)], pages_accessed = 7\<rparr>
     = (SI_OK, \<lparr>res_objects = [(0, 0)], pages_accessed = 0\<rparr>)"
proof -
  note t = query_knn_zero_leaves_result [where idx = stale_index and p = "\<lparr>px = 5, py = 5\<rparr>"
      and result = "\<lparr>res_objects = [(0, 1), (0, 0)], pages_accessed = 7\<rparr>"]
  then have "spatial_index_query_knn stale_index \<lparr>px = 5, py = 5\<rparr> 1
       \<lparr>res_objects = [(0, 1), (0, 0)], pages_accessed = 7\<rparr>
     = spatial_index_query_knn stale_index \<lparr>px = 5, py = 5\<rparr> 1
       (spatial_result_clear \<lparr>res_objects = [(0, 1), (0, 0)], pages_accessed = 7\<rparr>)"
    by (simp del: One_nat_def)
  with t show ?thesis by (simp add: knn_stale del: One_nat_def)
qed

section \<open>Verification: the eviction loop of the page cache\<close>

text \<open>The loop state in which \<open>page_cache_evict\<close> makes no progress: something is still to be
  evicted and the page of the tail entry is pinned.\<close>

definition evict_stuck :: "page_pool \<Rightarrow> nat \<Rightarrow> nat \<Rightarrow> page_cache \<Rightarrow> bool" where
  "evict_stuck pl n evicted c \<longleftrightarrow>
     evicted < n \<and> (\<exists>victim vrf. c_tail c = Some victim \<and> c_refs c victim = Some vrf
                            \<and> page_is_pinned pl (ref_page_id vrf))"

text \<open>If the loop returns, it was not started in a stuck state: a pinned tail is re-read by
  every iteration.\<close>

lemma evict_loop_stuck_aux:
  assumes ret: "page_cache_evict_loop pl n evicted c = Some c'"
  shows "\<not> evict_stuck pl n evicted c"
proof (rule page_cache_evict_loop.raw_induct
         [where P = "\<lambda>pl n evicted c c'. \<not> evict_stuck pl n evicted c", OF _ ret], goal_cases)
  case (1 f pl n evicted c c')
  show ?case
  proof
    assume st: "evict_stuck pl n evicted c"
    then obtain victim vrf where s: "evicted < n" "c_tail c = Some victim"
      "c_refs c victim = Some vrf" "page_is_pinned pl (ref_page_id vrf)"
      unfolding evict_stuck_def by blast
    with 1(2) have "f pl n evicted c = Some c'" by simp
    from 1(1) [OF this] st show False by blast
  qed
qed

lemma evict_loop_pinned_tail:
  assumes "evicted < n" "c_tail c = Some victim" "c_refs c victim = Some vrf"
    "page_is_pinned pl (ref_page_id vrf)"
  shows "page_cache_evict_loop pl n evicted c = None"
proof (cases "page_cache_evict_loop pl n evicted c")
  case None
  then show ?thesis .
next
  case (Some c')
  from evict_loop_stuck_aux [OF Some] assms show ?thesis
    unfolding evict_stuck_def by blast
qed

lemma get_first: "page_cache_get (page_cache_init 1) two_page_pool 1 100 = Some (Some 0, cache_one)"
  by (simp add: page_cache_get_def page_cache_init_def page_hash_def cache_lookup.simps
        two_page_pool_def page_pool_get_def page_create_def cache_one_def Let_def
        numeral_2_eq_2)

lemma pin_first:
  "page_is_pinned (snd (page_cache_pin two_page_pool 1)) 1"
  "fst (page_cache_pin two_page_pool 1) = PAGE_OK"
  "page_pool_get (snd (page_cache_pin two_page_pool 1)) 2 = Some 1"
  by (simp_all add: page_cache_pin_def page_is_pinned_def two_page_pool_def page_pool_get_def
        page_create_def PAGE_STATUS_PINNED_def PAGE_STATUS_ALLOCATED_def Let_def)

text \<open>Claim C9. The claim says that the eviction procedure terminates and that a \<open>get\<close> that
  misses on a full cache evicts an unpinned entry before inserting. With capacity 1: after
  \<open>get(1)\<close> the cache is full; after \<open>pin(1)\<close> the only entry, the tail, is pinned; then
  \<open>page_cache_evict(cache, 1)\<close> does not return, and neither does \<open>get(2)\<close>, which calls
  it.\<close>

theorem cache_get_diverges_on_pinned_tail:
  "page_cache_get (page_cache_init 1) two_page_pool 1 100 = Some (Some 0, cache_one)
   \<and> fst (page_cache_pin two_page_pool 1) = PAGE_OK
   \<and> c_count cache_one = c_capacity cache_one
   \<and> page_cache_evict cache_one (snd (page_cache_pin two_page_pool 1)) 1 = None
   \<and> page_cache_get cache_one (snd (page_cache_pin two_page_pool 1)) 2 200 = None"
proof -
  have l: "page_cache_evict_loop (snd (page_cache_pin two_page_pool 1)) 1 0 cache_one = None"
    by (rule evict_loop_pinned_tail [where victim = 0 and vrf = "\<lparr>ref_page_id = 1,
          ref_access_count = 1, ref_last_access = 100, ref_next = None, ref_prev = None\<rparr>"])
       (simp_all del: One_nat_def add: cache_one_def pin_first)
  then have e: "page_cache_evict cache_one (snd (page_cache_pin two_page_pool 1)) 1 = None"
    by (simp add: page_cache_evict_def)
  have g: "page_cache_get cache_one (snd (page_cache_pin two_page_pool 1)) 2 200 = None"
  proof -
    have lk: "cache_lookup (c_refs cache_one)
                (c_hash_table cache_one ! page_hash 2 (c_hash_size cache_one)) 2 = Some None"
      by (simp add: cache_one_def page_hash_def cache_lookup.simps)
    have cnt: "c_capacity cache_one \<le> c_count cache_one"
      by (simp add: cache_one_def)
    show ?thesis
      by (simp del: One_nat_def add: page_cache_get_def Let_def lk cnt pin_first e)
  qed
  have eq: "c_count cache_one = c_capacity cache_one"
    by (simp add: cache_one_def)
  from get_first pin_first(2) eq e g show ?thesis by blast
qed

section \<open>Verification: quadtree splits\<close>

lemmas qt_eval_defs =
  quadtree_create_def quadtree_init_def quadtree_insert_def
  quadtree_insert_with_centroid_def qtnode_create_def mbr_create_def mbr_intersects_def
  mbr_contains_mbr_def mbr_centroid_def point_create_def node_append_def mbr_is_empty_def
  qtnode_split_def redistribute_item_def child_takes_def child_append_def Let_def

lemma straddle_tree1_eq:
  "quadtree_insert straddle_tree0 1 (mbr_create 4 4 6 6) None =
     (QT_OK,
      \<lparr>qt_root = QTNode (mbr_create 0 0 10 10)
          [\<lparr>qi_id = 1, qi_bounds = mbr_create 4 4 6 6, qi_centroid = point_create 5 5,
            qi_data = None\<rparr>] 1 QTNull QTNull QTNull QTNull 0 True,
       qt_total_items = 1, qt_node_capacity = 1, qt_max_depth = 20\<rparr>)"
  by (simp add: straddle_tree0_def qt_eval_defs)

lemma straddle_tree2_eq:
  "quadtree_insert straddle_tree1 2 (mbr_create 1 1 2 2) None =
     (QT_OK,
      \<lparr>qt_root = QTNode (mbr_create 0 0 10 10) [] 1
        (qtnode_create (mbr_create 0 5 5 10) 1 1)
        (qtnode_create (mbr_create 5 5 10 10) 1 1)
        (QTNode (mbr_create 0 0 5 5)
           [\<lparr>qi_id = 2, qi_bounds = mbr_create 1 1 2 2, qi_centroid = point_create (3/2) (3/2),
             qi_data = None\<rparr>] 1 QTNull QTNull QTNull QTNull 1 True)
        (qtnode_create (mbr_create 5 0 10 5) 1 1) 0 False,
       qt_total_items = 2, qt_node_capacity = 1, qt_max_depth = 20\<rparr>)"
  unfolding straddle_tree1_def straddle_tree1_eq
  by (simp add: qt_eval_defs)

text \<open>Claim C1. The claim says that a split preserves every item of the leaf, the straddling
  ones staying in the parent, so that every successfully inserted item remains retrievable.
  \<open>qtnode_split\<close> ends with \<open>node->item_count = 0\<close>: an item that no child contains is
  dropped. Both inserts below return \<open>QT_OK\<close>; after the first, the tree holds item 1;
  after the second, \<open>quadtree_get_all\<close> yields item 2 only, while \<open>total_items\<close> is 2.\<close>

theorem split_drops_straddling_item:
  "fst (quadtree_insert straddle_tree0 1 (mbr_create 4 4 6 6) None) = QT_OK
   \<and> map qi_id (quadtree_get_all straddle_tree1) = [1]
   \<and> fst (quadtree_insert straddle_tree1 2 (mbr_create 1 1 2 2) None) = QT_OK
   \<and> map qi_id (quadtree_get_all straddle_tree2) = [2]
   \<and> qt_total_items straddle_tree2 = 2"
proof -
  have t1: "map qi_id (quadtree_get_all straddle_tree1) = [1]"
    unfolding straddle_tree1_def straddle_tree1_eq by (simp add: quadtree_get_all_def)
  have t2: "map qi_id (quadtree_get_all straddle_tree2) = [2]"
    "qt_total_items straddle_tree2 = 2"
    unfolding straddle_tree2_def straddle_tree2_eq
    by (simp_all add: quadtree_get_all_def qtnode_create_def)
  have s1: "fst (quadtree_insert straddle_tree0 1 (mbr_create 4 4 6 6) None) = QT_OK"
    unfolding straddle_tree1_eq by simp
  have s2: "fst (quadtree_insert straddle_tree1 2 (mbr_create 1 1 2 2) None) = QT_OK"
    unfolding straddle_tree2_eq by simp
  from s1 t1 s2 t2 show ?thesis by blast
qed

section \<open>Verification: k nearest neighbours on a built index\<close>

declare build_tree_recursive.simps [simp del]
declare k_nearest_loop.simps [simp del]

subsection \<open>The bulk-loaded tree holds every point and its range query over the tree bounds
  returns them all\<close>

text \<open>The entries of a tree in the order \<open>range_query_recursive\<close> visits them, and the trees
  in which that query prunes nothing and accepts every node.\<close>

fun kd_entries :: "'d kdnode \<Rightarrow> 'd kd_point_data list" where
  "kd_entries KDNull = []"
| "kd_entries (KDNode pt oid d sdim l r b n) =
     \<lparr>kp_point = pt, kp_object_id = oid, kp_data = d\<rparr> # kd_entries l @ kd_entries r"



lemma kdnode_update_bounds_entries [simp]:
  "kd_entries (kdnode_update_bounds node) = kd_entries node"
  by (cases node) (simp_all add: kdnode_update_bounds_def Let_def case_prod_beta)










subsection \<open>The selection sort of \<open>kdtree_k_nearest\<close>\<close>






subsection \<open>The points of a build and the converted result\<close>










subsection \<open>A set \<open>is_built\<close> flag means a current block tree\<close>






lemma create_block_block_tree [simp]:
  "block_tree (create_block idx b) = block_tree idx"
  by (simp add: create_block_def case_prod_beta)

lemma fold_create_block_block_tree [simp]:
  "block_tree (fold (\<lambda>b i. create_block i b) bs idx) = block_tree idx"
  by (induction bs arbitrary: idx) simp_all

lemma build_page_quadtree_status [simp]: "fst (build_page_quadtree idx) = SI_OK"
  by (simp add: build_page_quadtree_def Let_def)

lemma build_page_quadtree_is_built [simp]:
  "is_built (snd (build_page_quadtree idx)) = is_built idx"
  by (simp add: build_page_quadtree_def Let_def)



lemma find_adjacent_is_built [simp]:
  "is_built (fst (snd (spatial_index_find_adjacent_pages idx region))) = is_built idx"
  by (simp add: spatial_index_find_adjacent_pages_def Let_def case_prod_beta
        split: option.splits)









section \<open>Verification: page images\<close>

subsection \<open>Words and their bytes\<close>

lemma length_word_bytes [simp]: "length (word_bytes n w) = n"
  by (simp add: word_bytes_def)

lemma bit_bytes_word:
  "bit (bytes_word bs :: 'a::len word) k \<longleftrightarrow>
     k < LENGTH('a) \<and> k div 8 < length bs \<and> bit (bs ! (k div 8)) (k mod 8)"
proof (induction bs arbitrary: k)
  case Nil
  then show ?case by simp
next
  case (Cons b bs)
  show ?case
  proof (cases "k < 8")
    case True
    then show ?thesis
      by (auto simp: bit_or_iff bit_ucast_iff bit_push_bit_iff dest: bit_imp_le_length)
  next
    case False
    then have k: "8 \<le> k" by simp
    then have d: "k div 8 = Suc ((k - 8) div 8)" and m: "k mod 8 = (k - 8) mod 8"
      by (simp_all add: le_div_geq le_mod_geq)
    have nb: "\<not> bit b k" using False by (auto dest: bit_imp_le_length)
    from k show ?thesis
      by (auto simp: bit_or_iff bit_ucast_iff bit_push_bit_iff Cons.IH d m nb
               dest: bit_imp_le_length)
  qed
qed

lemma bytes_word_bytes:
  assumes "LENGTH('a::len) \<le> 8 * n"
  shows "bytes_word (word_bytes n (w :: 'a word)) = w"
proof (rule bit_word_eqI)
  fix k assume k: "k < LENGTH('a)"
  with assms have "k div 8 < n" by (simp add: less_mult_imp_div_less mult.commute)
  moreover have "8 * (k div 8) + k mod 8 = k" by simp
  ultimately show "bit (bytes_word (word_bytes n w) :: 'a word) k \<longleftrightarrow> bit w k"
    using k by (simp add: bit_bytes_word word_bytes_def bit_ucast_iff bit_drop_bit_eq)
qed

lemma bytes_word32 [simp]: "bytes_word (word_bytes 4 (w :: 32 word)) = w"
  by (rule bytes_word_bytes) simp

lemma bytes_word64 [simp]: "bytes_word (word_bytes 8 (w :: 64 word)) = w"
  by (rule bytes_word_bytes) simp

subsection \<open>The image of a page\<close>

text \<open>The 60 bytes of an object in the image, and the target array after the first slots were
  overwritten from a list of objects.\<close>

declare serialize_objects.simps [simp del]
declare deserialize_objects.simps [simp del]

definition object_bytes :: "'g raw_object \<Rightarrow> 8 word list" where
  "object_bytes obj =
     word_bytes 8 (ro_id obj) @ word_bytes 4 (ro_type obj)
     @ point_bytes (ro_centroid obj) @ mbr_bytes (ro_mbr obj)"

lemma length_point_bytes [simp]: "length (point_bytes p) = 16"
  by (simp add: point_bytes_def)

lemma length_mbr_bytes [simp]: "length (mbr_bytes m) = 32"
  by (simp add: mbr_bytes_def)

lemma length_header_bytes [simp]: "length (header_bytes h) = 72"
  by (simp add: header_bytes_def)

lemma length_object_bytes [simp]: "length (object_bytes obj) = 60"
  by (simp add: object_bytes_def)

lemma bytes_point_bytes [simp]: "bytes_point (point_bytes p) = p"
  by (simp add: bytes_point_def point_bytes_def)

lemma bytes_mbr_bytes [simp]: "bytes_mbr (mbr_bytes m) = m"
  by (simp add: bytes_mbr_def mbr_bytes_def)

lemma bytes_header_bytes [simp]: "bytes_header (header_bytes h) = h"
  by (simp add: bytes_header_def header_bytes_def)

lemma write_bytes_zeros:
  "length P = offset \<Longrightarrow> length src \<le> m \<Longrightarrow>
   write_bytes (P @ replicate m 0) offset src = Some ((P @ src) @ replicate (m - length src) 0)"
  by (simp add: write_bytes_def)

lemma read_bytes_at:
  "length P = offset \<Longrightarrow> length X = n \<Longrightarrow> read_bytes (P @ X @ R) offset n = Some X"
  by (simp add: read_bytes_def)

fun restore_objects ::
  "'g raw_object list \<Rightarrow> nat \<Rightarrow> 'g raw_object list \<Rightarrow> 'g raw_object list" where
  "restore_objects objs i [] = objs"
| "restore_objects objs i (s # ss) =
     restore_objects
       (objs[i := (objs ! i)\<lparr>ro_id := ro_id s, ro_type := ro_type s,
                              ro_centroid := ro_centroid s, ro_mbr := ro_mbr s\<rparr>])
       (i + 1) ss"

lemma length_restore_objects [simp]: "length (restore_objects objs i srcs) = length objs"
  by (induction srcs arbitrary: objs i) simp_all

lemma restore_objects_nth:
  "i + length srcs \<le> length objs \<Longrightarrow> j < length objs \<Longrightarrow>
   restore_objects objs i srcs ! j =
     (if i \<le> j \<and> j < i + length srcs
      then (objs ! j)\<lparr>ro_id := ro_id (srcs ! (j - i)), ro_type := ro_type (srcs ! (j - i)),
                       ro_centroid := ro_centroid (srcs ! (j - i)),
                       ro_mbr := ro_mbr (srcs ! (j - i))\<rparr>
      else objs ! j)"
proof (induction srcs arbitrary: objs i)
  case Nil
  then show ?case by auto
next
  case (Cons s ss)
  let ?objs = "objs[i := (objs ! i)\<lparr>ro_id := ro_id s, ro_type := ro_type s,
                              ro_centroid := ro_centroid s, ro_mbr := ro_mbr s\<rparr>]"
  from Cons.prems have p: "i + 1 + length ss \<le> length ?objs" "j < length ?objs" by simp_all
  show ?case
  proof (cases "j = i")
    case True
    with Cons.IH [OF p] Cons.prems show ?thesis by simp
  next
    case False
    have "(s # ss) ! (j - i) = ss ! (j - (i + 1))" if "i \<le> j"
    proof -
      from that False have "j - i = Suc (j - (i + 1))" by simp
      then show ?thesis by simp
    qed
    with False Cons.IH [OF p] show ?thesis by auto
  qed
qed

lemma serialize_objects_image:
  assumes "d = cnt - i" "i \<le> cnt" "cnt \<le> length objs" "length P = offset" "60 * (cnt - i) \<le> m"
  shows "serialize_objects objs i cnt offset (P @ replicate m 0)
         = Some (P @ concat (map object_bytes (take (cnt - i) (drop i objs)))
                   @ replicate (m - 60 * (cnt - i)) 0)"
  using assms
proof (induction d arbitrary: i P offset m)
  case 0
  then have "i = cnt" by simp
  then show ?case by (subst serialize_objects.simps) simp
next
  case (Suc d)
  then have lt: "i < cnt" "i < length objs" by simp_all
  let ?o = "objs ! i"
  from Suc.prems have m60: "60 \<le> m" by simp
  have w1: "write_bytes (P @ replicate m 0) offset (word_bytes 8 (ro_id ?o))
            = Some ((P @ word_bytes 8 (ro_id ?o)) @ replicate (m - 8) 0)"
    using write_bytes_zeros [of P offset "word_bytes 8 (ro_id ?o)" m] Suc.prems(4) m60 by simp
  have w2: "write_bytes ((P @ word_bytes 8 (ro_id ?o)) @ replicate (m - 8) 0) (offset + 8)
              (word_bytes 4 (ro_type ?o))
            = Some ((P @ word_bytes 8 (ro_id ?o) @ word_bytes 4 (ro_type ?o))
                    @ replicate (m - 12) 0)"
    using write_bytes_zeros [of "P @ word_bytes 8 (ro_id ?o)" "offset + 8"
            "word_bytes 4 (ro_type ?o)" "m - 8"] Suc.prems(4) m60 by simp
  have w3: "write_bytes ((P @ word_bytes 8 (ro_id ?o) @ word_bytes 4 (ro_type ?o))
                    @ replicate (m - 12) 0) (offset + 8 + 4) (point_bytes (ro_centroid ?o))
            = Some ((P @ word_bytes 8 (ro_id ?o) @ word_bytes 4 (ro_type ?o)
                       @ point_bytes (ro_centroid ?o)) @ replicate (m - 28) 0)"
    using write_bytes_zeros [of "P @ word_bytes 8 (ro_id ?o) @ word_bytes 4 (ro_type ?o)"
            "offset + 8 + 4" "point_bytes (ro_centroid ?o)" "m - 12"] Suc.prems(4) m60 by simp
  have w4: "write_bytes ((P @ word_bytes 8 (ro_id ?o) @ word_bytes 4 (ro_type ?o)
                       @ point_bytes (ro_centroid ?o)) @ replicate (m - 28) 0)
              (offset + 8 + 4 + 16) (mbr_bytes (ro_mbr ?o))
            = Some ((P @ object_bytes ?o) @ replicate (m - 60) 0)"
    using write_bytes_zeros [of "P @ word_bytes 8 (ro_id ?o) @ word_bytes 4 (ro_type ?o)
                       @ point_bytes (ro_centroid ?o)"
            "offset + 8 + 4 + 16" "mbr_bytes (ro_mbr ?o)" "m - 28"] Suc.prems(4) m60
    by (simp add: object_bytes_def)
  have step: "serialize_objects objs i cnt offset (P @ replicate m 0)
        = serialize_objects objs (i + 1) cnt (offset + 8 + 4 + 16 + 32)
            ((P @ object_bytes ?o) @ replicate (m - 60) 0)"
    using lt by (subst serialize_objects.simps) (simp only: w1 w2 w3 w4 if_True option.case)
  from Suc.prems have ih: "d = cnt - (i + 1)" "i + 1 \<le> cnt"
    "length (P @ object_bytes ?o) = offset + 8 + 4 + 16 + 32"
    "60 * (cnt - (i + 1)) \<le> m - 60" by simp_all
  from lt have tk: "take (cnt - i) (drop i objs) = ?o # take (cnt - (i + 1)) (drop (i + 1) objs)"
    by (simp add: Cons_nth_drop_Suc [symmetric] Suc_diff_Suc [symmetric] del: Cons_nth_drop_Suc)
  from lt Suc.prems have ar: "m - 60 - 60 * (cnt - (i + 1)) = m - 60 * (cnt - i)" by simp
  show ?case
    unfolding step Suc.IH [OF ih(1) ih(2) Suc.prems(3) ih(3) ih(4)] tk ar by simp
qed

lemma deserialize_objects_image:
  assumes "i + length srcs = cnt" "cnt \<le> length objs" "length P = offset"
  shows "deserialize_objects objs i cnt offset (P @ concat (map object_bytes srcs) @ R)
         = Some (restore_objects objs i srcs)"
  using assms
proof (induction srcs arbitrary: objs i P offset)
  case Nil
  then have "i = cnt" by simp
  then show ?case by (subst deserialize_objects.simps) simp
next
  case (Cons s ss)
  then have lt: "i < cnt" "i < length objs" by simp_all
  let ?T = "concat (map object_bytes ss) @ R"
  let ?buf = "P @ concat (map object_bytes (s # ss)) @ R"
  have r1: "read_bytes ?buf offset 8 = Some (word_bytes 8 (ro_id s))"
    using read_bytes_at [of P offset "word_bytes 8 (ro_id s)" 8
            "word_bytes 4 (ro_type s) @ point_bytes (ro_centroid s) @ mbr_bytes (ro_mbr s) @ ?T"]
      Cons.prems(3) by (simp add: object_bytes_def)
  have r2: "read_bytes ?buf (offset + 8) 4 = Some (word_bytes 4 (ro_type s))"
    using read_bytes_at [of "P @ word_bytes 8 (ro_id s)" "offset + 8" "word_bytes 4 (ro_type s)" 4
            "point_bytes (ro_centroid s) @ mbr_bytes (ro_mbr s) @ ?T"]
      Cons.prems(3) by (simp add: object_bytes_def)
  have r3: "read_bytes ?buf (offset + 8 + 4) 16 = Some (point_bytes (ro_centroid s))"
    using read_bytes_at [of "P @ word_bytes 8 (ro_id s) @ word_bytes 4 (ro_type s)" "offset + 8 + 4"
            "point_bytes (ro_centroid s)" 16 "mbr_bytes (ro_mbr s) @ ?T"]
      Cons.prems(3) by (simp add: object_bytes_def)
  have r4: "read_bytes ?buf (offset + 8 + 4 + 16) 32 = Some (mbr_bytes (ro_mbr s))"
    using read_bytes_at [of "P @ word_bytes 8 (ro_id s) @ word_bytes 4 (ro_type s)
                              @ point_bytes (ro_centroid s)" "offset + 8 + 4 + 16"
            "mbr_bytes (ro_mbr s)" 32 ?T]
      Cons.prems(3) by (simp add: object_bytes_def)
  let ?objs = "objs[i := (objs ! i)\<lparr>ro_id := ro_id s, ro_type := ro_type s,
                              ro_centroid := ro_centroid s, ro_mbr := ro_mbr s\<rparr>]"
  have step: "deserialize_objects objs i cnt offset ?buf
        = deserialize_objects ?objs (i + 1) cnt (offset + 8 + 4 + 16 + 32) ?buf"
    using lt
    by (subst deserialize_objects.simps)
       (simp only: r1 r2 r3 r4 if_True option.case bytes_word64 bytes_word32
          bytes_point_bytes bytes_mbr_bytes)
  have buf: "?buf = (P @ object_bytes s) @ concat (map object_bytes ss) @ R" by simp
  from Cons.prems have ih: "i + 1 + length ss = cnt" "cnt \<le> length ?objs"
    "length (P @ object_bytes s) = offset + 8 + 4 + 16 + 32" by simp_all
  show ?case
    unfolding step
    by (subst buf) (simp only: Cons.IH [OF ih] restore_objects.simps)
qed

subsection \<open>The round trip\<close>

lemma page_serialize_image:
  assumes c: "unat (rh_object_count (rpg_header pg)) \<le> MAX_OBJECTS_PER_PAGE"
    and o: "unat (rh_object_count (rpg_header pg)) \<le> length (rpg_objects pg)"
    and b: "PAGE_SIZE \<le> length buffer"
  shows "page_serialize pg buffer
         = Some (PAGE_OK,
                 header_bytes (rpg_header pg)
                 @ concat (map object_bytes
                             (take (unat (rh_object_count (rpg_header pg))) (rpg_objects pg)))
                 @ replicate (length buffer - 72
                                - 60 * unat (rh_object_count (rpg_header pg))) 0)"
proof -
  let ?cnt = "unat (rh_object_count (rpg_header pg))"
  let ?hb = "header_bytes (rpg_header pg)"
  from b have len: "4096 \<le> length buffer" by (simp add: PAGE_SIZE_def)
  from c have cnt: "?cnt \<le> 64" by (simp add: MAX_OBJECTS_PER_PAGE_def)
  have w: "write_bytes (replicate (length buffer) 0) 0 ?hb
           = Some (?hb @ replicate (length buffer - 72) 0)"
    using write_bytes_zeros [of "[]" 0 ?hb "length buffer"] len by simp
  from cnt len have sz: "60 * (?cnt - 0) \<le> length buffer - 72" by simp
  have s: "serialize_objects (rpg_objects pg) 0 ?cnt 72 (?hb @ replicate (length buffer - 72) 0)
           = Some (?hb @ concat (map object_bytes (take ?cnt (rpg_objects pg)))
                     @ replicate (length buffer - 72 - 60 * ?cnt) 0)"
    using serialize_objects_image [OF refl _ o _ sz, of ?hb 72] by simp
  from len show ?thesis
    by (simp add: page_serialize_def PAGE_SIZE_def SIZEOF_PAGE_HEADER_def w s)
qed

lemma page_deserialize_image:
  assumes c: "unat (rh_object_count h) \<le> MAX_OBJECTS_PER_PAGE"
    and s: "length srcs = unat (rh_object_count h)"
    and t: "unat (rh_object_count h) \<le> length (rpg_objects target)"
    and b: "PAGE_SIZE \<le> length (header_bytes h @ concat (map object_bytes srcs) @ R)"
  shows "page_deserialize target (header_bytes h @ concat (map object_bytes srcs) @ R)
         = Some (PAGE_OK,
                 target\<lparr>rpg_header := h,
                        rpg_objects := restore_objects (rpg_objects target) 0 srcs,
                        rpg_in_memory := True\<rparr>)"
proof -
  let ?buf = "header_bytes h @ concat (map object_bytes srcs) @ R"
  have r: "read_bytes ?buf 0 72 = Some (header_bytes h)"
    using read_bytes_at [of "[]" 0 "header_bytes h" 72 "concat (map object_bytes srcs) @ R"]
    by simp
  have d: "deserialize_objects (rpg_objects target) 0 (unat (rh_object_count h)) 72 ?buf
           = Some (restore_objects (rpg_objects target) 0 srcs)"
    using deserialize_objects_image [of 0 srcs "unat (rh_object_count h)" "rpg_objects target"
            "header_bytes h" 72 R] s t by simp
  from b c show ?thesis
    by (simp add: page_deserialize_def SIZEOF_PAGE_HEADER_def r d Let_def)
qed

text \<open>
  Claim C8. Let the page have \<open>object_count \<le> MAX_OBJECTS_PER_PAGE\<close> objects in its array,
  let the buffer have at least \<open>PAGE_SIZE\<close> bytes and the target page at least
  \<open>object_count\<close> slots. Then \<open>page_serialize\<close> succeeds, and \<open>page_deserialize\<close> of the
  buffer it filled succeeds and gives a page whose header equals the original header (all
  seven fields) and whose first \<open>object_count\<close> slots carry, in order, the original
  \<open>id\<close>, \<open>type\<close>, \<open>centroid\<close> and \<open>mbr\<close>; the geometry of a slot is that of the target,
  as it is not part of the image.
\<close>

theorem page_serialize_deserialize_round_trip:
  fixes pg target :: "'g raw_page"
  assumes "unat (rh_object_count (rpg_header pg)) \<le> MAX_OBJECTS_PER_PAGE"
    and "unat (rh_object_count (rpg_header pg)) \<le> length (rpg_objects pg)"
    and "unat (rh_object_count (rpg_header pg)) \<le> length (rpg_objects target)"
    and "PAGE_SIZE \<le> length buffer"
  shows "\<exists>image pg'.
           page_serialize pg buffer = Some (PAGE_OK, image)
         \<and> length image = length buffer
         \<and> page_deserialize target image = Some (PAGE_OK, pg')
         \<and> rpg_header pg' = rpg_header pg
         \<and> length (rpg_objects pg') = length (rpg_objects target)
         \<and> (\<forall>i < unat (rh_object_count (rpg_header pg)).
               ro_id (rpg_objects pg' ! i) = ro_id (rpg_objects pg ! i)
             \<and> ro_type (rpg_objects pg' ! i) = ro_type (rpg_objects pg ! i)
             \<and> ro_centroid (rpg_objects pg' ! i) = ro_centroid (rpg_objects pg ! i)
             \<and> ro_mbr (rpg_objects pg' ! i) = ro_mbr (rpg_objects pg ! i)
             \<and> ro_geom (rpg_objects pg' ! i) = ro_geom (rpg_objects target ! i))"
proof -
  let ?cnt = "unat (rh_object_count (rpg_header pg))"
  let ?srcs = "take ?cnt (rpg_objects pg)"
  let ?R = "replicate (length buffer - 72 - 60 * ?cnt) (0 :: 8 word)"
  let ?image = "header_bytes (rpg_header pg) @ concat (map object_bytes ?srcs) @ ?R"
  let ?pg' = "target\<lparr>rpg_header := rpg_header pg,
                     rpg_objects := restore_objects (rpg_objects target) 0 ?srcs,
                     rpg_in_memory := True\<rparr>"
  from assms(1) have cnt: "?cnt \<le> 64" by (simp add: MAX_OBJECTS_PER_PAGE_def)
  from assms(4) have len: "4096 \<le> length buffer" by (simp add: PAGE_SIZE_def)
  from assms(2) have ls: "length ?srcs = ?cnt" by simp
  have lc: "length (concat (map object_bytes ?srcs)) = 60 * ?cnt"
    using ls by (simp add: length_concat comp_def sum_list_triv)
  from cnt len have li: "length ?image = length buffer" by (simp add: lc)
  have ser: "page_serialize pg buffer = Some (PAGE_OK, ?image)"
    by (rule page_serialize_image [OF assms(1,2,4)])
  have des: "page_deserialize target ?image = Some (PAGE_OK, ?pg')"
    using page_deserialize_image [OF assms(1) ls assms(3), of ?R] assms(4) li by simp
  have flds: "ro_id (rpg_objects ?pg' ! i) = ro_id (rpg_objects pg ! i)
             \<and> ro_type (rpg_objects ?pg' ! i) = ro_type (rpg_objects pg ! i)
             \<and> ro_centroid (rpg_objects ?pg' ! i) = ro_centroid (rpg_objects pg ! i)
             \<and> ro_mbr (rpg_objects ?pg' ! i) = ro_mbr (rpg_objects pg ! i)
             \<and> ro_geom (rpg_objects ?pg' ! i) = ro_geom (rpg_objects target ! i)"
    if "i < ?cnt" for i
  proof -
    from that assms(3) ls have "0 + length ?srcs \<le> length (rpg_objects target)"
      "i < length (rpg_objects target)" by simp_all
    from restore_objects_nth [OF this] that assms(2) show ?thesis by simp
  qed
  from ser li des flds show ?thesis
    by (intro exI [of _ ?image] exI [of _ ?pg']) simp
qed

theorem page_serialize_deserialize_round_trip_witness:
  "unat (rh_object_count (rpg_header stored_raw_page)) \<le> MAX_OBJECTS_PER_PAGE
   \<and> unat (rh_object_count (rpg_header stored_raw_page)) \<le> length (rpg_objects stored_raw_page)
   \<and> unat (rh_object_count (rpg_header stored_raw_page)) \<le> length (rpg_objects blank_raw_page)
   \<and> PAGE_SIZE \<le> length (replicate 4096 (255 :: 8 word))
   \<and> (\<exists>image pg'.
          page_serialize stored_raw_page (replicate 4096 255) = Some (PAGE_OK, image)
        \<and> page_deserialize blank_raw_page image = Some (PAGE_OK, pg')
        \<and> rpg_header pg' = rpg_header stored_raw_page
        \<and> ro_id (rpg_objects pg' ! 0) = 7
        \<and> ro_centroid (rpg_objects pg' ! 0)
            = \<lparr>rp_x = 0x4008000000000000, rp_y = 0x4010000000000000\<rparr>)"
proof -
  have h: "unat (rh_object_count (rpg_header stored_raw_page)) \<le> MAX_OBJECTS_PER_PAGE"
    "unat (rh_object_count (rpg_header stored_raw_page)) \<le> length (rpg_objects stored_raw_page)"
    "unat (rh_object_count (rpg_header stored_raw_page)) \<le> length (rpg_objects blank_raw_page)"
    "PAGE_SIZE \<le> length (replicate 4096 (255 :: 8 word))"
    by (simp_all add: stored_raw_page_def blank_raw_page_def MAX_OBJECTS_PER_PAGE_def PAGE_SIZE_def)
  have c: "unat (rh_object_count (rpg_header stored_raw_page)) = 1"
    by (simp add: stored_raw_page_def)
  from page_serialize_deserialize_round_trip [OF h]
  obtain image pg' where
    r: "page_serialize stored_raw_page (replicate 4096 255) = Some (PAGE_OK, image)"
      "page_deserialize blank_raw_page image = Some (PAGE_OK, pg')"
      "rpg_header pg' = rpg_header stored_raw_page"
    and f: "\<forall>i < unat (rh_object_count (rpg_header stored_raw_page)).
               ro_id (rpg_objects pg' ! i) = ro_id (rpg_objects stored_raw_page ! i)
             \<and> ro_type (rpg_objects pg' ! i) = ro_type (rpg_objects stored_raw_page ! i)
             \<and> ro_centroid (rpg_objects pg' ! i) = ro_centroid (rpg_objects stored_raw_page ! i)
             \<and> ro_mbr (rpg_objects pg' ! i) = ro_mbr (rpg_objects stored_raw_page ! i)
             \<and> ro_geom (rpg_objects pg' ! i) = ro_geom (rpg_objects blank_raw_page ! i)"
    by blast
  from f c have "ro_id (rpg_objects pg' ! 0) = ro_id (rpg_objects stored_raw_page ! 0)"
    "ro_centroid (rpg_objects pg' ! 0) = ro_centroid (rpg_objects stored_raw_page ! 0)"
    by simp_all
  then have g: "ro_id (rpg_objects pg' ! 0) = 7"
    "ro_centroid (rpg_objects pg' ! 0)
       = \<lparr>rp_x = 0x4008000000000000, rp_y = 0x4010000000000000\<rparr>"
    by (simp_all add: stored_raw_page_def)
  from h r g show ?thesis by blast
qed

end
